theory Spec2Isabelle
  imports Main "HOL-Library.Sublist"
begin

section \<open>The workflow initializer (init-workflow.py)\<close>

text \<open>
  The script creates a fixed tree of directories under \<open><project>/.claude-workflow\<close>,
  optionally copies template files, and writes a configuration file, six state documents
  and a README. The model below follows the script method by method.

  Strings are byte strings: a Python \<open>str\<close> is represented by its UTF-8 encoding, which
  is what the script writes to disk (\<open>encoding="utf-8"\<close>). Text beyond ASCII is written as
  a list of Unicode code points passed through \<open>utf8\<close>.
\<close>

subsection \<open>Strings\<close>

definition utf8_char :: "nat \<Rightarrow> string" where
  "utf8_char n =
     (if n < 0x80 then [char_of n]
      else if n < 0x800 then [char_of (0xC0 + n div 64), char_of (0x80 + n mod 64)]
      else if n < 0x10000 then
        [char_of (0xE0 + n div 4096), char_of (0x80 + n div 64 mod 64), char_of (0x80 + n mod 64)]
      else
        [char_of (0xF0 + n div 262144), char_of (0x80 + n div 4096 mod 64),
         char_of (0x80 + n div 64 mod 64), char_of (0x80 + n mod 64)])"

definition utf8 :: "nat list \<Rightarrow> string" where
  "utf8 ns = concat (map utf8_char ns)"

text \<open>\<open>str.split(sep)\<close> for a one-character separator: the pieces between the
  separators, empty pieces included; the empty string gives one empty piece.\<close>

fun split :: "char \<Rightarrow> string \<Rightarrow> string list" where
  "split sep [] = [[]]"
| "split sep (c # cs) =
     (if c = sep then [] # split sep cs
      else (case split sep cs of
              [] \<Rightarrow> [[c]]
            | piece # pieces \<Rightarrow> (c # piece) # pieces))"

text \<open>\<open>str.lower()\<close>. The model lowers the ASCII letters and leaves every other byte as
  it is. Python also lowers letters beyond ASCII; the script only compares the result with
  ASCII platform identifiers, and no code point beyond ASCII lowers to an ASCII string
  other than the Kelvin sign, which lowers to \<open>k\<close>, a letter no platform identifier has.\<close>

definition lower_char :: "char \<Rightarrow> char" where
  "lower_char c =
     (if (65::nat) \<le> of_char c \<and> of_char c \<le> (90::nat)
      then char_of (of_char c + (32::nat)) else c)"

definition lower :: "string \<Rightarrow> string" where
  "lower s = map lower_char s"

text \<open>\<open>str.replace(old, new)\<close>: every non-overlapping occurrence, left to right.\<close>

function replace :: "string \<Rightarrow> string \<Rightarrow> string \<Rightarrow> string" where
  "replace old new s =
     (if old = [] then new @ concat (map (\<lambda>c. c # new) s)
      else if s = [] then []
      else if prefix old s then new @ replace old new (drop (length old) s)
      else hd s # replace old new (tl s))"
  by pat_completeness auto
termination
  by (relation "measure (\<lambda>(old, new, s). length s)") auto

declare replace.simps [simp del]

subsection \<open>Paths and the file system\<close>

text \<open>
  A path is the list of its components from the root, already absolute and resolved.
  The file system is a map from paths to nodes; the script follows no links of its own,
  so the model has none. States that arise in practice are trees (the parent of every
  node is a directory); in such a state the order of the checks below agrees with the
  operating system's.
\<close>

type_synonym path = "string list"

datatype node = Dir | File string

type_synonym filesys = "path \<Rightarrow> node option"

datatype error =
    FileNotFoundError path
  | FileExistsError path
  | NotADirectoryError path
  | IsADirectoryError path
  | SameFileError path

text \<open>What a run does to the outside: lines printed, directories made, files written.\<close>

datatype event = Print string | Mkdir path | Write path

record world =
  files :: filesys
  events :: "event list"

type_synonym outcome = "error option \<times> world"

text \<open>\<open>Path.parent\<close> and \<open>Path.name\<close>; the root is its own parent and has the empty name.\<close>

definition parent :: "path \<Rightarrow> path" where
  "parent p = butlast p"

definition path_name :: "path \<Rightarrow> string" where
  "path_name p = (if p = [] then [] else last p)"

text \<open>The \<open>/\<close> operator of \<open>pathlib\<close> with a relative string on the right: its components
  are appended; empty components and \<open>.\<close> are dropped.\<close>

definition parts :: "string \<Rightarrow> path" where
  "parts s = filter (\<lambda>c. c \<noteq> [] \<and> c \<noteq> ''.'') (split CHR ''/'' s)"

definition join :: "path \<Rightarrow> string \<Rightarrow> path" where
  "join p s = p @ parts s"

definition is_dir :: "world \<Rightarrow> path \<Rightarrow> bool" where
  "is_dir w p = (files w p = Some Dir)"

definition exists_path :: "world \<Rightarrow> path \<Rightarrow> bool" where
  "exists_path w p = (files w p \<noteq> None)"

definition emit :: "event \<Rightarrow> world \<Rightarrow> world" where
  "emit e w = w\<lparr>events := events w @ [e]\<rparr>"

definition print :: "string \<Rightarrow> world \<Rightarrow> outcome" where
  "print s w = (None, emit (Print s) w)"

text \<open>Statements in sequence: the first exception ends the run, keeping what was done.\<close>

fun steps :: "(world \<Rightarrow> outcome) list \<Rightarrow> world \<Rightarrow> outcome" where
  "steps [] w = (None, w)"
| "steps (f # fs) w =
     (case f w of
        (None, w') \<Rightarrow> steps fs w'
      | (Some e, w') \<Rightarrow> (Some e, w'))"

definition for_each :: "('a \<Rightarrow> world \<Rightarrow> outcome) \<Rightarrow> 'a list \<Rightarrow> world \<Rightarrow> outcome" where
  "for_each body xs = steps (map body xs)"

text \<open>\<open>os.mkdir\<close>: one directory, whose parent must be a directory.\<close>

definition os_mkdir :: "path \<Rightarrow> world \<Rightarrow> outcome" where
  "os_mkdir p w =
     (if files w p \<noteq> None then (Some (FileExistsError p), w)
      else (case files w (parent p) of
              None \<Rightarrow> (Some (FileNotFoundError p), w)
            | Some (File c) \<Rightarrow> (Some (NotADirectoryError p), w)
            | Some Dir \<Rightarrow> (None, emit (Mkdir p) (w\<lparr>files := (files w)(p \<mapsto> Dir)\<rparr>))))"

fun is_not_found :: "error \<Rightarrow> bool" where
  "is_not_found (FileNotFoundError p) = True"
| "is_not_found e = False"

text \<open>\<open>Path.mkdir(parents=False, exist_ok=True)\<close>: a missing parent is raised, any
  other error is swallowed when the path is a directory.\<close>

definition mkdir_exist_ok :: "path \<Rightarrow> world \<Rightarrow> outcome" where
  "mkdir_exist_ok p w =
     (case os_mkdir p w of
        (None, w') \<Rightarrow> (None, w')
      | (Some e, w') \<Rightarrow>
          if is_not_found e then (Some e, w')
          else if is_dir w' p then (None, w')
          else (Some e, w'))"

text \<open>\<open>Path.mkdir(parents=True, exist_ok=True)\<close>, as \<open>pathlib\<close> writes it: try
  \<open>os.mkdir\<close>; on a missing parent make the parent the same way and try once more.\<close>

function mkdir :: "path \<Rightarrow> world \<Rightarrow> outcome" where
  "mkdir p w =
     (case os_mkdir p w of
        (None, w') \<Rightarrow> (None, w')
      | (Some e, w') \<Rightarrow>
          if is_not_found e then
            (if parent p = p then (Some e, w')
             else (case mkdir (parent p) w' of
                     (None, w1) \<Rightarrow> mkdir_exist_ok p w1
                   | (Some e1, w1) \<Rightarrow> (Some e1, w1)))
          else if is_dir w' p then (None, w')
          else (Some e, w'))"
  by pat_completeness auto
termination
proof (relation "measure (\<lambda>(p, w). length p)")
  show "wf (measure (\<lambda>(p, w). length p))" by simp
next
  fix p :: path and w :: world and x e w'
  assume "parent p \<noteq> p"
  then have "p \<noteq> []" by (auto simp: parent_def)
  then show "((parent p, w'), (p, w)) \<in> measure (\<lambda>(p, w). length p)"
    by (simp add: parent_def)
qed

declare mkdir.simps [simp del]

text \<open>Opening a file for writing and writing its whole content (\<open>open(p, "w")\<close>,
  \<open>Path.write_text\<close>): a directory cannot be opened, the parent must be a directory, an
  existing file is replaced.\<close>

definition write_text :: "path \<Rightarrow> string \<Rightarrow> world \<Rightarrow> outcome" where
  "write_text p content w =
     (case files w p of
        Some Dir \<Rightarrow> (Some (IsADirectoryError p), w)
      | Some (File old) \<Rightarrow> (None, emit (Write p) (w\<lparr>files := (files w)(p \<mapsto> File content)\<rparr>))
      | None \<Rightarrow>
          (case files w (parent p) of
             None \<Rightarrow> (Some (FileNotFoundError p), w)
           | Some (File c) \<Rightarrow> (Some (NotADirectoryError p), w)
           | Some Dir \<Rightarrow> (None, emit (Write p) (w\<lparr>files := (files w)(p \<mapsto> File content)\<rparr>))))"

text \<open>\<open>shutil.copy2(src, dst)\<close>: a destination that is a directory stands for the file
  of the source's name inside it; copying a file onto itself is refused; the source is
  opened for reading, then the destination for writing. File metadata is not modelled.
  Here a path name is taken for the file itself, as on a file system without links; the
  copy on a file system with links is \<open>copy2_via\<close> below, of which this is the case
  where every name denotes itself.\<close>

definition copy2 :: "path \<Rightarrow> path \<Rightarrow> world \<Rightarrow> outcome" where
  "copy2 src dst w =
     (let dst' = (if is_dir w dst then join dst (path_name src) else dst) in
      if exists_path w src \<and> src = dst' then (Some (SameFileError src), w)
      else (case files w src of
              None \<Rightarrow> (Some (FileNotFoundError src), w)
            | Some Dir \<Rightarrow> (Some (IsADirectoryError src), w)
            | Some (File content) \<Rightarrow> write_text dst' content w))"

subsection \<open>The initializer\<close>

text \<open>The surroundings of a run: \<open>resolve\<close> gives the absolute path that a path string
  denotes for the operating system (from the current directory), and the clock gives the
  date.\<close>

record datetime =
  year :: nat
  month :: nat
  day :: nat

definition digit :: "nat \<Rightarrow> char" where
  "digit n = char_of (48 + n mod 10)"

text \<open>\<open>strftime("%Y-%m-%d")\<close>: four digits of the year, two of the month, two of the day.\<close>

definition strftime_ymd :: "datetime \<Rightarrow> string" where
  "strftime_ymd d =
     [digit (year d div 1000), digit (year d div 100), digit (year d div 10), digit (year d)]
     @ ''-'' @ [digit (month d div 10), digit (month d)]
     @ ''-'' @ [digit (day d div 10), digit (day d)]"

text \<open>\<open>WorkflowInitializer.__init__\<close>: the resolved project path, the workflow directory
  below it, and the date of the run as text.\<close>

record initializer =
  project_path :: path
  workflow_dir :: path
  date :: string

definition WorkflowInitializer :: "(string \<Rightarrow> path) \<Rightarrow> datetime \<Rightarrow> string \<Rightarrow> initializer" where
  "WorkflowInitializer resolve now path_arg =
     \<lparr>project_path = resolve path_arg,
      workflow_dir = join (resolve path_arg) ''.claude-workflow'',
      date = strftime_ymd now\<rparr>"

text \<open>The directory manifest of \<open>create_directories\<close>.\<close>

definition dirs :: "string list" where
  "dirs = [
     ''01-requirements/raw-requirements'',
     ''01-requirements/functional-requirements'',
     ''01-requirements/user-stories'',
     ''02-planning'',
     ''03-design/architecture/adr'',
     ''03-design/technical-solutions'',
     ''03-design/api-design'',
     ''03-design/database-design'',
     ''04-implementation/implementation-plans'',
     ''04-implementation/code-mapping'',
     ''04-implementation/implementation-logs'',
     ''05-verification/test-plans'',
     ''05-verification/test-cases'',
     ''05-verification/verification-reports'',
     ''06-documentation/technical-docs'',
     ''06-documentation/user-guides'',
     ''06-documentation/api-docs'',
     ''07-platforms/gateway/requirements'',
     ''07-platforms/gateway/design'',
     ''07-platforms/gateway/implementation'',
     ''07-platforms/hmi/requirements'',
     ''07-platforms/hmi/design'',
     ''07-platforms/hmi/implementation'',
     ''07-platforms/configuration/requirements'',
     ''07-platforms/configuration/design'',
     ''07-platforms/configuration/implementation'',
     ''07-platforms/cloud/requirements'',
     ''07-platforms/cloud/design'',
     ''07-platforms/cloud/implementation'',
     ''07-platforms/app/requirements'',
     ''07-platforms/app/design'',
     ''07-platforms/app/implementation'',
     ''07-platforms/edge-ai/requirements'',
     ''07-platforms/edge-ai/design'',
     ''07-platforms/edge-ai/implementation'',
     ''07-platforms/scada/requirements'',
     ''07-platforms/scada/design'',
     ''07-platforms/scada/implementation'',
     ''07-platforms/web-editor/requirements'',
     ''07-platforms/web-editor/design'',
     ''07-platforms/web-editor/implementation'',
     ''parallel-tasks'',
     ''templates'',
     ''state-history'']"

definition create_directories :: "initializer \<Rightarrow> world \<Rightarrow> outcome" where
  "create_directories self =
     steps [
       print (utf8 [0x1F4C1] @ '' Creating directory structure...''),
       for_each (\<lambda>dir_path. mkdir (join (workflow_dir self) dir_path)) dirs,
       print (utf8 [0x2705] @ '' Directory structure created'')]"

text \<open>The template manifest of \<open>copy_templates\<close>: four templates, five state templates.\<close>

definition templates :: "string list" where
  "templates = [''REQ-template.md'', ''FE-template.md'', ''SOL-template.md'', ''IMP-template.md'']"

definition state_templates :: "string list" where
  "state_templates = [
     ''parallel-tasks/active-tasks-template.md'',
     ''parallel-tasks/task-dependencies-template.md'',
     ''dependency-backlog-template.md'',
     ''feature-to-code-map-template.md'',
     ''rt-matrix-template.md'']"

text \<open>The body of the first loop of \<open>copy_templates\<close>.\<close>

definition copy_template :: "initializer \<Rightarrow> path \<Rightarrow> string \<Rightarrow> world \<Rightarrow> outcome" where
  "copy_template self template_source template w =
     (let template_dir = join (workflow_dir self) ''templates'';
          source = join (join (join template_source ''.claude-workflow'') ''templates'') template
      in if exists_path w source then
           steps [
             copy2 source (join template_dir template),
             print (''  '' @ utf8 [0x2705] @ '' Copied '' @ template)] w
         else
           print (''  '' @ utf8 [0x26A0, 0xFE0F] @ ''  Template not found: '' @ template) w)"

text \<open>The body of the second loop: no \<open>else\<close> branch.\<close>

definition copy_state_template :: "initializer \<Rightarrow> path \<Rightarrow> string \<Rightarrow> world \<Rightarrow> outcome" where
  "copy_state_template self template_source template w =
     (let source = join (join template_source ''.claude-workflow'') template
      in if exists_path w source then
           (let dest = join (workflow_dir self) (replace ''-template'' [] template)
            in steps [
                 copy2 source dest,
                 print (''  '' @ utf8 [0x2705] @ '' Copied '' @ template)] w)
         else (None, w))"

definition copy_templates :: "initializer \<Rightarrow> path \<Rightarrow> world \<Rightarrow> outcome" where
  "copy_templates self template_source =
     steps [
       print (utf8 [0x1F4C4] @ '' Copying template files...''),
       for_each (copy_template self template_source) templates,
       for_each (copy_state_template self template_source) state_templates,
       print (utf8 [0x2705] @ '' Template files copied'')]"

subsection \<open>The configuration file\<close>

text \<open>The values a configuration dictionary holds: a missing command-line option is
  \<open>None\<close>, names and types are strings, platform flags are booleans.\<close>

datatype pyval = PyNone | PyBool bool | PyStr string

type_synonym config_data = "string \<Rightarrow> pyval option"

text \<open>\<open>str(v)\<close>, which is also what \<open>str.format\<close> puts for a field with no format spec.\<close>

fun py_str :: "pyval \<Rightarrow> string" where
  "py_str PyNone = ''None''"
| "py_str (PyBool True) = ''True''"
| "py_str (PyBool False) = ''False''"
| "py_str (PyStr s) = s"

text \<open>\<open>dict.get(key, default)\<close>: the default is used only when the key is absent.\<close>

definition get :: "config_data \<Rightarrow> string \<Rightarrow> pyval \<Rightarrow> pyval" where
  "get d key dflt = (case d key of None \<Rightarrow> dflt | Some v \<Rightarrow> v)"

text \<open>The dictionary \<open>default_config\<close>. Its sections \<open>workflow\<close>, \<open>documentation\<close> and
  \<open>traceability\<close> hold constants that the script never reads again (the text written for
  them is fixed), so the record keeps the two sections that are read.\<close>

record project_section =
  project_name :: pyval
  project_type :: pyval
  project_version :: pyval

record platform_entry =
  platform_id :: string
  platform_name :: string
  platform_enabled :: pyval

record config =
  project :: project_section
  platforms :: "platform_entry list"

definition platform :: "config_data \<Rightarrow> string \<Rightarrow> string \<Rightarrow> platform_entry" where
  "platform d ident display =
     \<lparr>platform_id = ident, platform_name = display,
      platform_enabled = get d ident (PyBool False)\<rparr>"

definition default_config :: "config_data \<Rightarrow> config" where
  "default_config d =
     \<lparr>project =
        \<lparr>project_name = get d ''project_name'' (PyStr ''My Project''),
         project_type = get d ''project_type'' (PyStr ''application''),
         project_version = PyStr ''1.0.0''\<rparr>,
      platforms = [
        platform d ''gateway'' (utf8 [0x7F51, 0x5173, 0x7AEF]),
        platform d ''hmi'' (''HMI'' @ utf8 [0x8FD0, 0x884C, 0x7AEF]),
        platform d ''configuration'' (utf8 [0x7EC4, 0x6001, 0x7AEF]),
        platform d ''cloud'' (utf8 [0x4E91, 0x5E73, 0x53F0, 0x7AEF]),
        platform d ''app'' (''APP'' @ utf8 [0x7AEF]),
        platform d ''edge-ai'' (utf8 [0x8FB9, 0x7F18, 0x667A, 0x80FD, 0x670D, 0x52A1, 0x5668]),
        platform d ''scada'' (''Scada'' @ utf8 [0x8F6F, 0x4EF6]),
        platform d ''web-editor'' (''Web'' @ utf8 [0x53EF, 0x89C6, 0x5316, 0x7F16, 0x8F91,
            0x5668])]\<rparr>"

text \<open>The three pieces of the text: the head with the project section (the result of
  \<open>str.format\<close> on the template), one block for each platform, and the fixed tail.\<close>

definition yaml_head :: "config \<Rightarrow> string" where
  "yaml_head c =
     concat [
       ''# Claude Code '' @ utf8 [0x5DE5, 0x4F5C, 0x6D41, 0x914D, 0x7F6E] @ ''\<newline>'',
       ''\<newline>'',
       ''project:\<newline>'',
       ''  name: '' @ [CHR 0x22] @ py_str (project_name (project c)) @ [CHR 0x22] @ ''\<newline>'',
       ''  type: '' @ [CHR 0x22] @ py_str (project_type (project c)) @ [CHR 0x22] @ ''\<newline>'',
       ''  version: '' @ [CHR 0x22] @ py_str (project_version (project c)) @ [CHR 0x22] @ ''\<newline>'',
       ''\<newline>'',
       ''# '' @ utf8 [0x652F, 0x6301, 0x7684, 0x5E73, 0x53F0] @ ''\<newline>'',
       ''platforms:\<newline>'']"

definition yaml_platform :: "platform_entry \<Rightarrow> string" where
  "yaml_platform p =
     concat [
       ''  - id: '' @ platform_id p @ ''\<newline>'',
       ''    name: '' @ platform_name p @ ''\<newline>'',
       ''    enabled: '' @ lower (py_str (platform_enabled p)) @ ''\<newline>'']"

definition yaml_tail :: string where
  "yaml_tail =
     concat [
       ''\<newline>'',
       ''# '' @ utf8 [0x5DE5, 0x4F5C, 0x6D41, 0x914D, 0x7F6E] @ ''\<newline>'',
       ''workflow:\<newline>'',
       ''  enforce_order: true\<newline>'',
       ''  enable_parallel: true\<newline>'',
       ''  max_parallel_tasks: 5\<newline>'',
       ''  enable_dependency_ignore: true\<newline>'',
       ''\<newline>'',
       ''# '' @ utf8 [0x6587, 0x6863, 0x914D, 0x7F6E] @ ''\<newline>'',
       ''documentation:\<newline>'',
       ''  auto_generate: true\<newline>'',
       ''  format: markdown\<newline>'',
       ''  include_api_docs: true\<newline>'',
       ''\<newline>'',
       ''# '' @ utf8 [0x8FFD, 0x6EAF, 0x914D, 0x7F6E] @ ''\<newline>'',
       ''traceability:\<newline>'',
       ''  auto_update: true\<newline>'',
       ''  mapping_granularity: function\<newline>'']"

text \<open>The loop \<open>for platform in ...: yaml_content += ...\<close> is a fold that appends.\<close>

definition yaml_content :: "config_data \<Rightarrow> string" where
  "yaml_content d =
     (let c = default_config d in
      fold (\<lambda>p text. text @ yaml_platform p) (platforms c) (yaml_head c) @ yaml_tail)"

definition create_initial_config :: "initializer \<Rightarrow> config_data \<Rightarrow> world \<Rightarrow> outcome" where
  "create_initial_config self d =
     steps [
       print (utf8 [0x2699, 0xFE0F] @ ''  Creating configuration...''),
       write_text (join (workflow_dir self) ''config.yml'') (yaml_content d),
       print (utf8 [0x2705] @ '' Configuration created'')]"

subsection \<open>The state documents and the README\<close>

definition current_phase_text :: "initializer \<Rightarrow> string" where
  "current_phase_text self =
     concat [
       ''# '' @ utf8 [0x5F53, 0x524D, 0x6267, 0x884C, 0x9636, 0x6BB5] @ ''\<newline>'',
       ''\<newline>'',
       ''## '' @ utf8 [0x9879, 0x76EE, 0x4FE1, 0x606F] @ ''\<newline>'',
       ''- **'' @ utf8 [0x9879, 0x76EE, 0x540D, 0x79F0] @ ''**: '' @
         path_name (parent (workflow_dir self)) @ ''\<newline>'',
       ''- **'' @ utf8 [0x5F53, 0x524D, 0x9636, 0x6BB5] @ ''**: '' @ utf8 [0x9636, 0x6BB5] @
         ''1 - '' @ utf8 [0x9700, 0x6C42, 0x5206, 0x6790, 0x4E0E, 0x89C4, 0x5212] @ ''\<newline>'',
       ''- **'' @ utf8 [0x5F00, 0x59CB, 0x65E5, 0x671F] @ ''**: '' @ date self @ ''\<newline>'',
       ''- **'' @ utf8 [0x6574, 0x4F53, 0x8FDB, 0x5EA6] @ ''**: 0%\<newline>'',
       ''\<newline>'',
       ''## '' @ utf8 [0x5F53, 0x524D, 0x4EFB, 0x52A1] @ ''\<newline>'',
       ''- **'' @ utf8 [0x4EFB, 0x52A1] @ ''ID**: '' @ utf8 [0x5F85, 0x5B9A] @ ''\<newline>'',
       ''- **'' @ utf8 [0x4EFB, 0x52A1, 0x540D, 0x79F0] @ ''**: '' @
         utf8 [0x9879, 0x76EE, 0x521D, 0x59CB, 0x5316] @ ''\<newline>'',
       ''- **'' @ utf8 [0x72B6, 0x6001] @ ''**: '' @ utf8 [0x8FDB, 0x884C, 0x4E2D] @
         ''\<newline>'',
       ''- **'' @ utf8 [0x5F53, 0x524D, 0x6B65, 0x9AA4] @ ''**: '' @
         utf8 [0x914D, 0x7F6E, 0x9879, 0x76EE] @ ''\<newline>'',
       ''- **'' @ utf8 [0x5B8C, 0x6210, 0x5EA6] @ ''**: 10%\<newline>'',
       ''\<newline>'',
       ''## '' @ utf8 [0x4EFB, 0x52A1, 0x5806, 0x6808] @ ''\<newline>'',
       ''### '' @ utf8 [0x4E3B, 0x4EFB, 0x52A1, 0x94FE] @ ''\<newline>'',
       ''1. '' @ utf8 [0x23F3] @ '' '' @ utf8 [0x9879, 0x76EE, 0x521D, 0x59CB, 0x5316] @
         ''\<newline>'',
       ''   - '' @ utf8 [0x2705] @ '' '' @ utf8 [0x521B, 0x5EFA, 0x76EE, 0x5F55, 0x7ED3, 0x6784] @
         ''\<newline>'',
       ''   - '' @ utf8 [0x2705] @ '' '' @ utf8 [0x590D, 0x5236, 0x6A21, 0x677F, 0x6587, 0x4EF6] @
         ''\<newline>'',
       ''   - '' @ utf8 [0x23F3] @ '' '' @ utf8 [0x914D, 0x7F6E, 0x9879, 0x76EE, 0x53C2, 0x6570] @
         ''\<newline>'',
       ''\<newline>'',
       ''### '' @ utf8 [0x6682, 0x505C, 0x7684, 0x4EFB, 0x52A1] @ ''\<newline>'',
       utf8 [0x65E0] @ ''\<newline>'',
       ''\<newline>'',
       ''### '' @ utf8 [0x5F85, 0x6267, 0x884C, 0x4EFB, 0x52A1] @ ''\<newline>'',
       ''- ['' @ utf8 [0x5F85, 0x6267, 0x884C] @ ''] '' @
         utf8 [0x6536, 0x96C6, 0x7B2C, 0x4E00, 0x4E2A, 0x9700, 0x6C42] @ ''\<newline>'',
       ''\<newline>'',
       ''## '' @ utf8 [0x4E0A, 0x4E0B, 0x6587, 0x4FE1, 0x606F] @ ''\<newline>'',
       ''- **'' @ utf8 [0x76F8, 0x5173, 0x5E73, 0x53F0] @ ''**: '' @ utf8 [0x5F85, 0x914D, 0x7F6E] @
         ''\<newline>'',
       ''- **'' @ utf8 [0x76F8, 0x5173, 0x6587, 0x4EF6] @
         ''**: .claude-workflow/config.yml\<newline>'',
       ''- **'' @ utf8 [0x4F9D, 0x8D56, 0x9879] @ ''**: '' @ utf8 [0x65E0] @ ''\<newline>'',
       ''- **'' @ utf8 [0x963B, 0x585E, 0x9879] @ ''**: '' @ utf8 [0x65E0] @ ''\<newline>'',
       ''\<newline>'',
       ''## '' @ utf8 [0x5FEB, 0x901F, 0x6062, 0x590D, 0x547D, 0x4EE4] @ ''\<newline>'',
       [CHR 0x22] @ utf8 [0x7EE7, 0x7EED, 0x914D, 0x7F6E, 0x9879, 0x76EE, 0x53C2, 0x6570] @
         [CHR 0x22] @ ''\<newline>'']"

definition active_tasks_text :: "initializer \<Rightarrow> string" where
  "active_tasks_text self =
     concat [
       ''# '' @ utf8 [0x6D3B, 0x8DC3, 0x5E76, 0x884C, 0x4EFB, 0x52A1, 0x5217, 0x8868] @
         ''\<newline>'',
       ''\<newline>'',
       utf8 [0x66F4, 0x65B0, 0x65F6, 0x95F4] @ '': '' @ date self @ '' 00:00\<newline>'',
       ''\<newline>'',
       ''## '' @ utf8 [0x6B63, 0x5728, 0x8FDB, 0x884C, 0x7684, 0x529F, 0x80FD] @ ''\<newline>'',
       ''\<newline>'',
       ''### '' @ utf8 [0x9879, 0x76EE, 0x521D, 0x59CB, 0x5316] @ ''\<newline>'',
       ''- **'' @ utf8 [0x5F53, 0x524D, 0x9636, 0x6BB5] @ ''**: '' @ utf8 [0x914D, 0x7F6E] @
         ''\<newline>'',
       ''- **'' @ utf8 [0x5B8C, 0x6210, 0x5EA6] @ ''**: 10%\<newline>'',
       ''- **'' @ utf8 [0x5F53, 0x524D, 0x6B65, 0x9AA4] @ ''**: '' @
         utf8 [0x914D, 0x7F6E, 0x9879, 0x76EE, 0x53C2, 0x6570] @ ''\<newline>'',
       ''- **'' @ utf8 [0x72B6, 0x6001] @ ''**: '' @ utf8 [0x1F7E2] @ '' '' @
         utf8 [0x6B63, 0x5E38, 0x8FDB, 0x884C] @ ''\<newline>'',
       ''- **'' @ utf8 [0x4F9D, 0x8D56] @ ''**: '' @ utf8 [0x65E0] @ ''\<newline>'',
       ''\<newline>'',
       ''## '' @ utf8 [0x5E76, 0x884C, 0x7EDF, 0x8BA1] @ ''\<newline>'',
       ''- **'' @ utf8 [0x6D3B, 0x8DC3, 0x529F, 0x80FD, 0x6570] @ ''**: 0\<newline>'',
       ''- **'' @ utf8 [0x5206, 0x5E03, 0x9636, 0x6BB5] @ ''**: '' @ utf8 [0x914D, 0x7F6E] @
         ''(1)\<newline>'',
       ''- **'' @ utf8 [0x9884, 0x8BA1, 0x5B8C, 0x6210, 0x65E5, 0x671F] @ ''**: '' @
         utf8 [0x5F85, 0x5B9A] @ ''\<newline>'',
       ''\<newline>'',
       ''## '' @ utf8 [0x963B, 0x585E, 0x8B66, 0x544A] @ ''\<newline>'',
       utf8 [0x65E0] @ ''\<newline>'']"

definition task_deps_text :: string where
  "task_deps_text =
     concat [
       ''# '' @ utf8 [0x4EFB, 0x52A1, 0x4F9D, 0x8D56, 0x5173, 0x7CFB, 0x56FE] @ ''\<newline>'',
       ''\<newline>'',
       ''## '' @ utf8 [0x4F9D, 0x8D56, 0x5173, 0x7CFB, 0x53EF, 0x89C6, 0x5316] @ ''\<newline>'',
       ''\<newline>'',
       [CHR 0x60, CHR 0x60, CHR 0x60] @ ''\<newline>'',
       utf8 [0x65E0, 0x4F9D, 0x8D56, 0x5173, 0x7CFB] @ ''\<newline>'',
       [CHR 0x60, CHR 0x60, CHR 0x60] @ ''\<newline>'',
       ''\<newline>'',
       ''## '' @ utf8 [0x4F9D, 0x8D56, 0x7C7B, 0x578B, 0x5B9A, 0x4E49] @ ''\<newline>'',
       ''\<newline>'',
       ''| '' @ utf8 [0x7C7B, 0x578B] @ '' | '' @ utf8 [0x7B26, 0x53F7] @ '' | '' @
         utf8 [0x8BF4, 0x660E] @ '' | '' @ utf8 [0x5904, 0x7406, 0x65B9, 0x5F0F] @
         '' |\<newline>'',
       ''|------|------|------|---------|\<newline>'',
       ''| '' @ utf8 [0x5F3A, 0x4F9D, 0x8D56] @ '' | '' @ utf8 [0x2550, 0x2550, 0x2550] @ '' | '' @
         utf8 [0x5FC5, 0x987B, 0x7B49, 0x5F85, 0x4F9D, 0x8D56, 0x5B8C, 0x6210] @ '' | '' @
         utf8 [0x4E32, 0x884C, 0x5F00, 0x53D1] @ '' |\<newline>'',
       ''| '' @ utf8 [0x5F31, 0x4F9D, 0x8D56] @ '' | '' @ utf8 [0x2501, 0x2501] @ '' | '' @
         utf8 [0x53EF, 0x4EE5, 0x5E76, 0x884C, 0xFF0C, 0x4F7F, 0x7528, 0x5FFD, 0x7565, 0x673A,
             0x5236] @
         '' | '' @ utf8 [0x5E76, 0x884C] @ '' + mock |\<newline>'',
       ''| '' @ utf8 [0x65E0, 0x4F9D, 0x8D56] @ '' | '' @ utf8 [0x65E0] @ '' | '' @
         utf8 [0x5B8C, 0x5168, 0x72EC, 0x7ACB] @ '' | '' @ utf8 [0x81EA, 0x7531, 0x5E76, 0x884C] @
         '' |\<newline>'',
       ''\<newline>'',
       ''## '' @ utf8 [0x4F9D, 0x8D56, 0x5FFD, 0x7565, 0x8BB0, 0x5F55] @ ''\<newline>'',
       utf8 [0x65E0] @ ''\<newline>'',
       ''\<newline>'',
       ''## '' @ utf8 [0x4F9D, 0x8D56, 0x5173, 0x7CFB, 0x8868] @ ''\<newline>'',
       ''| '' @ utf8 [0x5F53, 0x524D, 0x529F, 0x80FD] @ '' | '' @
         utf8 [0x4F9D, 0x8D56, 0x529F, 0x80FD] @ '' | '' @ utf8 [0x4F9D, 0x8D56, 0x7C7B, 0x578B] @
         '' | '' @ utf8 [0x5904, 0x7406, 0x65B9, 0x5F0F] @ '' | '' @ utf8 [0x72B6, 0x6001] @
         '' |\<newline>'']"

definition dep_backlog_text :: string where
  "dep_backlog_text =
     concat [
       ''# '' @ utf8 [0x4F9D, 0x8D56, 0x5FFD, 0x7565, 0x8DDF, 0x8E2A, 0x8868] @ ''\<newline>'',
       ''\<newline>'',
       ''## '' @ utf8 [0x5F85, 0x8865, 0x9F50, 0x4F9D, 0x8D56, 0x9879] @ ''\<newline>'',
       ''\<newline>'',
       ''| ID | '' @ utf8 [0x5F53, 0x524D, 0x6A21, 0x5757] @ '' | '' @
         utf8 [0x4F9D, 0x8D56, 0x6A21, 0x5757] @ '' | '' @ utf8 [0x5FFD, 0x7565, 0x5185, 0x5BB9] @
         '' | Mock'' @ utf8 [0x4F4D, 0x7F6E] @ '' | '' @
         utf8 [0x8865, 0x9F50, 0x4F18, 0x5148, 0x7EA7] @ '' | '' @
         utf8 [0x4F9D, 0x8D56, 0x72B6, 0x6001] @ '' | '' @ utf8 [0x8865, 0x9F50, 0x671F, 0x9650] @
         '' | '' @ utf8 [0x8D1F, 0x8D23, 0x4EBA] @ '' |\<newline>'',
       ''\<newline>'',
       ''## '' @ utf8 [0x4F9D, 0x8D56, 0x8865, 0x9F50, 0x8BB0, 0x5F55] @ ''\<newline>'',
       utf8 [0x65E0] @ ''\<newline>'',
       ''\<newline>'',
       ''## '' @ utf8 [0x7EDF, 0x8BA1, 0x4FE1, 0x606F] @ ''\<newline>'',
       ''\<newline>'',
       ''- **'' @ utf8 [0x5F85, 0x8865, 0x9F50, 0x4F9D, 0x8D56, 0x6570] @ ''**: 0\<newline>'',
       ''- **P0 '' @ utf8 [0x4F18, 0x5148, 0x7EA7] @ ''**: 0\<newline>'',
       ''- **P1 '' @ utf8 [0x4F18, 0x5148, 0x7EA7] @ ''**: 0\<newline>'',
       ''- **P2 '' @ utf8 [0x4F18, 0x5148, 0x7EA7] @ ''**: 0\<newline>'',
       ''- **'' @ utf8 [0x672C, 0x6708, 0x5DF2, 0x8865, 0x9F50] @ ''**: 0\<newline>'']"

definition code_map_text :: string where
  "code_map_text =
     concat [
       ''# '' @ utf8 [0x529F, 0x80FD, 0x5230, 0x4EE3, 0x7801, 0x6620, 0x5C04, 0x8868] @
         ''\<newline>'',
       ''\<newline>'',
       ''## '' @ utf8 [0x6620, 0x5C04, 0x89C4, 0x5219] @ ''\<newline>'',
       ''- '' @
         utf8 [0x6BCF, 0x4E2A, 0x529F, 0x80FD, 0x70B9, 0x5BF9, 0x5E94, 0x5177, 0x4F53, 0x7684,
             0x6587, 0x4EF6, 0x3001, 0x7C7B, 0x3001, 0x51FD, 0x6570] @
         ''\<newline>'',
       ''- '' @
         utf8 [0x8BB0, 0x5F55, 0x884C, 0x53F7, 0x8303, 0x56F4, 0x4EE5, 0x4FBF, 0x5FEB, 0x901F,
             0x5B9A, 0x4F4D] @
         ''\<newline>'',
       ''- '' @
         utf8 [0x5305, 0x542B, 0x4F9D, 0x8D56, 0x5173, 0x7CFB, 0x548C, 0x5F71, 0x54CD, 0x8303,
             0x56F4] @
         ''\<newline>'',
       ''\<newline>'',
       ''## '' @ utf8 [0x6620, 0x5C04, 0x8868] @ ''\<newline>'',
       ''\<newline>'',
       ''| '' @ utf8 [0x529F, 0x80FD] @ ''ID | '' @ utf8 [0x529F, 0x80FD, 0x63CF, 0x8FF0] @
         '' | '' @ utf8 [0x5E73, 0x53F0] @ '' | '' @ utf8 [0x4EE3, 0x7801, 0x6587, 0x4EF6] @
         '' | '' @ utf8 [0x7C7B] @ ''/'' @ utf8 [0x7EC4, 0x4EF6] @ '' | '' @ utf8 [0x51FD, 0x6570] @
         ''/'' @ utf8 [0x65B9, 0x6CD5] @ '' | '' @ utf8 [0x884C, 0x53F7] @ '' | '' @
         utf8 [0x4F9D, 0x8D56] @ '' | '' @ utf8 [0x72B6, 0x6001] @ '' |\<newline>'',
       ''\<newline>'',
       ''## '' @ utf8 [0x4F9D, 0x8D56, 0x5173, 0x7CFB, 0x56FE] @ ''\<newline>'',
       utf8 [0x65E0] @ ''\<newline>'',
       ''\<newline>'',
       ''## '' @ utf8 [0x5F71, 0x54CD, 0x5206, 0x6790, 0x67E5, 0x8BE2] @ ''\<newline>'',
       utf8 [0x65E0] @ ''\<newline>'',
       ''\<newline>'',
       ''## '' @ utf8 [0x53CD, 0x5411, 0x6620, 0x5C04] @ '' ('' @ utf8 [0x4EE3, 0x7801] @ '' '' @
         utf8 [0x2192] @ '' '' @ utf8 [0x529F, 0x80FD] @ '')\<newline>'',
       ''\<newline>'',
       ''| '' @ utf8 [0x4EE3, 0x7801, 0x6587, 0x4EF6] @ '' | '' @ utf8 [0x51FD, 0x6570] @ '' | '' @
         utf8 [0x5B9E, 0x73B0, 0x529F, 0x80FD] @ '' | '' @ utf8 [0x529F, 0x80FD] @ ''ID | '' @
         utf8 [0x72B6, 0x6001] @ '' |\<newline>'',
       ''\<newline>'',
       ''## '' @ utf8 [0x5E73, 0x53F0, 0x5206, 0x5E03] @ ''\<newline>'',
       ''\<newline>'',
       ''| '' @ utf8 [0x5E73, 0x53F0] @ '' | '' @ utf8 [0x529F, 0x80FD, 0x6570] @ '' | '' @
         utf8 [0x5DF2, 0x5B9E, 0x73B0] @ '' | '' @ utf8 [0x8FDB, 0x884C, 0x4E2D] @ '' | '' @
         utf8 [0x5F85, 0x5F00, 0x59CB] @ '' |\<newline>'',
       ''|------|--------|--------|--------|--------|\<newline>'',
       ''| '' @ utf8 [0x7F51, 0x5173] @ '' | 0 | 0 | 0 | 0 |\<newline>'',
       ''| HMI | 0 | 0 | 0 | 0 |\<newline>'',
       ''| '' @ utf8 [0x4E91, 0x5E73, 0x53F0] @ '' | 0 | 0 | 0 | 0 |\<newline>'',
       ''| APP | 0 | 0 | 0 | 0 |\<newline>'',
       ''| '' @ utf8 [0x8FB9, 0x7F18] @ ''AI | 0 | 0 | 0 | 0 |\<newline>'',
       ''| Scada | 0 | 0 | 0 | 0 |\<newline>'',
       ''| Web'' @ utf8 [0x7F16, 0x8F91, 0x5668] @ '' | 0 | 0 | 0 | 0 |\<newline>'',
       ''\<newline>'',
       ''## '' @ utf8 [0x7EDF, 0x8BA1, 0x4FE1, 0x606F] @ ''\<newline>'',
       ''\<newline>'',
       ''- **'' @ utf8 [0x603B, 0x529F, 0x80FD, 0x70B9, 0x6570] @ ''**: 0\<newline>'',
       ''- **'' @ utf8 [0x5DF2, 0x5B9E, 0x73B0] @ ''**: 0 (0%)\<newline>'',
       ''- **'' @ utf8 [0x8FDB, 0x884C, 0x4E2D] @ ''**: 0 (0%)\<newline>'',
       ''- **'' @ utf8 [0x5F85, 0x5F00, 0x59CB] @ ''**: 0 (0%)\<newline>'',
       ''- **'' @ utf8 [0x4F9D, 0x8D56, 0x5FFD, 0x7565] @ ''**: 0\<newline>'']"

definition rt_matrix_text :: "initializer \<Rightarrow> string" where
  "rt_matrix_text self =
     concat [
       ''# '' @ utf8 [0x9700, 0x6C42, 0x8FFD, 0x6EAF, 0x77E9, 0x9635] @
         '' (Requirements Traceability Matrix)\<newline>'',
       ''\<newline>'',
       ''## '' @ utf8 [0x8FFD, 0x6EAF, 0x6982, 0x89C8] @ ''\<newline>'',
       ''- **'' @ utf8 [0x603B, 0x9700, 0x6C42, 0x6570] @ ''**: 0\<newline>'',
       ''- **'' @ utf8 [0x5DF2, 0x5B9E, 0x73B0] @ ''**: 0 (0%)\<newline>'',
       ''- **'' @ utf8 [0x5DF2, 0x9A8C, 0x8BC1] @ ''**: 0 (0%)\<newline>'',
       ''- **'' @ utf8 [0x672A, 0x5F00, 0x59CB] @ ''**: 0 (0%)\<newline>'',
       ''\<newline>'',
       ''## '' @ utf8 [0x524D, 0x5411, 0x8FFD, 0x6EAF] @ '' ('' @ utf8 [0x9700, 0x6C42] @ '' '' @
         utf8 [0x2192] @ '' '' @ utf8 [0x4EA4, 0x4ED8, 0x7269] @ '')\<newline>'',
       ''\<newline>'',
       ''| '' @ utf8 [0x9700, 0x6C42] @ ''ID | '' @ utf8 [0x9700, 0x6C42, 0x63CF, 0x8FF0] @
         '' | '' @ utf8 [0x529F, 0x80FD, 0x9700, 0x6C42] @ '' | '' @
         utf8 [0x6280, 0x672F, 0x65B9, 0x6848] @ '' | '' @ utf8 [0x5B9E, 0x73B0, 0x8BA1, 0x5212] @
         '' | '' @ utf8 [0x4EE3, 0x7801, 0x6A21, 0x5757] @ '' | '' @
         utf8 [0x6D4B, 0x8BD5, 0x7528, 0x4F8B] @ '' | '' @ utf8 [0x72B6, 0x6001] @
         '' |\<newline>'',
       ''\<newline>'',
       ''## '' @ utf8 [0x540E, 0x5411, 0x8FFD, 0x6EAF] @ '' ('' @ utf8 [0x4EA4, 0x4ED8, 0x7269] @
         '' '' @ utf8 [0x2192] @ '' '' @ utf8 [0x9700, 0x6C42] @ '')\<newline>'',
       ''\<newline>'',
       ''| '' @ utf8 [0x4EE3, 0x7801, 0x6587, 0x4EF6] @ '' | '' @
         utf8 [0x529F, 0x80FD, 0x63CF, 0x8FF0] @ '' | '' @ utf8 [0x5173, 0x8054, 0x9700, 0x6C42] @
         '' | '' @ utf8 [0x6D4B, 0x8BD5, 0x8986, 0x76D6] @ '' | '' @ utf8 [0x72B6, 0x6001] @
         '' |\<newline>'',
       ''\<newline>'',
       ''## '' @ utf8 [0x5F71, 0x54CD, 0x5206, 0x6790, 0x77E9, 0x9635] @ ''\<newline>'',
       ''\<newline>'',
       ''| '' @ utf8 [0x9700, 0x6C42, 0x53D8, 0x66F4] @ '' | '' @
         utf8 [0x5F71, 0x54CD, 0x529F, 0x80FD] @ '' | '' @ utf8 [0x5F71, 0x54CD, 0x4EE3, 0x7801] @
         '' | '' @ utf8 [0x5F71, 0x54CD, 0x6D4B, 0x8BD5] @ '' | '' @
         utf8 [0x5F71, 0x54CD, 0x5E73, 0x53F0] @ '' | '' @ utf8 [0x98CE, 0x9669, 0x7B49, 0x7EA7] @
         '' |\<newline>'',
       ''\<newline>'',
       ''## '' @ utf8 [0x6D4B, 0x8BD5, 0x8986, 0x76D6, 0x7387] @ ''\<newline>'',
       utf8 [0x65E0] @ ''\<newline>'',
       ''\<newline>'',
       ''## '' @ utf8 [0x5E73, 0x53F0, 0x8986, 0x76D6] @ ''\<newline>'',
       ''\<newline>'',
       ''| '' @ utf8 [0x5E73, 0x53F0] @ '' | '' @ utf8 [0x9700, 0x6C42, 0x6570] @ '' | '' @
         utf8 [0x5DF2, 0x5B9E, 0x73B0] @ '' | '' @ utf8 [0x5DF2, 0x9A8C, 0x8BC1] @ '' | '' @
         utf8 [0x8986, 0x76D6, 0x7387] @ '' |\<newline>'',
       ''|------|--------|--------|--------|--------|\<newline>'',
       ''| '' @ utf8 [0x7F51, 0x5173] @ '' | 0 | 0 | 0 | 0% |\<newline>'',
       ''| HMI | 0 | 0 | 0 | 0% |\<newline>'',
       ''| '' @ utf8 [0x4E91, 0x5E73, 0x53F0] @ '' | 0 | 0 | 0 | 0% |\<newline>'',
       ''| APP | 0 | 0 | 0 | 0% |\<newline>'',
       ''| '' @ utf8 [0x8FB9, 0x7F18] @ ''AI | 0 | 0 | 0 | 0% |\<newline>'',
       ''| Scada | 0 | 0 | 0 | 0% |\<newline>'',
       ''| Web'' @ utf8 [0x7F16, 0x8F91, 0x5668] @ '' | 0 | 0 | 0 | 0% |\<newline>'',
       ''\<newline>'',
       ''## '' @ utf8 [0x7F3A, 0x53E3, 0x5206, 0x6790] @ ''\<newline>'',
       utf8 [0x65E0] @ ''\<newline>'',
       ''\<newline>'',
       ''## '' @ utf8 [0x8FFD, 0x6EAF, 0x5B8C, 0x6574, 0x6027, 0x68C0, 0x67E5] @ ''\<newline>'',
       utf8 [0x5F85, 0x521D, 0x59CB, 0x5316] @ ''\<newline>'',
       ''\<newline>'',
       ''## '' @ utf8 [0x53D8, 0x66F4, 0x5386, 0x53F2] @ ''\<newline>'',
       ''\<newline>'',
       ''| '' @ utf8 [0x65E5, 0x671F] @ '' | '' @ utf8 [0x53D8, 0x66F4, 0x7C7B, 0x578B] @ '' | '' @
         utf8 [0x5F71, 0x54CD, 0x8303, 0x56F4] @ '' | '' @ utf8 [0x53D8, 0x66F4, 0x4EBA] @ '' | '' @
         utf8 [0x5BA1, 0x6279, 0x4EBA] @ '' |\<newline>'',
       ''| '' @ date self @ '' | '' @ utf8 [0x9879, 0x76EE, 0x521D, 0x59CB, 0x5316] @ '' | '' @
         utf8 [0x5168, 0x90E8] @ '' | System | - |\<newline>'',
       ''\<newline>'',
       ''## '' @ utf8 [0x62A5, 0x544A, 0x751F, 0x6210] @ ''\<newline>'',
       ''\<newline>'',
       ''- **'' @ utf8 [0x6700, 0x540E, 0x66F4, 0x65B0] @ ''**: '' @ date self @ ''\<newline>'',
       ''- **'' @ utf8 [0x66F4, 0x65B0, 0x4EBA] @ ''**: System\<newline>'',
       ''- **'' @ utf8 [0x4E0B, 0x6B21, 0x5BA1, 0x67E5] @ ''**: '' @ utf8 [0x5F85, 0x5B9A] @
         ''\<newline>'']"

definition create_initial_state :: "initializer \<Rightarrow> world \<Rightarrow> outcome" where
  "create_initial_state self =
     steps [
       print (utf8 [0x1F4CA] @ '' Creating initial state files...''),
       write_text (join (workflow_dir self) ''current-phase.md'') (current_phase_text self),
       write_text (join (join (workflow_dir self) ''parallel-tasks'') ''active-tasks.md'')
         (active_tasks_text self),
       write_text (join (join (workflow_dir self) ''parallel-tasks'') ''task-dependencies.md'')
         task_deps_text,
       write_text (join (workflow_dir self) ''dependency-backlog.md'') dep_backlog_text,
       write_text (join (workflow_dir self) ''feature-to-code-map.md'') code_map_text,
       write_text (join (workflow_dir self) ''rt-matrix.md'') (rt_matrix_text self),
       print (utf8 [0x2705] @ '' Initial state files created'')]"

definition readme_text :: string where
  "readme_text =
     concat [
       ''# Claude Code '' @ utf8 [0x5DE5, 0x4F5C, 0x6D41, 0x7BA1, 0x7406] @ ''\<newline>'',
       ''\<newline>'',
       utf8 [0x672C, 0x76EE, 0x5F55, 0x4F7F, 0x7528] @ '' Claude Code '' @
         utf8 [0x7ED3, 0x6784, 0x5316, 0x7814, 0x53D1, 0x5DE5, 0x4F5C, 0x6D41, 0x7BA1, 0x7406,
             0x4F53, 0x7CFB, 0x8FDB, 0x884C, 0x7BA1, 0x7406, 0x3002] @
         ''\<newline>'',
       ''\<newline>'',
       ''## '' @ utf8 [0x76EE, 0x5F55, 0x7ED3, 0x6784] @ ''\<newline>'',
       ''\<newline>'',
       [CHR 0x60, CHR 0x60, CHR 0x60] @ ''\<newline>'',
       ''.claude-workflow/\<newline>'',
       utf8 [0x251C, 0x2500, 0x2500] @ '' 01-requirements/        # '' @
         utf8 [0x9700, 0x6C42, 0x7BA1, 0x7406] @ ''\<newline>'',
       utf8 [0x251C, 0x2500, 0x2500] @ '' 02-planning/           # '' @
         utf8 [0x8BA1, 0x5212, 0x7BA1, 0x7406] @ ''\<newline>'',
       utf8 [0x251C, 0x2500, 0x2500] @ '' 03-design/             # '' @
         utf8 [0x8BBE, 0x8BA1, 0x7BA1, 0x7406] @ ''\<newline>'',
       utf8 [0x251C, 0x2500, 0x2500] @ '' 04-implementation/      # '' @
         utf8 [0x5B9E, 0x73B0, 0x7BA1, 0x7406] @ ''\<newline>'',
       utf8 [0x251C, 0x2500, 0x2500] @ '' 05-verification/       # '' @
         utf8 [0x9A8C, 0x8BC1, 0x7BA1, 0x7406] @ ''\<newline>'',
       utf8 [0x251C, 0x2500, 0x2500] @ '' 06-documentation/      # '' @
         utf8 [0x6587, 0x6863, 0x7BA1, 0x7406] @ ''\<newline>'',
       utf8 [0x251C, 0x2500, 0x2500] @ '' 07-platforms/          # '' @
         utf8 [0x591A, 0x5E73, 0x53F0, 0x7BA1, 0x7406] @ ''\<newline>'',
       utf8 [0x251C, 0x2500, 0x2500] @ '' parallel-tasks/        # '' @
         utf8 [0x5E76, 0x884C, 0x4EFB, 0x52A1, 0x7BA1, 0x7406] @ ''\<newline>'',
       utf8 [0x251C, 0x2500, 0x2500] @ '' templates/             # '' @
         utf8 [0x6587, 0x6863, 0x6A21, 0x677F] @ ''\<newline>'',
       utf8 [0x251C, 0x2500, 0x2500] @ '' state-history/         # '' @
         utf8 [0x72B6, 0x6001, 0x5386, 0x53F2] @ ''\<newline>'',
       utf8 [0x251C, 0x2500, 0x2500] @ '' config.yml             # '' @
         utf8 [0x9879, 0x76EE, 0x914D, 0x7F6E] @ ''\<newline>'',
       utf8 [0x251C, 0x2500, 0x2500] @ '' current-phase.md       # '' @
         utf8 [0x5F53, 0x524D, 0x9636, 0x6BB5] @ ''\<newline>'',
       utf8 [0x251C, 0x2500, 0x2500] @ '' feature-to-code-map.md # '' @
         utf8 [0x529F, 0x80FD, 0x4EE3, 0x7801, 0x6620, 0x5C04] @ ''\<newline>'',
       utf8 [0x251C, 0x2500, 0x2500] @ '' dependency-backlog.md  # '' @
         utf8 [0x4F9D, 0x8D56, 0x8DDF, 0x8E2A] @ ''\<newline>'',
       utf8 [0x2514, 0x2500, 0x2500] @ '' rt-matrix.md           # '' @
         utf8 [0x9700, 0x6C42, 0x8FFD, 0x6EAF, 0x77E9, 0x9635] @ ''\<newline>'',
       [CHR 0x60, CHR 0x60, CHR 0x60] @ ''\<newline>'',
       ''\<newline>'',
       ''## '' @ utf8 [0x4F7F, 0x7528, 0x65B9, 0x5F0F] @ ''\<newline>'',
       ''\<newline>'',
       ''### '' @ utf8 [0x5F00, 0x59CB, 0x65B0, 0x529F, 0x80FD] @ ''\<newline>'',
       [CHR 0x60, CHR 0x60, CHR 0x60] @ ''\<newline>'',
       [CHR 0x22] @ utf8 [0x6211, 0x4EEC, 0x9700, 0x8981, 0x6DFB, 0x52A0] @ ''['' @
         utf8 [0x65B0, 0x529F, 0x80FD] @ '']'' @ [CHR 0x22] @ ''\<newline>'',
       utf8 [0x2192] @ '' workflow-orchestrator '' @ utf8 [0x81EA, 0x52A8, 0x6FC0, 0x6D3B] @
         ''\<newline>'',
       utf8 [0x2192] @ '' '' @
         utf8 [0x8DDF, 0x968F, 0x5F15, 0x5BFC, 0x5B8C, 0x6210, 0x9700, 0x6C42, 0x6536, 0x96C6,
             0x3001, 0x65B9, 0x6848, 0x8BBE, 0x8BA1, 0x3001, 0x5B9E, 0x73B0] @
         ''...\<newline>'',
       [CHR 0x60, CHR 0x60, CHR 0x60] @ ''\<newline>'',
       ''\<newline>'',
       ''### '' @ utf8 [0x67E5, 0x770B, 0x5F53, 0x524D, 0x72B6, 0x6001] @ ''\<newline>'',
       [CHR 0x60, CHR 0x60, CHR 0x60] @ ''\<newline>'',
       [CHR 0x22] @ utf8 [0x6211, 0x4E0A, 0x6B21, 0x505A, 0x5230, 0x54EA, 0x4E86, 0xFF1F] @
         [CHR 0x22] @ ''\<newline>'',
       utf8 [0x2192] @ '' workflow-coordinator '' @
         utf8 [0x663E, 0x793A, 0x5F53, 0x524D, 0x4EFB, 0x52A1, 0x548C, 0x8FDB, 0x5EA6] @
         ''\<newline>'',
       [CHR 0x60, CHR 0x60, CHR 0x60] @ ''\<newline>'',
       ''\<newline>'',
       ''### '' @ utf8 [0x6682, 0x505C, 0x548C, 0x6062, 0x590D] @ ''\<newline>'',
       [CHR 0x60, CHR 0x60, CHR 0x60] @ ''\<newline>'',
       [CHR 0x22] @
         utf8 [0x6682, 0x505C, 0x5F53, 0x524D, 0x4EFB, 0x52A1, 0xFF0C, 0x5904, 0x7406, 0x5176,
             0x4ED6, 0x4EFB, 0x52A1] @
         [CHR 0x22] @ ''\<newline>'',
       utf8 [0x2192] @ '' '' @
         utf8 [0x4EFB, 0x52A1, 0x5207, 0x6362, 0x548C, 0x4E0A, 0x4E0B, 0x6587, 0x4FDD, 0x5B58] @
         ''\<newline>'',
       [CHR 0x22] @ utf8 [0x7EE7, 0x7EED, 0x4E4B, 0x524D, 0x7684, 0x4EFB, 0x52A1] @ [CHR 0x22] @
         ''\<newline>'',
       utf8 [0x2192] @ '' '' @
         utf8 [0x6062, 0x590D, 0x5230, 0x4E4B, 0x524D, 0x7684, 0x4EFB, 0x52A1] @ ''\<newline>'',
       [CHR 0x60, CHR 0x60, CHR 0x60] @ ''\<newline>'',
       ''\<newline>'',
       ''## '' @ utf8 [0x5DE5, 0x4F5C, 0x6D41, 0x7A0B] @ ''\<newline>'',
       ''\<newline>'',
       ''1. **'' @ utf8 [0x9700, 0x6C42, 0x9636, 0x6BB5] @ ''** (requirement-manager)\<newline>'',
       ''   - '' @ utf8 [0x521B, 0x5EFA, 0x539F, 0x59CB, 0x9700, 0x6C42] @
         '' (REQ-{N})\<newline>'',
       ''   - '' @ utf8 [0x5206, 0x89E3, 0x529F, 0x80FD, 0x9700, 0x6C42] @ '' (FE-{N})\<newline>'',
       ''\<newline>'',
       ''2. **'' @ utf8 [0x8BBE, 0x8BA1, 0x9636, 0x6BB5] @ ''** (solution-designer)\<newline>'',
       ''   - '' @ utf8 [0x521B, 0x5EFA, 0x6280, 0x672F, 0x65B9, 0x6848] @
         '' (SOL-{N})\<newline>'',
       ''   - '' @ utf8 [0x8BBE, 0x8BA1, 0x67B6, 0x6784, 0x548C, 0x63A5, 0x53E3] @ ''\<newline>'',
       ''\<newline>'',
       ''3. **'' @ utf8 [0x5B9E, 0x73B0, 0x8BA1, 0x5212] @
         ''** (implementation-manager)\<newline>'',
       ''   - '' @ utf8 [0x521B, 0x5EFA, 0x5B9E, 0x73B0, 0x8BA1, 0x5212] @
         '' (IMP-{N})\<newline>'',
       ''   - '' @ utf8 [0x8BBE, 0x8BA1, 0x4EE3, 0x7801, 0x6620, 0x5C04] @ ''\<newline>'',
       ''\<newline>'',
       ''4. **'' @ utf8 [0x4EE3, 0x7801, 0x5B9E, 0x73B0] @
         ''** (implementation-manager)\<newline>'',
       ''   - '' @ utf8 [0x6309, 0x8BA1, 0x5212, 0x5B9E, 0x73B0] @ ''\<newline>'',
       ''   - '' @ utf8 [0x8BB0, 0x5F55, 0x4EE3, 0x7801, 0x6620, 0x5C04] @ ''\<newline>'',
       ''\<newline>'',
       ''5. **'' @ utf8 [0x9A8C, 0x8BC1, 0x548C, 0x6587, 0x6863] @
         ''** (verification-manager, documentation-generator)\<newline>'',
       ''   - '' @ utf8 [0x6D4B, 0x8BD5, 0x9A8C, 0x8BC1] @ ''\<newline>'',
       ''   - '' @ utf8 [0x751F, 0x6210, 0x6587, 0x6863] @ ''\<newline>'',
       ''\<newline>'',
       ''## '' @ utf8 [0x66F4, 0x591A, 0x4FE1, 0x606F] @ ''\<newline>'',
       ''\<newline>'',
       utf8 [0x53C2, 0x8003, 0x5B8C, 0x6574, 0x6587, 0x6863] @ '': '' @ [CHR 0x60] @
         ''Claude-Code-Workflow-Design-v1.0.0.md'' @ [CHR 0x60] @ ''\<newline>'']"

definition create_readme :: "initializer \<Rightarrow> world \<Rightarrow> outcome" where
  "create_readme self = write_text (join (workflow_dir self) ''README.md'') readme_text"

subsection \<open>The whole run\<close>

text \<open>Python's truth value of an optional string: \<open>None\<close> and the empty string are false.\<close>

fun truthy :: "string option \<Rightarrow> bool" where
  "truthy None = False"
| "truthy (Some s) = (s \<noteq> [])"

definition rule_line :: string where
  "rule_line = replicate 60 CHR ''=''"

text \<open>The two branches of \<open>if template_source:\<close> in \<open>initialize\<close>. The path string is
  resolved where \<open>copy_templates\<close> builds \<open>Path(template_source)\<close>.\<close>

definition template_step ::
  "(string \<Rightarrow> path) \<Rightarrow> initializer \<Rightarrow> string option \<Rightarrow> world \<Rightarrow> outcome" where
  "template_step resolve self template_source =
     (if truthy template_source then
        steps [copy_templates self (resolve (the template_source)), print []]
      else
        steps [
          print (utf8 [0x26A0, 0xFE0F] @ ''  '' @
            utf8 [0x8DF3, 0x8FC7, 0x6A21, 0x677F, 0x590D, 0x5236, 0xFF08, 0x672A, 0x6307,
                0x5B9A, 0x6A21, 0x677F, 0x6E90, 0xFF09]),
          print []])"

definition initialize ::
  "(string \<Rightarrow> path) \<Rightarrow> initializer \<Rightarrow> config_data option \<Rightarrow> string option \<Rightarrow> world \<Rightarrow> outcome" where
  "initialize resolve self config_data template_source =
     (let config_data = (case config_data of None \<Rightarrow> Map.empty | Some d \<Rightarrow> d) in
      steps [
        print rule_line,
        print (utf8 [0x1F680] @ '' Claude Code Workflow Initialization''),
        print rule_line,
        print [],
        create_directories self,
        print [],
        template_step resolve self template_source,
        create_initial_config self config_data,
        print [],
        create_initial_state self,
        print [],
        create_readme self,
        print [],
        print rule_line,
        print (utf8 [0x2705] @ '' '' @ utf8 [0x521D, 0x59CB, 0x5316, 0x5B8C, 0x6210, 0xFF01]),
        print rule_line,
        print [],
        print (utf8 [0x1F4DD] @ '' '' @ utf8 [0x4E0B, 0x4E00, 0x6B65] @ '':''),
        print (''1. '' @ utf8 [0x5BA1, 0x67E5, 0x914D, 0x7F6E, 0x6587, 0x4EF6] @
          '': .claude-workflow/config.yml''),
        print (''2. '' @ utf8 [0x542F, 0x52A8] @ '' Claude Code''),
        print (''3. '' @ utf8 [0x5F00, 0x59CB, 0x7B2C, 0x4E00, 0x4E2A, 0x9700, 0x6C42] @ '': '' @
          [CHR 0x27] @ utf8 [0x6211, 0x4EEC, 0x9700, 0x8981, 0x6DFB, 0x52A0] @ ''['' @
          utf8 [0x65B0, 0x529F, 0x80FD] @ '']'' @ [CHR 0x27]),
        print []])"

subsection \<open>The command line\<close>

text \<open>What the user gave on the command line, and the namespace \<open>argparse\<close> makes of it:
  the path defaults to \<open>.\<close>, the project type to \<open>application\<close>, the other options
  to \<open>None\<close>.\<close>

record options =
  opt_project_path :: "string option"
  opt_project_name :: "string option"
  opt_project_type :: "string option"
  opt_platforms :: "string option"
  opt_template_source :: "string option"

record args =
  arg_project_path :: string
  arg_project_name :: "string option"
  arg_project_type :: string
  arg_platforms :: "string option"
  arg_template_source :: "string option"

definition parse_args :: "options \<Rightarrow> args" where
  "parse_args opts =
     \<lparr>arg_project_path = (case opt_project_path opts of None \<Rightarrow> ''.'' | Some p \<Rightarrow> p),
      arg_project_name = opt_project_name opts,
      arg_project_type = (case opt_project_type opts of None \<Rightarrow> ''application'' | Some t \<Rightarrow> t),
      arg_platforms = opt_platforms opts,
      arg_template_source = opt_template_source opts\<rparr>"

definition known_platforms :: "string list" where
  "known_platforms =
     [''gateway'', ''hmi'', ''configuration'', ''cloud'', ''app'', ''edge-ai'', ''scada'',
      ''web-editor'']"

definition of_optional :: "string option \<Rightarrow> pyval" where
  "of_optional v = (case v of None \<Rightarrow> PyNone | Some s \<Rightarrow> PyStr s)"

text \<open>The part of \<open>main\<close> that builds \<open>config_data\<close> from the arguments.\<close>

definition enable_platform :: "string \<Rightarrow> config_data \<Rightarrow> config_data" where
  "enable_platform p d = (if p \<in> set known_platforms then d(p \<mapsto> PyBool True) else d)"

definition main_config_data :: "args \<Rightarrow> config_data" where
  "main_config_data a =
     (let config_data = [''project_name'' \<mapsto> of_optional (arg_project_name a),
                         ''project_type'' \<mapsto> PyStr (arg_project_type a)]
      in if truthy (arg_platforms a) then
           fold enable_platform (split CHR '','' (lower (the (arg_platforms a)))) config_data
         else config_data)"

definition main :: "(string \<Rightarrow> path) \<Rightarrow> datetime \<Rightarrow> options \<Rightarrow> world \<Rightarrow> outcome" where
  "main resolve now opts =
     (let a = parse_args opts;
          initializer = WorkflowInitializer resolve now (arg_project_path a)
      in initialize resolve initializer (Some (main_config_data a)) (arg_template_source a))"

subsection \<open>What a run may change\<close>

text \<open>
  \<open>accounted ok w w'\<close> relates the world before a piece of the script to the world after
  it: the events are extended by events that satisfy \<open>ok\<close>; a path with no \<open>Write\<close> event
  is unchanged or became a directory by a \<open>Mkdir\<close> event; a path with no \<open>Mkdir\<close> event is
  unchanged or is a file written by a \<open>Write\<close> event; and a directory stays a directory.
\<close>

definition accounted :: "(event \<Rightarrow> bool) \<Rightarrow> world \<Rightarrow> world \<Rightarrow> bool" where
  "accounted ok w w' =
     ((\<exists>evs. events w' = events w @ evs \<and> list_all ok evs \<and>
        (\<forall>q. Write q \<in> set evs \<or> files w' q = files w q \<or>
              (files w' q = Some Dir \<and> Mkdir q \<in> set evs)) \<and>
        (\<forall>q. Mkdir q \<in> set evs \<or> files w' q = files w q \<or>
              (files w q \<noteq> Some Dir \<and> files w' q \<noteq> Some Dir \<and> Write q \<in> set evs))) \<and>
      (\<forall>q. files w q \<noteq> Some Dir \<or> files w' q = Some Dir))"

text \<open>The events that a piece of the script added.\<close>

definition new_events :: "world \<Rightarrow> world \<Rightarrow> event list" where
  "new_events w w' = drop (length (events w)) (events w')"

text \<open>Events of a piece that makes no directory and writes only below \<open>d\<close>.\<close>

fun under :: "path \<Rightarrow> event \<Rightarrow> bool" where
  "under d (Print s) = True"
| "under d (Mkdir q) = False"
| "under d (Write q) = strict_prefix d q"

text \<open>Events of a piece that only makes directories, all of them from \<open>S\<close>.\<close>

fun makes :: "path set \<Rightarrow> event \<Rightarrow> bool" where
  "makes S (Print s) = False"
| "makes S (Mkdir q) = (q \<in> S)"
| "makes S (Write q) = False"

text \<open>The file system is a tree: the root is a directory and whatever exists lies in a
  directory.\<close>

definition tree :: "world \<Rightarrow> bool" where
  "tree w = (files w [] = Some Dir \<and> (\<forall>q. files w q = None \<or> files w (parent q) = Some Dir))"

definition nofile :: "world \<Rightarrow> path \<Rightarrow> bool" where
  "nofile w q = (files w q = None \<or> files w q = Some Dir)"

text \<open>The directories that \<open>create_directories\<close> may make: the manifest directories
  and what lies above them.\<close>

definition scope :: "initializer \<Rightarrow> path set" where
  "scope self = {q. \<exists>d \<in> set dirs. prefix q (join (workflow_dir self) d)}"

text \<open>The files that a run writes itself, in the order of the script.\<close>

definition documents :: "initializer \<Rightarrow> path list" where
  "documents self =
     [join (workflow_dir self) ''config.yml'',
      join (workflow_dir self) ''current-phase.md'',
      join (join (workflow_dir self) ''parallel-tasks'') ''active-tasks.md'',
      join (join (workflow_dir self) ''parallel-tasks'') ''task-dependencies.md'',
      join (workflow_dir self) ''dependency-backlog.md'',
      join (workflow_dir self) ''feature-to-code-map.md'',
      join (workflow_dir self) ''rt-matrix.md'',
      join (workflow_dir self) ''README.md'']"

text \<open>A world in which a run can go through: a tree with no file where the manifest
  needs a directory and no directory where the run writes a file.\<close>

definition ready :: "initializer \<Rightarrow> world \<Rightarrow> bool" where
  "ready self w =
     (tree w
      \<and> (\<forall>d \<in> set dirs. \<forall>q. \<not> prefix q (join (workflow_dir self) d) \<or> nofile w q)
      \<and> (\<forall>p \<in> set (documents self). files w p \<noteq> Some Dir))"

text \<open>The two lines that tell the branches of the template step apart, and the events
  of a template copy: it prints anything but the notice of the other branch, makes no
  directory and writes only below \<open>d\<close>.\<close>

definition copying_notice :: string where
  "copying_notice = utf8 [0x1F4C4] @ '' Copying template files...''"

definition skip_notice :: string where
  "skip_notice =
     utf8 [0x26A0, 0xFE0F] @ ''  '' @
     utf8 [0x8DF3, 0x8FC7, 0x6A21, 0x677F, 0x590D, 0x5236, 0xFF08, 0x672A, 0x6307, 0x5B9A, 0x6A21,
       0x677F, 0x6E90, 0xFF09]"

fun copies :: "path \<Rightarrow> event \<Rightarrow> bool" where
  "copies d (Print s) = (s \<noteq> skip_notice)"
| "copies d (Mkdir q) = False"
| "copies d (Write q) = strict_prefix d q"

fun is_print :: "event \<Rightarrow> bool" where
  "is_print (Print s) = True"
| "is_print e = False"

definition emits :: "event list \<Rightarrow> world \<Rightarrow> world" where
  "emits evs w = w\<lparr>events := events w @ evs\<rparr>"

text \<open>What \<open>initialize\<close> prints before its first step and after its last.\<close>

definition opening_events :: "event list" where
  "opening_events =
     [Print rule_line,
      Print (utf8 [0x1F680] @ '' Claude Code Workflow Initialization''),
      Print rule_line,
      Print []]"

definition closing_events :: "event list" where
  "closing_events =
     [Print [],
      Print rule_line,
      Print (utf8 [0x2705] @ '' '' @ utf8 [0x521D, 0x59CB, 0x5316, 0x5B8C, 0x6210, 0xFF01]),
      Print rule_line,
      Print [],
      Print (utf8 [0x1F4DD] @ '' '' @ utf8 [0x4E0B, 0x4E00, 0x6B65] @ '':''),
      Print (''1. '' @ utf8 [0x5BA1, 0x67E5, 0x914D, 0x7F6E, 0x6587, 0x4EF6] @
        '': .claude-workflow/config.yml''),
      Print (''2. '' @ utf8 [0x542F, 0x52A8] @ '' Claude Code''),
      Print (''3. '' @ utf8 [0x5F00, 0x59CB, 0x7B2C, 0x4E00, 0x4E2A, 0x9700, 0x6C42] @ '': '' @
        [CHR 0x27] @ utf8 [0x6211, 0x4EEC, 0x9700, 0x8981, 0x6DFB, 0x52A0] @ ''['' @
        utf8 [0x65B0, 0x529F, 0x80FD] @ '']'' @ [CHR 0x27]),
      Print []]"

text \<open>The events of the directory step when it makes the directories \<open>mk\<close>, and the
  events from the configuration step to the README step.\<close>

definition directory_events :: "path list \<Rightarrow> event list" where
  "directory_events mk =
     Print (utf8 [0x1F4C1] @ '' Creating directory structure...'') # map Mkdir mk @
     [Print (utf8 [0x2705] @ '' Directory structure created''), Print []]"

definition document_events :: "initializer \<Rightarrow> event list" where
  "document_events self =
     [Print (utf8 [0x2699, 0xFE0F] @ ''  Creating configuration...''),
      Write (join (workflow_dir self) ''config.yml''),
      Print (utf8 [0x2705] @ '' Configuration created''),
      Print [],
      Print (utf8 [0x1F4CA] @ '' Creating initial state files...''),
      Write (join (workflow_dir self) ''current-phase.md''),
      Write (join (join (workflow_dir self) ''parallel-tasks'') ''active-tasks.md''),
      Write (join (join (workflow_dir self) ''parallel-tasks'') ''task-dependencies.md''),
      Write (join (workflow_dir self) ''dependency-backlog.md''),
      Write (join (workflow_dir self) ''feature-to-code-map.md''),
      Write (join (workflow_dir self) ''rt-matrix.md''),
      Print (utf8 [0x2705] @ '' Initial state files created''),
      Print [],
      Write (join (workflow_dir self) ''README.md'')]"

text \<open>Reading a decimal numeral, to say what a formatted date denotes.\<close>

definition digit_value :: "char \<Rightarrow> nat" where
  "digit_value c = of_char c - 48"

definition decimal :: "string \<Rightarrow> nat" where
  "decimal s = foldl (\<lambda>n c. 10 * n + digit_value c) 0 s"

subsection \<open>Path names and the files they denote\<close>

text \<open>
  The operating system follows links: a path name that is given to \<open>exists\<close>, \<open>isdir\<close>,
  \<open>samefile\<close> or \<open>open\<close> stands for the file that it denotes, which for a symbolic link
  is the target of the link, and two names of one file (a hard link) denote one file.
  Below, \<open>realpath p\<close> is the path under which the file system \<open>files\<close> keeps the file
  that the name \<open>p\<close> denotes (\<open>os.path.realpath\<close>). The template copy makes and removes no
  link, so \<open>realpath\<close> is the same during the whole copy. The definitions repeat those
  of \<open>shutil.copy2\<close> and \<open>copy_templates\<close> above with every access to the file system
  made through \<open>realpath\<close>; on a file system without links \<open>realpath\<close> is the identity and
  they are the definitions above.
\<close>

definition copy2_via :: "(path \<Rightarrow> path) \<Rightarrow> path \<Rightarrow> path \<Rightarrow> world \<Rightarrow> outcome" where
  "copy2_via realpath src dst w =
     (let dst' = (if is_dir w (realpath dst) then join dst (path_name src) else dst) in
      if exists_path w (realpath src) \<and> realpath src = realpath dst'
      then (Some (SameFileError src), w)
      else (case files w (realpath src) of
              None \<Rightarrow> (Some (FileNotFoundError src), w)
            | Some Dir \<Rightarrow> (Some (IsADirectoryError src), w)
            | Some (File content) \<Rightarrow> write_text (realpath dst') content w))"

definition copy_template_via ::
  "(path \<Rightarrow> path) \<Rightarrow> initializer \<Rightarrow> path \<Rightarrow> string \<Rightarrow> world \<Rightarrow> outcome" where
  "copy_template_via realpath self template_source template w =
     (let template_dir = join (workflow_dir self) ''templates'';
          source = join (join (join template_source ''.claude-workflow'') ''templates'') template
      in if exists_path w (realpath source) then
           steps [
             copy2_via realpath source (join template_dir template),
             print (''  '' @ utf8 [0x2705] @ '' Copied '' @ template)] w
         else
           print (''  '' @ utf8 [0x26A0, 0xFE0F] @ ''  Template not found: '' @ template) w)"

definition copy_state_template_via ::
  "(path \<Rightarrow> path) \<Rightarrow> initializer \<Rightarrow> path \<Rightarrow> string \<Rightarrow> world \<Rightarrow> outcome" where
  "copy_state_template_via realpath self template_source template w =
     (let source = join (join template_source ''.claude-workflow'') template
      in if exists_path w (realpath source) then
           (let dest = join (workflow_dir self) (replace ''-template'' [] template)
            in steps [
                 copy2_via realpath source dest,
                 print (''  '' @ utf8 [0x2705] @ '' Copied '' @ template)] w)
         else (None, w))"

definition copy_templates_via ::
  "(path \<Rightarrow> path) \<Rightarrow> initializer \<Rightarrow> path \<Rightarrow> world \<Rightarrow> outcome" where
  "copy_templates_via realpath self template_source =
     steps [
       print (utf8 [0x1F4C4] @ '' Copying template files...''),
       for_each (copy_template_via realpath self template_source) templates,
       for_each (copy_state_template_via realpath self template_source) state_templates,
       print (utf8 [0x2705] @ '' Template files copied'')]"

text \<open>Events of a piece that makes no directory and writes only files that a path name
  below \<open>d\<close> denotes.\<close>

fun under_via :: "(path \<Rightarrow> path) \<Rightarrow> path \<Rightarrow> event \<Rightarrow> bool" where
  "under_via realpath d (Print s) = True"
| "under_via realpath d (Mkdir q) = False"
| "under_via realpath d (Write q) = (\<exists>p. strict_prefix d p \<and> q = realpath p)"

subsection \<open>Example inputs\<close>

text \<open>A run in the directory \<open>/work\<close> on the project \<open>proj\<close>, on the third of November
  2026; \<open>/work/proj\<close> exists and is empty.\<close>

definition example_resolve :: "string \<Rightarrow> path" where
  "example_resolve s = ''work'' # parts s"

definition example_now :: datetime where
  "example_now = \<lparr>year = 2026, month = 11, day = 3\<rparr>"

definition example_self :: initializer where
  "example_self = WorkflowInitializer example_resolve example_now ''proj''"

definition example_world :: world where
  "example_world =
     \<lparr>files = [[] \<mapsto> Dir, [''work''] \<mapsto> Dir, [''work'', ''proj''] \<mapsto> Dir], events = []\<rparr>"

definition no_options :: options where
  "no_options =
     \<lparr>opt_project_path = Some ''proj'', opt_project_name = None, opt_project_type = None,
      opt_platforms = None, opt_template_source = None\<rparr>"


text \<open>The project is its own template source and holds one state template.\<close>

definition example_world_with_template :: world where
  "example_world_with_template =
     example_world\<lparr>files := (files example_world)
       ([''work'', ''proj'', ''.claude-workflow''] \<mapsto> Dir,
        [''work'', ''proj'', ''.claude-workflow'', ''rt-matrix-template.md''] \<mapsto> File ''# RT'')\<rparr>"

text \<open>A template source \<open>/work/tpl\<close> beside the project, holding one template; the
  workflow directory and its \<open>templates\<close> directory exist.\<close>

definition example_world_with_source :: world where
  "example_world_with_source =
     example_world\<lparr>files := (files example_world)
       ([''work'', ''proj'', ''.claude-workflow''] \<mapsto> Dir,
        [''work'', ''proj'', ''.claude-workflow'', ''templates''] \<mapsto> Dir,
        [''work'', ''tpl''] \<mapsto> Dir,
        [''work'', ''tpl'', ''.claude-workflow''] \<mapsto> Dir,
        [''work'', ''tpl'', ''.claude-workflow'', ''templates''] \<mapsto> Dir,
        [''work'', ''tpl'', ''.claude-workflow'', ''templates'', ''REQ-template.md'']
          \<mapsto> File ''# REQ'')\<rparr>"

text \<open>The template source \<open>/work/tpl\<close> beside the project holds two templates, and in
  the project the name \<open>templates/REQ-template.md\<close> is a symbolic link to the second
  template of the template source.\<close>

definition example_world_with_link :: world where
  "example_world_with_link =
     example_world_with_source\<lparr>files := (files example_world_with_source)
       ([''work'', ''tpl'', ''.claude-workflow'', ''templates'', ''FE-template.md'']
          \<mapsto> File ''# FE'')\<rparr>"

definition example_link :: "path \<Rightarrow> path" where
  "example_link =
     (\<lambda>p. p)([''work'', ''proj'', ''.claude-workflow'', ''templates'', ''REQ-template.md'']
       := [''work'', ''tpl'', ''.claude-workflow'', ''templates'', ''FE-template.md''])"

text \<open>The same, with the symbolic link to a file \<open>/work/notes.md\<close> outside both
  directories.\<close>

definition example_world_with_notes :: world where
  "example_world_with_notes =
     example_world_with_source\<lparr>files := (files example_world_with_source)
       ([''work'', ''notes.md''] \<mapsto> File ''# notes'')\<rparr>"

definition example_link_outside :: "path \<Rightarrow> path" where
  "example_link_outside =
     (\<lambda>p. p)([''work'', ''proj'', ''.claude-workflow'', ''templates'', ''REQ-template.md'']
       := [''work'', ''notes.md''])"

section \<open>Properties\<close>

subsection \<open>Sequencing\<close>

lemma files_emit [simp]: "files (emit e w) = files w"
  by (simp add: emit_def)

lemma events_emit [simp]: "events (emit e w) = events w @ [e]"
  by (simp add: emit_def)

lemma steps_success:
  "steps (f # fs) w = (None, w') \<longleftrightarrow> (\<exists>w1. f w = (None, w1) \<and> steps fs w1 = (None, w'))"
  by (cases "f w") (auto split: option.splits)

lemma steps_snd_Cons:
  "snd (steps (f # fs) w) = (if fst (f w) = None then snd (steps fs (snd (f w))) else snd (f w))"
  by (cases "f w") (auto split: option.splits)

lemma steps_fst_Cons:
  "fst (steps (f # fs) w) = (if fst (f w) = None then fst (steps fs (snd (f w))) else fst (f w))"
  by (cases "f w") (auto split: option.splits)

lemma accounted_refl: "accounted ok w w"
  by (simp add: accounted_def)

lemma accounted_trans:
  assumes "accounted ok w w1" and "accounted ok w1 w2"
  shows "accounted ok w w2"
proof -
  from assms(1) obtain e1 where e1: "events w1 = events w @ e1" "list_all ok e1"
    and a1: "\<And>q. Write q \<in> set e1 \<or> files w1 q = files w q \<or>
              (files w1 q = Some Dir \<and> Mkdir q \<in> set e1)"
    and b1: "\<And>q. Mkdir q \<in> set e1 \<or> files w1 q = files w q \<or>
              (files w q \<noteq> Some Dir \<and> files w1 q \<noteq> Some Dir \<and> Write q \<in> set e1)"
    and d1: "\<And>q. files w q \<noteq> Some Dir \<or> files w1 q = Some Dir"
    unfolding accounted_def by blast
  from assms(2) obtain e2 where e2: "events w2 = events w1 @ e2" "list_all ok e2"
    and a2: "\<And>q. Write q \<in> set e2 \<or> files w2 q = files w1 q \<or>
              (files w2 q = Some Dir \<and> Mkdir q \<in> set e2)"
    and b2: "\<And>q. Mkdir q \<in> set e2 \<or> files w2 q = files w1 q \<or>
              (files w1 q \<noteq> Some Dir \<and> files w2 q \<noteq> Some Dir \<and> Write q \<in> set e2)"
    and d2: "\<And>q. files w1 q \<noteq> Some Dir \<or> files w2 q = Some Dir"
    unfolding accounted_def by blast
  have "events w2 = events w @ (e1 @ e2)" using e1(1) e2(1) by simp
  moreover have "list_all ok (e1 @ e2)" using e1(2) e2(2) by simp
  moreover have "\<forall>q. Write q \<in> set (e1 @ e2) \<or> files w2 q = files w q \<or>
              (files w2 q = Some Dir \<and> Mkdir q \<in> set (e1 @ e2))"
  proof
    fix q
    show "Write q \<in> set (e1 @ e2) \<or> files w2 q = files w q \<or>
              (files w2 q = Some Dir \<and> Mkdir q \<in> set (e1 @ e2))"
      using a1 [of q] a2 [of q] d2 [of q] by auto
  qed
  moreover have "\<forall>q. Mkdir q \<in> set (e1 @ e2) \<or> files w2 q = files w q \<or>
              (files w q \<noteq> Some Dir \<and> files w2 q \<noteq> Some Dir \<and> Write q \<in> set (e1 @ e2))"
  proof
    fix q
    show "Mkdir q \<in> set (e1 @ e2) \<or> files w2 q = files w q \<or>
              (files w q \<noteq> Some Dir \<and> files w2 q \<noteq> Some Dir \<and> Write q \<in> set (e1 @ e2))"
      using b1 [of q] b2 [of q] by auto
  qed
  moreover have "\<forall>q. files w q \<noteq> Some Dir \<or> files w2 q = Some Dir"
    using d1 d2 by blast
  ultimately show ?thesis unfolding accounted_def by blast
qed

lemma accounted_print: "ok (Print s) \<Longrightarrow> accounted ok w (snd (print s w))"
  by (simp add: accounted_def print_def)

lemma accounted_os_mkdir: "ok (Mkdir p) \<Longrightarrow> accounted ok w (snd (os_mkdir p w))"
  by (auto simp: accounted_def os_mkdir_def split: option.splits node.splits)

lemma accounted_mkdir_exist_ok: "ok (Mkdir p) \<Longrightarrow> accounted ok w (snd (mkdir_exist_ok p w))"
  using accounted_os_mkdir [of ok p w]
  by (auto simp: mkdir_exist_ok_def split: prod.splits option.splits)

lemma prefix_parent: "prefix (parent p) p"
  by (simp add: parent_def prefixeq_butlast)

lemma accounted_mkdir:
  assumes "\<And>q. prefix q p \<Longrightarrow> ok (Mkdir q)"
  shows "accounted ok w (snd (mkdir p w))"
  using assms
proof (induction p w rule: mkdir.induct)
  case (1 p w)
  obtain r w' where r: "os_mkdir p w = (r, w')" by (cases "os_mkdir p w")
  have okp: "ok (Mkdir p)" using "1.prems" by simp
  have a: "accounted ok w w'" using accounted_os_mkdir [of ok p w] okp r by simp
  show ?case
  proof (cases r)
    case None
    then show ?thesis using r a by (simp add: mkdir.simps [of p w])
  next
    case (Some e)
    show ?thesis
    proof (cases "is_not_found e \<and> parent p \<noteq> p")
      case True
      have "\<And>q. prefix q (parent p) \<Longrightarrow> ok (Mkdir q)"
        using "1.prems" prefix_parent [of p] prefix_order.trans by blast
      then have ih: "accounted ok w' (snd (mkdir (parent p) w'))"
        using "1.IH" r Some True by simp
      obtain r1 w1 where r1: "mkdir (parent p) w' = (r1, w1)" by (cases "mkdir (parent p) w'")
      have b: "accounted ok w w1" using accounted_trans [OF a] ih r1 by simp
      have c: "accounted ok w1 (snd (mkdir_exist_ok p w1))"
        using accounted_mkdir_exist_ok okp by blast
      show ?thesis using r Some True r1 b accounted_trans [OF b c]
        by (simp add: mkdir.simps [of p w] split: option.splits)
    next
      case False
      then show ?thesis using r Some a
        by (auto simp: mkdir.simps [of p w])
    qed
  qed
qed

lemma accounted_write_text: "ok (Write p) \<Longrightarrow> accounted ok w (snd (write_text p c w))"
  by (auto simp: accounted_def write_text_def split: option.splits node.splits)

lemma accounted_copy2:
  "ok (Write dst) \<Longrightarrow> ok (Write (join dst (path_name src))) \<Longrightarrow>
     accounted ok w (snd (copy2 src dst w))"
  using accounted_write_text [where ok = ok and p = dst and w = w]
    accounted_write_text [where ok = ok and p = "join dst (path_name src)" and w = w]
  by (auto simp: copy2_def Let_def accounted_refl split: option.splits node.splits)

lemma accounted_steps:
  "(\<And>f w. f \<in> set fs \<Longrightarrow> accounted ok w (snd (f w))) \<Longrightarrow> accounted ok w (snd (steps fs w))"
proof (induction fs arbitrary: w)
  case Nil
  then show ?case by (simp add: accounted_refl)
next
  case (Cons f fs)
  have a: "accounted ok w (snd (f w))" using Cons.prems by simp
  have b: "accounted ok (snd (f w)) (snd (steps fs (snd (f w))))"
    using Cons.IH Cons.prems by simp
  show ?case using a accounted_trans [OF a b] by (simp add: steps_snd_Cons del: steps.simps)
qed

lemma accounted_for_each:
  "(\<And>x w. x \<in> set xs \<Longrightarrow> accounted ok w (snd (body x w))) \<Longrightarrow>
     accounted ok w (snd (for_each body xs w))"
  unfolding for_each_def by (rule accounted_steps) auto

lemma accounted_dir: "accounted ok w w' \<Longrightarrow> is_dir w q \<Longrightarrow> is_dir w' q"
  unfolding accounted_def is_dir_def by blast

subsection \<open>The configuration text\<close>

lemmas char_eval = char_of_def bit_Suc_0_iff


lemma fold_append_text: "fold (\<lambda>p text. text @ f p) ps init = init @ concat (map f ps)"
  by (induction ps arbitrary: init) simp_all

lemma yaml_content_parts:
  "yaml_content d =
     yaml_head (default_config d) @ concat (map yaml_platform (platforms (default_config d)))
     @ yaml_tail"
  by (simp add: yaml_content_def Let_def fold_append_text)

lemma fold_enable_platform:
  "fold enable_platform ts d p =
     (if p \<in> set ts \<and> p \<in> set known_platforms then Some (PyBool True) else d p)"
  by (induction ts arbitrary: d) (auto simp: enable_platform_def)

lemma known_platform_key:
  "p \<in> set known_platforms \<Longrightarrow> p \<noteq> ''project_name'' \<and> p \<noteq> ''project_type''"
  by (auto simp: known_platforms_def)

lemma main_config_data_flag:
  assumes "p \<in> set known_platforms"
  shows "get (main_config_data a) p (PyBool False) =
     PyBool (truthy (arg_platforms a) \<and> p \<in> set (split CHR '','' (lower (the (arg_platforms a)))))"
  using assms known_platform_key [OF assms]
  by (simp add: main_config_data_def Let_def get_def fold_enable_platform)

lemma lower_char_idem: "lower_char (lower_char c) = lower_char c"
proof (cases "(65::nat) \<le> of_char c \<and> of_char c \<le> (90::nat)")
  case True
  then have "of_char (char_of (of_char c + (32::nat)) :: char) = (of_char c + (32::nat))"
    by (simp add: of_char_of)
  with True show ?thesis by (simp add: lower_char_def)
next
  case False
  then show ?thesis by (auto simp: lower_char_def)
qed

lemma lower_lower: "lower (lower s) = lower s"
  by (simp add: lower_def lower_char_idem)

lemma write_text_success:
  "write_text p c w = (None, w') \<Longrightarrow> w' = emit (Write p) (w\<lparr>files := (files w)(p \<mapsto> File c)\<rparr>)"
  by (auto simp: write_text_def split: option.splits node.splits)



lemma parts_simple [simp]:
  "parts ''proj'' = [''proj'']"
  "parts ''.claude-workflow'' = [''.claude-workflow'']"
  "parts ''config.yml'' = [''config.yml'']"
  "parts ''templates'' = [''templates'']"
  "parts ''parallel-tasks'' = [''parallel-tasks'']"
  "parts ''current-phase.md'' = [''current-phase.md'']"
  "parts ''active-tasks.md'' = [''active-tasks.md'']"
  "parts ''task-dependencies.md'' = [''task-dependencies.md'']"
  "parts ''dependency-backlog.md'' = [''dependency-backlog.md'']"
  "parts ''feature-to-code-map.md'' = [''feature-to-code-map.md'']"
  "parts ''rt-matrix.md'' = [''rt-matrix.md'']"
  "parts ''README.md'' = [''README.md'']"
  by (simp_all add: parts_def)

lemma example_self_simps [simp]:
  "project_path example_self = [''work'', ''proj'']"
  "workflow_dir example_self = [''work'', ''proj'', ''.claude-workflow'']"
  by (simp_all add: example_self_def WorkflowInitializer_def example_resolve_def join_def)


text \<open>
  C10. For a platform identifier of the fixed list, the flag that \<open>main\<close> puts in the
  configuration data is true exactly when the identifier is one of the pieces that the
  lowered \<open>--platforms\<close> argument splits into at its commas. Lowering is applied to the
  whole argument, so an argument and its lowered form give the same configuration data;
  the pieces are compared as they are, so with \<open>gateway, hmi\<close> the piece \<open> hmi\<close> matches
  nothing and hmi stays disabled, while \<open>Gateway,HMI\<close> enables both.
\<close>

theorem platform_matching:
  "(p \<in> set known_platforms \<longrightarrow>
      get (main_config_data (a\<lparr>arg_platforms := Some s\<rparr>)) p (PyBool False) =
        PyBool (p \<in> set (split CHR '','' (lower s))))
   \<and> main_config_data (a\<lparr>arg_platforms := Some (lower s)\<rparr>) =
       main_config_data (a\<lparr>arg_platforms := Some s\<rparr>)
   \<and> split CHR '','' (lower ''gateway, hmi'') = [''gateway'', '' hmi'']
   \<and> get (main_config_data (a\<lparr>arg_platforms := Some ''gateway, hmi''\<rparr>)) ''gateway''
         (PyBool False) = PyBool True
   \<and> get (main_config_data (a\<lparr>arg_platforms := Some ''gateway, hmi''\<rparr>)) ''hmi''
         (PyBool False) = PyBool False
   \<and> get (main_config_data (a\<lparr>arg_platforms := Some ''Gateway,HMI''\<rparr>)) ''hmi''
         (PyBool False) = PyBool True"
proof (intro conjI impI)
  assume p: "p \<in> set known_platforms"
  have "[] \<notin> set known_platforms" by (simp add: known_platforms_def)
  then have "s = [] \<Longrightarrow> p \<notin> set (split CHR '','' (lower s))"
    using p by (auto simp: lower_def)
  then show "get (main_config_data (a\<lparr>arg_platforms := Some s\<rparr>)) p (PyBool False) =
        PyBool (p \<in> set (split CHR '','' (lower s)))"
    using main_config_data_flag [OF p, of "a\<lparr>arg_platforms := Some s\<rparr>"] by auto
next
  show "main_config_data (a\<lparr>arg_platforms := Some (lower s)\<rparr>) =
       main_config_data (a\<lparr>arg_platforms := Some s\<rparr>)"
    by (simp add: main_config_data_def Let_def lower_lower) (simp add: lower_def)
next
  show "split CHR '','' (lower ''gateway, hmi'') = [''gateway'', '' hmi'']"
    by (simp add: lower_def lower_char_def char_eval)
next
  show "get (main_config_data (a\<lparr>arg_platforms := Some ''gateway, hmi''\<rparr>)) ''gateway''
         (PyBool False) = PyBool True"
    by (simp add: main_config_data_flag known_platforms_def lower_def lower_char_def char_eval)
next
  show "get (main_config_data (a\<lparr>arg_platforms := Some ''gateway, hmi''\<rparr>)) ''hmi''
         (PyBool False) = PyBool False"
    by (simp add: main_config_data_flag known_platforms_def lower_def lower_char_def char_eval)
next
  show "get (main_config_data (a\<lparr>arg_platforms := Some ''Gateway,HMI''\<rparr>)) ''hmi''
         (PyBool False) = PyBool True"
    by (simp add: main_config_data_flag known_platforms_def lower_def lower_char_def char_eval)
qed

theorem platform_matching_witness:
  "''edge-ai'' \<in> set known_platforms \<and>
   get (main_config_data (parse_args (no_options\<lparr>opt_platforms := Some ''HMI,Edge-AI, app''\<rparr>)))
     ''edge-ai'' (PyBool False) = PyBool True \<and>
   get (main_config_data (parse_args (no_options\<lparr>opt_platforms := Some ''HMI,Edge-AI, app''\<rparr>)))
     ''app'' (PyBool False) = PyBool False"
proof -
  let ?a = "parse_args no_options"
  have eq: "parse_args (no_options\<lparr>opt_platforms := Some ''HMI,Edge-AI, app''\<rparr>) =
      ?a\<lparr>arg_platforms := Some ''HMI,Edge-AI, app''\<rparr>"
    by (simp add: parse_args_def)
  have tokens: "split CHR '','' (lower ''HMI,Edge-AI, app'') = [''hmi'', ''edge-ai'', '' app'']"
    by (simp add: lower_def lower_char_def char_eval)
  have k: "''edge-ai'' \<in> set known_platforms" "''app'' \<in> set known_platforms"
    by (simp_all add: known_platforms_def)
  show ?thesis
    using platform_matching [where p = "''edge-ai''" and a = ?a and s = "''HMI,Edge-AI, app''"]
      platform_matching [where p = "''app''" and a = ?a and s = "''HMI,Edge-AI, app''"] k
    by (simp add: eq tokens)
qed

subsection \<open>Copying templates\<close>

lemma exists_path_emit [simp]: "exists_path (emit e w) p = exists_path w p"
  by (simp add: exists_path_def)

lemma state_template_dests:
  "parts (replace ''-template'' [] ''parallel-tasks/active-tasks-template.md'') =
     [''parallel-tasks'', ''active-tasks.md'']"
  "parts (replace ''-template'' [] ''parallel-tasks/task-dependencies-template.md'') =
     [''parallel-tasks'', ''task-dependencies.md'']"
  "parts (replace ''-template'' [] ''dependency-backlog-template.md'') =
     [''dependency-backlog.md'']"
  "parts (replace ''-template'' [] ''feature-to-code-map-template.md'') =
     [''feature-to-code-map.md'']"
  "parts (replace ''-template'' [] ''rt-matrix-template.md'') = [''rt-matrix.md'']"
  by (simp_all add: replace.simps parts_def)

lemma template_parts:
  "parts ''REQ-template.md'' = [''REQ-template.md'']"
  "parts ''FE-template.md'' = [''FE-template.md'']"
  "parts ''SOL-template.md'' = [''SOL-template.md'']"
  "parts ''IMP-template.md'' = [''IMP-template.md'']"
  "parts ''parallel-tasks/active-tasks-template.md'' =
     [''parallel-tasks'', ''active-tasks-template.md'']"
  "parts ''parallel-tasks/task-dependencies-template.md'' =
     [''parallel-tasks'', ''task-dependencies-template.md'']"
  "parts ''dependency-backlog-template.md'' = [''dependency-backlog-template.md'']"
  "parts ''feature-to-code-map-template.md'' = [''feature-to-code-map-template.md'']"
  "parts ''rt-matrix-template.md'' = [''rt-matrix-template.md'']"
  by (simp_all add: parts_def)

lemma state_template_dest:
  assumes "t \<in> set state_templates"
  shows "parts (replace ''-template'' [] t) \<noteq> []"
proof -
  have "t = ''parallel-tasks/active-tasks-template.md''
    \<or> t = ''parallel-tasks/task-dependencies-template.md''
    \<or> t = ''dependency-backlog-template.md''
    \<or> t = ''feature-to-code-map-template.md''
    \<or> t = ''rt-matrix-template.md''"
    using assms by (simp add: state_templates_def)
  then show ?thesis
    by (elim disjE) (simp_all add: state_template_dests)
qed

lemma template_messages:
  "utf8 [0x1F4C4] @ '' Copying template files...'' \<noteq> skip_notice"
  "utf8 [0x2705] @ '' Template files copied'' \<noteq> skip_notice"
  "''  '' @ utf8 [0x2705] @ '' Copied '' @ t \<noteq> skip_notice"
  "''  '' @ utf8 [0x26A0, 0xFE0F] @ ''  Template not found: '' @ t \<noteq> skip_notice"
  "[] \<noteq> skip_notice"
  by (simp_all add: skip_notice_def utf8_def utf8_char_def char_eval)

lemma accounted_steps2:
  assumes "\<And>w. accounted ok w (snd (f w))" and "\<And>w. accounted ok w (snd (g w))"
  shows "accounted ok w (snd (steps [f, g] w))"
  by (rule accounted_steps) (use assms in auto)

lemma accounted_copy_template:
  assumes "\<And>s. s \<noteq> skip_notice \<Longrightarrow> ok (Print s)"
    and "\<And>q. strict_prefix (workflow_dir self) q \<Longrightarrow> ok (Write q)"
  shows "accounted ok w (snd (copy_template self ts t w))"
proof -
  let ?dst = "join (join (workflow_dir self) ''templates'') t"
  have d: "strict_prefix (workflow_dir self) ?dst"
    "strict_prefix (workflow_dir self) (join ?dst s')" for s'
    by (simp_all add: join_def strict_prefix_def parts_def)
  have m: "ok (Print (''  '' @ utf8 [0x2705] @ '' Copied '' @ t))"
    "ok (Print (''  '' @ utf8 [0x26A0, 0xFE0F] @ ''  Template not found: '' @ t))"
    using assms(1) template_messages by blast+
  have c: "accounted ok w (snd (copy2 src ?dst w))" for src w
    by (rule accounted_copy2) (simp_all only: assms(2) d)
  have "accounted ok w
      (snd (steps [copy2 src ?dst, print (''  '' @ utf8 [0x2705] @ '' Copied '' @ t)] w))" for src
    by (rule accounted_steps2) (rule c, rule accounted_print, rule m(1))
  moreover have "accounted ok w
      (snd (print (''  '' @ utf8 [0x26A0, 0xFE0F] @ ''  Template not found: '' @ t) w))"
    by (rule accounted_print) (rule m(2))
  ultimately show ?thesis
    by (simp add: copy_template_def Let_def del: steps.simps)
qed

lemma accounted_copy_state_template:
  assumes "\<And>s. s \<noteq> skip_notice \<Longrightarrow> ok (Print s)"
    and "\<And>q. strict_prefix (workflow_dir self) q \<Longrightarrow> ok (Write q)"
    and "t \<in> set state_templates"
  shows "accounted ok w (snd (copy_state_template self ts t w))"
proof -
  let ?dst = "join (workflow_dir self) (replace ''-template'' [] t)"
  have "parts (replace ''-template'' [] t) \<noteq> []"
    using assms(3) by (rule state_template_dest)
  then have d: "strict_prefix (workflow_dir self) ?dst"
    "strict_prefix (workflow_dir self) (join ?dst s')" for s'
    by (simp_all add: join_def strict_prefix_def)
  have m: "ok (Print (''  '' @ utf8 [0x2705] @ '' Copied '' @ t))"
    "ok (Print [])"
    using assms(1) template_messages by blast+
  have c: "accounted ok w (snd (copy2 src ?dst w))" for src w
    by (rule accounted_copy2) (simp_all only: assms(2) d)
  have "accounted ok w
      (snd (steps [copy2 src ?dst, print (''  '' @ utf8 [0x2705] @ '' Copied '' @ t)] w))" for src
    by (rule accounted_steps2) (rule c, rule accounted_print, rule m(1))
  then show ?thesis
    by (simp add: copy_state_template_def Let_def accounted_refl del: steps.simps)
qed

lemma accounted_copy_loops:
  assumes "\<And>s. s \<noteq> skip_notice \<Longrightarrow> ok (Print s)"
    and "\<And>q. strict_prefix (workflow_dir self) q \<Longrightarrow> ok (Write q)"
  shows "accounted ok w
     (snd (steps [for_each (copy_template self ts) templates,
        for_each (copy_state_template self ts) state_templates,
        print (utf8 [0x2705] @ '' Template files copied'')] w))"
proof -
  have m: "ok (Print (utf8 [0x2705] @ '' Template files copied''))"
    using assms(1) template_messages by blast
  show ?thesis
    by (rule accounted_steps)
      (auto simp: assms m intro!: accounted_print accounted_for_each accounted_copy_template
        accounted_copy_state_template)
qed

lemma copy_templates_unfold:
  "copy_templates self ts w =
     steps [for_each (copy_template self ts) templates,
        for_each (copy_state_template self ts) state_templates,
        print (utf8 [0x2705] @ '' Template files copied'')] (emit (Print copying_notice) w)"
  by (simp add: copy_templates_def print_def copying_notice_def)

lemma accounted_copy_templates:
  assumes "\<And>s. s \<noteq> skip_notice \<Longrightarrow> ok (Print s)"
    and "\<And>q. strict_prefix (workflow_dir self) q \<Longrightarrow> ok (Write q)"
  shows "accounted ok w (snd (copy_templates self ts w))"
proof -
  have "ok (Print copying_notice)"
    using assms(1) template_messages(1) by (simp add: copying_notice_def)
  then have "accounted ok w (emit (Print copying_notice) w)"
    using accounted_print [of ok copying_notice w] by (simp add: print_def)
  then show ?thesis
    unfolding copy_templates_unfold
    using accounted_copy_loops [OF assms] accounted_trans by blast
qed

lemma copy_template_missing:
  assumes "\<not> exists_path w (join (join (join ts ''.claude-workflow'') ''templates'') t)"
  shows "copy_template self ts t w =
     (None, emit (Print (''  '' @ utf8 [0x26A0, 0xFE0F] @ ''  Template not found: '' @ t)) w)"
  using assms by (simp add: copy_template_def Let_def print_def)

lemma copy_state_template_missing:
  assumes "\<not> exists_path w (join (join ts ''.claude-workflow'') t)"
  shows "copy_state_template self ts t w = (None, w)"
  using assms by (simp add: copy_state_template_def Let_def)

lemma for_each_skip:
  "body x w = (None, w1) \<Longrightarrow> for_each body (x # xs) w = for_each body xs w1"
  by (simp add: for_each_def)

lemma example_source_run:
  "fst (copy_templates example_self [''work'', ''tpl''] example_world_with_source) = None"
  "events (snd (copy_templates example_self [''work'', ''tpl''] example_world_with_source)) =
     [Print (utf8 [0x1F4C4] @ '' Copying template files...''),
      Write [''work'', ''proj'', ''.claude-workflow'', ''templates'', ''REQ-template.md''],
      Print (''  '' @ utf8 [0x2705] @ '' Copied REQ-template.md''),
      Print (''  '' @ utf8 [0x26A0, 0xFE0F] @ ''  Template not found: FE-template.md''),
      Print (''  '' @ utf8 [0x26A0, 0xFE0F] @ ''  Template not found: SOL-template.md''),
      Print (''  '' @ utf8 [0x26A0, 0xFE0F] @ ''  Template not found: IMP-template.md''),
      Print (utf8 [0x2705] @ '' Template files copied'')]"
  "files (snd (copy_templates example_self [''work'', ''tpl''] example_world_with_source)) =
     (files example_world_with_source)
       ([''work'', ''proj'', ''.claude-workflow'', ''templates'', ''REQ-template.md'']
          \<mapsto> File ''# REQ'')"
  by (simp_all add: copy_templates_def for_each_def templates_def state_templates_def
      copy_template_def copy_state_template_def copy2_def write_text_def print_def emit_def
      exists_path_def is_dir_def example_world_with_source_def example_world_def
      join_def template_parts state_template_dests parent_def path_name_def Let_def)

lemma example_source_state_templates:
  "list_all (\<lambda>t. \<not> exists_path example_world_with_source
       (join (join [''work'', ''tpl''] ''.claude-workflow'') t)) state_templates"
  by (simp add: state_templates_def exists_path_def example_world_with_source_def
      example_world_def join_def template_parts)

text \<open>
  C4, what the code does. The two loops of \<open>copy_templates\<close> treat an absent source
  differently. For each of them the body raises nothing and writes nothing, and the loop
  goes on; but the body of the first loop (the four templates) prints the warning
  \<open>Template not found\<close>, while the body of the second loop (the five state templates) has
  no \<open>else\<close> branch and returns the world as it was, so nothing is printed for a state
  template that is absent. On the example with the template source \<open>/work/tpl\<close> beside the
  project, which holds \<open>REQ-template.md\<close> and nothing else, \<open>copy_templates\<close> returns
  without an exception, copies this template, warns about the three other templates, and
  prints no line about any of the five state templates, all of them absent; the only file
  that it writes is the copy.
\<close>

theorem state_template_skipped_without_warning:
  "copy_state_template self ts t
       (w\<lparr>files := (files w)(join (join ts ''.claude-workflow'') t := None)\<rparr>) =
     (None, w\<lparr>files := (files w)(join (join ts ''.claude-workflow'') t := None)\<rparr>)
   \<and> copy_template self ts t
       (w\<lparr>files := (files w)
          (join (join (join ts ''.claude-workflow'') ''templates'') t := None)\<rparr>) =
     (None, emit (Print (''  '' @ utf8 [0x26A0, 0xFE0F] @ ''  Template not found: '' @ t))
        (w\<lparr>files := (files w)
          (join (join (join ts ''.claude-workflow'') ''templates'') t := None)\<rparr>))
   \<and> for_each (copy_state_template self ts) (t # rest)
       (w\<lparr>files := (files w)(join (join ts ''.claude-workflow'') t := None)\<rparr>) =
     for_each (copy_state_template self ts) rest
       (w\<lparr>files := (files w)(join (join ts ''.claude-workflow'') t := None)\<rparr>)
   \<and> length state_templates = 5
   \<and> list_all (\<lambda>t. \<not> exists_path example_world_with_source
        (join (join [''work'', ''tpl''] ''.claude-workflow'') t)) state_templates
   \<and> fst (copy_templates example_self [''work'', ''tpl''] example_world_with_source) = None
   \<and> events (snd (copy_templates example_self [''work'', ''tpl''] example_world_with_source)) =
       [Print (utf8 [0x1F4C4] @ '' Copying template files...''),
        Write [''work'', ''proj'', ''.claude-workflow'', ''templates'', ''REQ-template.md''],
        Print (''  '' @ utf8 [0x2705] @ '' Copied REQ-template.md''),
        Print (''  '' @ utf8 [0x26A0, 0xFE0F] @ ''  Template not found: FE-template.md''),
        Print (''  '' @ utf8 [0x26A0, 0xFE0F] @ ''  Template not found: SOL-template.md''),
        Print (''  '' @ utf8 [0x26A0, 0xFE0F] @ ''  Template not found: IMP-template.md''),
        Print (utf8 [0x2705] @ '' Template files copied'')]
   \<and> files (snd (copy_templates example_self [''work'', ''tpl''] example_world_with_source)) =
       (files example_world_with_source)
         ([''work'', ''proj'', ''.claude-workflow'', ''templates'', ''REQ-template.md'']
            \<mapsto> File ''# REQ'')"
proof -
  let ?w1 = "w\<lparr>files := (files w)(join (join ts ''.claude-workflow'') t := None)\<rparr>"
  let ?w2 = "w\<lparr>files := (files w)
          (join (join (join ts ''.claude-workflow'') ''templates'') t := None)\<rparr>"
  have a: "\<not> exists_path ?w1 (join (join ts ''.claude-workflow'') t)"
    by (simp add: exists_path_def)
  have b: "\<not> exists_path ?w2 (join (join (join ts ''.claude-workflow'') ''templates'') t)"
    by (simp add: exists_path_def)
  have s: "copy_state_template self ts t ?w1 = (None, ?w1)"
    using a by (rule copy_state_template_missing)
  have l: "for_each (copy_state_template self ts) (t # rest) ?w1 =
      for_each (copy_state_template self ts) rest ?w1"
    using s by (rule for_each_skip)
  have n: "length state_templates = 5" by (simp add: state_templates_def)
  show ?thesis
    by (simp only: s l n copy_template_missing [OF b] example_source_run
        example_source_state_templates simp_thms)
qed

lemma accounted_new_events:
  assumes "accounted ok w w'"
  shows "events w' = events w @ new_events w w'"
    and "list_all ok (new_events w w')"
    and "Write q \<in> set (new_events w w') \<or> files w' q = files w q \<or>
         (files w' q = Some Dir \<and> Mkdir q \<in> set (new_events w w'))"
    and "Mkdir q \<in> set (new_events w w') \<or> files w' q = files w q \<or>
         (files w q \<noteq> Some Dir \<and> files w' q \<noteq> Some Dir \<and> Write q \<in> set (new_events w w'))"
proof -
  from assms obtain evs where e: "events w' = events w @ evs" "list_all ok evs"
    and a: "\<And>q. Write q \<in> set evs \<or> files w' q = files w q \<or>
              (files w' q = Some Dir \<and> Mkdir q \<in> set evs)"
    and b: "\<And>q. Mkdir q \<in> set evs \<or> files w' q = files w q \<or>
              (files w q \<noteq> Some Dir \<and> files w' q \<noteq> Some Dir \<and> Write q \<in> set evs)"
    unfolding accounted_def by blast
  have n: "new_events w w' = evs" by (simp add: new_events_def e(1))
  show "events w' = events w @ new_events w w'" by (simp add: n e(1))
  show "list_all ok (new_events w w')" by (simp add: n e(2))
  show "Write q \<in> set (new_events w w') \<or> files w' q = files w q \<or>
         (files w' q = Some Dir \<and> Mkdir q \<in> set (new_events w w'))"
    unfolding n by (rule a)
  show "Mkdir q \<in> set (new_events w w') \<or> files w' q = files w q \<or>
         (files w q \<noteq> Some Dir \<and> files w' q \<noteq> Some Dir \<and> Write q \<in> set (new_events w w'))"
    unfolding n by (rule b)
qed

subsection \<open>Copying templates through links\<close>

lemma copy2_via_id: "copy2_via (\<lambda>p. p) src dst w = copy2 src dst w"
  by (simp add: copy2_via_def copy2_def)

lemma copy_template_via_id:
  "copy_template_via (\<lambda>p. p) self ts t w = copy_template self ts t w"
proof -
  have h: "copy2_via (\<lambda>p. p) = copy2"
    by (rule ext)+ (rule copy2_via_id)
  show ?thesis by (simp only: copy_template_via_def copy_template_def h)
qed

lemma copy_state_template_via_id:
  "copy_state_template_via (\<lambda>p. p) self ts t w = copy_state_template self ts t w"
proof -
  have h: "copy2_via (\<lambda>p. p) = copy2"
    by (rule ext)+ (rule copy2_via_id)
  show ?thesis by (simp only: copy_state_template_via_def copy_state_template_def h)
qed

lemma copy_templates_via_id:
  "copy_templates_via (\<lambda>p. p) self ts w = copy_templates self ts w"
proof -
  have "copy_template_via (\<lambda>p. p) self ts = copy_template self ts"
    by (rule ext)+ (rule copy_template_via_id)
  moreover have "copy_state_template_via (\<lambda>p. p) self ts = copy_state_template self ts"
    by (rule ext)+ (rule copy_state_template_via_id)
  ultimately show ?thesis by (simp only: copy_templates_via_def copy_templates_def)
qed

lemma accounted_copy2_via:
  "ok (Write (realpath dst)) \<Longrightarrow> ok (Write (realpath (join dst (path_name src)))) \<Longrightarrow>
     accounted ok w (snd (copy2_via realpath src dst w))"
  using accounted_write_text [where ok = ok and p = "realpath dst" and w = w]
    accounted_write_text [where ok = ok and p = "realpath (join dst (path_name src))" and w = w]
  by (auto simp: copy2_via_def Let_def accounted_refl split: option.splits node.splits)

lemma accounted_copy_template_via:
  assumes "\<And>s. ok (Print s)"
    and "\<And>p. strict_prefix (workflow_dir self) p \<Longrightarrow> ok (Write (realpath p))"
  shows "accounted ok w (snd (copy_template_via realpath self ts t w))"
proof -
  let ?dst = "join (join (workflow_dir self) ''templates'') t"
  have d: "strict_prefix (workflow_dir self) ?dst"
    "strict_prefix (workflow_dir self) (join ?dst s')" for s'
    by (simp_all add: join_def strict_prefix_def parts_def)
  have c: "accounted ok w (snd (copy2_via realpath src ?dst w))" for src w
    by (rule accounted_copy2_via) (rule assms(2), rule d)+
  have "accounted ok w (snd (steps [copy2_via realpath src ?dst,
      print (''  '' @ utf8 [0x2705] @ '' Copied '' @ t)] w))" for src
    by (rule accounted_steps2) (rule c, rule accounted_print, rule assms(1))
  moreover have "accounted ok w
      (snd (print (''  '' @ utf8 [0x26A0, 0xFE0F] @ ''  Template not found: '' @ t) w))"
    by (rule accounted_print) (rule assms(1))
  ultimately show ?thesis
    by (simp add: copy_template_via_def Let_def del: steps.simps)
qed

lemma accounted_copy_state_template_via:
  assumes "\<And>s. ok (Print s)"
    and "\<And>p. strict_prefix (workflow_dir self) p \<Longrightarrow> ok (Write (realpath p))"
    and "t \<in> set state_templates"
  shows "accounted ok w (snd (copy_state_template_via realpath self ts t w))"
proof -
  let ?dst = "join (workflow_dir self) (replace ''-template'' [] t)"
  have "parts (replace ''-template'' [] t) \<noteq> []"
    using assms(3) by (rule state_template_dest)
  then have d: "strict_prefix (workflow_dir self) ?dst"
    "strict_prefix (workflow_dir self) (join ?dst s')" for s'
    by (simp_all add: join_def strict_prefix_def)
  have c: "accounted ok w (snd (copy2_via realpath src ?dst w))" for src w
    by (rule accounted_copy2_via) (rule assms(2), rule d)+
  have "accounted ok w (snd (steps [copy2_via realpath src ?dst,
      print (''  '' @ utf8 [0x2705] @ '' Copied '' @ t)] w))" for src
    by (rule accounted_steps2) (rule c, rule accounted_print, rule assms(1))
  then show ?thesis
    by (simp add: copy_state_template_via_def Let_def accounted_refl del: steps.simps)
qed

lemma accounted_copy_templates_via:
  "accounted (under_via realpath (workflow_dir self)) w
     (snd (copy_templates_via realpath self ts w))"
proof -
  let ?ok = "under_via realpath (workflow_dir self)"
  have p: "?ok (Print s)" for s by simp
  have q: "?ok (Write (realpath p))" if "strict_prefix (workflow_dir self) p" for p
    using that by auto
  show ?thesis
    unfolding copy_templates_via_def
    by (rule accounted_steps)
      (auto simp: p intro!: accounted_print accounted_for_each accounted_copy_template_via
        accounted_copy_state_template_via q)
qed

lemma copy_templates_via_effects:
  fixes realpath self ts w
  defines "w' \<equiv> snd (copy_templates_via realpath self ts w)"
  shows "events w' = events w @ new_events w w'"
    and "Mkdir q \<notin> set (new_events w w')"
    and "Write q \<in> set (new_events w w') \<Longrightarrow>
           \<exists>p. strict_prefix (workflow_dir self) p \<and> q = realpath p"
    and "(\<And>p. strict_prefix (workflow_dir self) p \<Longrightarrow> q \<noteq> realpath p) \<Longrightarrow>
           files w' q = files w q"
proof -
  have acc: "accounted (under_via realpath (workflow_dir self)) w w'"
    unfolding w'_def by (rule accounted_copy_templates_via)
  have l: "list_all (under_via realpath (workflow_dir self)) (new_events w w')"
    using acc by (rule accounted_new_events)
  show "events w' = events w @ new_events w w'"
    using acc by (rule accounted_new_events)
  show m: "Mkdir q \<notin> set (new_events w w')" for q
    using l by (auto simp: list_all_iff)
  show s: "\<exists>p. strict_prefix (workflow_dir self) p \<and> q = realpath p"
    if "Write q \<in> set (new_events w w')" for q
    using l that by (auto simp: list_all_iff)
  show "files w' q = files w q"
    if "\<And>p. strict_prefix (workflow_dir self) p \<Longrightarrow> q \<noteq> realpath p"
    using accounted_new_events(3) [OF acc, of q] m [of q] s [of q] that by blast
qed

text \<open>
  C8, the claim as stated fails, also for a template source beside the project: the
  destination is opened for writing through the path name, and a symbolic link is
  followed. On the example the template source \<open>/work/tpl\<close> holds \<open>REQ-template.md\<close> and
  \<open>FE-template.md\<close>, neither of the workflow directory and the template source lies in
  the other, and the name \<open>templates/REQ-template.md\<close> in the workflow directory is a
  symbolic link to the \<open>FE-template.md\<close> of the template source. \<open>copy_templates\<close> returns
  without an exception and has written the content of \<open>REQ-template.md\<close> over the file
  \<open>FE-template.md\<close> of the template source.
\<close>

theorem copy_templates_overwrites_source_through_link:
  "\<not> prefix [''work'', ''tpl''] (workflow_dir example_self)
   \<and> \<not> prefix (workflow_dir example_self) [''work'', ''tpl'']
   \<and> prefix [''work'', ''tpl'']
       [''work'', ''tpl'', ''.claude-workflow'', ''templates'', ''FE-template.md'']
   \<and> example_link [''work'', ''proj'', ''.claude-workflow'', ''templates'', ''REQ-template.md'']
       = [''work'', ''tpl'', ''.claude-workflow'', ''templates'', ''FE-template.md'']
   \<and> files example_world_with_link
       [''work'', ''tpl'', ''.claude-workflow'', ''templates'', ''FE-template.md''] =
       Some (File ''# FE'')
   \<and> fst (copy_templates_via example_link example_self [''work'', ''tpl'']
         example_world_with_link) = None
   \<and> files (snd (copy_templates_via example_link example_self [''work'', ''tpl'']
         example_world_with_link))
       [''work'', ''tpl'', ''.claude-workflow'', ''templates'', ''FE-template.md''] =
       Some (File ''# REQ'')
   \<and> Write [''work'', ''tpl'', ''.claude-workflow'', ''templates'', ''FE-template.md'']
       \<in> set (events (snd (copy_templates_via example_link example_self [''work'', ''tpl'']
            example_world_with_link)))"
  by (simp add: copy_templates_via_def for_each_def templates_def state_templates_def
      copy_template_via_def copy_state_template_via_def copy2_via_def write_text_def
      print_def emit_def exists_path_def is_dir_def example_world_with_link_def
      example_world_with_source_def example_world_def example_link_def
      join_def template_parts state_template_dests parent_def path_name_def Let_def)

text \<open>
  C8 (as the code has it). \<open>copy_templates\<close> makes no directory, and every file that it
  writes is one that a path name strictly below the workflow directory denotes; every
  other file is left as it was, whether or not the run ends in an exception. So the
  template source is only read provided that no path name below the workflow directory
  denotes a file that a path name under the template source denotes, be it through a
  link or because one of the two directories lies in the other. On a file system without
  links the copy is \<open>copy_templates\<close> as defined with the script.
\<close>

theorem copy_templates_via_frame:
  "events (snd (copy_templates_via realpath self ts w)) =
     events w @ new_events w (snd (copy_templates_via realpath self ts w))
   \<and> (\<forall>q. Mkdir q \<notin> set (new_events w (snd (copy_templates_via realpath self ts w))))
   \<and> (\<forall>q. Write q \<in> set (new_events w (snd (copy_templates_via realpath self ts w))) \<longrightarrow>
          (\<exists>p. strict_prefix (workflow_dir self) p \<and> q = realpath p))
   \<and> (\<forall>q. (\<forall>p. strict_prefix (workflow_dir self) p \<longrightarrow> q \<noteq> realpath p) \<longrightarrow>
          files (snd (copy_templates_via realpath self ts w)) q = files w q)
   \<and> ((\<forall>p t. strict_prefix (workflow_dir self) p \<and> prefix ts t \<longrightarrow>
           realpath p \<noteq> realpath t) \<longrightarrow>
        (\<forall>t. prefix ts t \<longrightarrow>
           Write (realpath t) \<notin> set (new_events w (snd (copy_templates_via realpath self ts w)))
           \<and> files (snd (copy_templates_via realpath self ts w)) (realpath t) =
               files w (realpath t)))
   \<and> copy_templates_via (\<lambda>p. p) self ts w = copy_templates self ts w"
proof -
  let ?w' = "snd (copy_templates_via realpath self ts w)"
  note e = copy_templates_via_effects [where realpath = realpath and self = self
      and ts = ts and w = w]
  have a: "events ?w' = events w @ new_events w ?w'" by (rule e(1))
  have b: "\<forall>q. Mkdir q \<notin> set (new_events w ?w')" using e(2) by blast
  have c: "\<forall>q. Write q \<in> set (new_events w ?w') \<longrightarrow>
          (\<exists>p. strict_prefix (workflow_dir self) p \<and> q = realpath p)"
    using e(3) by blast
  have d: "\<forall>q. (\<forall>p. strict_prefix (workflow_dir self) p \<longrightarrow> q \<noteq> realpath p) \<longrightarrow>
          files ?w' q = files w q"
    using e(4) by blast
  have f: "(\<forall>p t. strict_prefix (workflow_dir self) p \<and> prefix ts t \<longrightarrow>
           realpath p \<noteq> realpath t) \<longrightarrow>
        (\<forall>t. prefix ts t \<longrightarrow> Write (realpath t) \<notin> set (new_events w ?w')
           \<and> files ?w' (realpath t) = files w (realpath t))"
  proof (intro impI allI conjI)
    fix t
    assume h: "\<forall>p t. strict_prefix (workflow_dir self) p \<and> prefix ts t \<longrightarrow>
           realpath p \<noteq> realpath t"
      and t: "prefix ts t"
    have n: "realpath t \<noteq> realpath p" if "strict_prefix (workflow_dir self) p" for p
      using h t that by fastforce
    show "Write (realpath t) \<notin> set (new_events w ?w')"
    proof
      assume "Write (realpath t) \<in> set (new_events w ?w')"
      then obtain p where "strict_prefix (workflow_dir self) p" "realpath t = realpath p"
        using e(3) by blast
      then show False using n by blast
    qed
    show "files ?w' (realpath t) = files w (realpath t)"
      by (rule e(4)) (rule n)
  qed
  show ?thesis
    using a b c d f copy_templates_via_id [of self ts w] by (intro conjI)
qed

lemma example_link_outside_apart:
  "\<forall>p t. strict_prefix (workflow_dir example_self) p \<and> prefix [''work'', ''tpl''] t \<longrightarrow>
     example_link_outside p \<noteq> example_link_outside t"
  by (auto simp: example_link_outside_def strict_prefix_def prefix_def)

lemma example_notes_run:
  "fst (copy_templates_via example_link_outside example_self [''work'', ''tpl'']
     example_world_with_notes) = None"
  "files (snd (copy_templates_via example_link_outside example_self [''work'', ''tpl'']
     example_world_with_notes)) [''work'', ''notes.md''] = Some (File ''# REQ'')"
  "Write [''work'', ''notes.md'']
     \<in> set (new_events example_world_with_notes
          (snd (copy_templates_via example_link_outside example_self [''work'', ''tpl'']
             example_world_with_notes)))"
  by (simp_all add: copy_templates_via_def for_each_def templates_def state_templates_def
      copy_template_via_def copy_state_template_via_def copy2_via_def write_text_def
      print_def emit_def exists_path_def is_dir_def example_world_with_notes_def
      example_world_with_source_def example_world_def example_link_outside_def
      new_events_def
      join_def template_parts state_template_dests parent_def path_name_def Let_def)

theorem copy_templates_via_frame_witness:
  "fst (copy_templates_via example_link_outside example_self [''work'', ''tpl'']
      example_world_with_notes) = None
   \<and> files example_world_with_notes [''work'', ''notes.md''] = Some (File ''# notes'')
   \<and> files (snd (copy_templates_via example_link_outside example_self [''work'', ''tpl'']
        example_world_with_notes)) [''work'', ''notes.md''] = Some (File ''# REQ'')
   \<and> Write [''work'', ''notes.md'']
       \<in> set (new_events example_world_with_notes
            (snd (copy_templates_via example_link_outside example_self [''work'', ''tpl'']
               example_world_with_notes)))
   \<and> (\<exists>p. strict_prefix (workflow_dir example_self) p
          \<and> [''work'', ''notes.md''] = example_link_outside p)
   \<and> prefix [''work'', ''tpl'']
       [''work'', ''tpl'', ''.claude-workflow'', ''templates'', ''REQ-template.md'']
   \<and> Write [''work'', ''tpl'', ''.claude-workflow'', ''templates'', ''REQ-template.md'']
       \<notin> set (new_events example_world_with_notes
            (snd (copy_templates_via example_link_outside example_self [''work'', ''tpl'']
               example_world_with_notes)))
   \<and> files (snd (copy_templates_via example_link_outside example_self [''work'', ''tpl'']
        example_world_with_notes))
       [''work'', ''tpl'', ''.claude-workflow'', ''templates'', ''REQ-template.md''] =
       Some (File ''# REQ'')"
proof -
  let ?t = "[''work'', ''tpl'', ''.claude-workflow'', ''templates'', ''REQ-template.md'']"
  have src: "files example_world_with_notes ?t = Some (File ''# REQ'')"
    "files example_world_with_notes [''work'', ''notes.md''] = Some (File ''# notes'')"
    by (simp_all add: example_world_with_notes_def example_world_with_source_def)
  have p: "prefix [''work'', ''tpl''] ?t" by simp
  have r: "example_link_outside ?t = ?t" by (simp add: example_link_outside_def)
  show ?thesis
    using copy_templates_via_frame [where realpath = example_link_outside
        and self = example_self and ts = "[''work'', ''tpl'']"
        and w = example_world_with_notes]
      example_link_outside_apart example_notes_run src p r
    by (metis (no_types, lifting))
qed

subsection \<open>Making directories\<close>

lemma os_mkdir_fail: "os_mkdir p w = (Some e, w') \<Longrightarrow> w' = w"
  by (auto simp: os_mkdir_def split: if_splits option.splits node.splits)

lemma os_mkdir_ok: "os_mkdir p w = (None, w') \<Longrightarrow> is_dir w' p"
  by (auto simp: os_mkdir_def is_dir_def split: if_splits option.splits node.splits)

lemma mkdir_exist_ok_is_dir: "fst (mkdir_exist_ok p w) = None \<Longrightarrow> is_dir (snd (mkdir_exist_ok p w)) p"
  by (cases "os_mkdir p w")
    (auto simp: mkdir_exist_ok_def dest: os_mkdir_ok split: option.splits if_splits)

lemma mkdir_is_dir: "fst (mkdir p w) = None \<Longrightarrow> is_dir (snd (mkdir p w)) p"
proof -
  assume ok: "fst (mkdir p w) = None"
  obtain r w' where r: "os_mkdir p w = (r, w')" by (cases "os_mkdir p w")
  show ?thesis
  proof (cases r)
    case None
    then show ?thesis using r os_mkdir_ok [of p w w'] by (simp add: mkdir.simps [of p w])
  next
    case (Some e)
    show ?thesis
    proof (cases "is_not_found e \<and> parent p \<noteq> p")
      case True
      obtain r1 w1 where r1: "mkdir (parent p) w' = (r1, w1)" by (cases "mkdir (parent p) w'")
      show ?thesis
        using ok r Some True r1 mkdir_exist_ok_is_dir [of p w1]
        by (cases r1) (simp_all add: mkdir.simps [of p w])
    next
      case False
      then show ?thesis using ok r Some
        by (auto simp: mkdir.simps [of p w] split: if_splits)
    qed
  qed
qed

lemma mkdir_existing: "is_dir w p \<Longrightarrow> mkdir p w = (None, w)"
  by (simp add: mkdir.simps [of p w] os_mkdir_def is_dir_def)

lemma tree_emit [simp]: "tree (emit e w) = tree w"
  by (simp add: tree_def)

lemma tree_print: "tree w \<Longrightarrow> tree (snd (print s w))"
  by (simp add: print_def)

lemma parent_self: "parent p = p \<longleftrightarrow> p = []"
  by (cases p rule: rev_cases) (simp_all add: parent_def)

lemma tree_os_mkdir: "tree w \<Longrightarrow> tree (snd (os_mkdir p w))"
proof -
  assume t: "tree w"
  show ?thesis
  proof (cases "fst (os_mkdir p w)")
    case (Some e)
    then show ?thesis using t os_mkdir_fail [of p w e "snd (os_mkdir p w)"]
      by (cases "os_mkdir p w") simp
  next
    case None
    then have new: "files w p = None" "files w (parent p) = Some Dir"
      and w': "snd (os_mkdir p w) = emit (Mkdir p) (w\<lparr>files := (files w)(p \<mapsto> Dir)\<rparr>)"
      by (auto simp: os_mkdir_def split: if_splits option.splits node.splits)
    have "p \<noteq> []" using new t by (auto simp: tree_def)
    then show ?thesis using t new unfolding w' tree_def
      by (auto simp: parent_self)
  qed
qed

lemma tree_mkdir_exist_ok: "tree w \<Longrightarrow> tree (snd (mkdir_exist_ok p w))"
  using tree_os_mkdir [of w p]
  by (cases "os_mkdir p w") (auto simp: mkdir_exist_ok_def split: option.splits)

lemma tree_mkdir: "tree w \<Longrightarrow> tree (snd (mkdir p w))"
proof (induction p w rule: mkdir.induct)
  case (1 p w)
  obtain r w' where r: "os_mkdir p w = (r, w')" by (cases "os_mkdir p w")
  have t': "tree w'" using tree_os_mkdir [OF "1.prems", of p] r by simp
  show ?case
  proof (cases r)
    case None
    then show ?thesis using r t' by (simp add: mkdir.simps [of p w])
  next
    case (Some e)
    show ?thesis
    proof (cases "is_not_found e \<and> parent p \<noteq> p")
      case True
      then have ih: "tree (snd (mkdir (parent p) w'))"
        using "1.IH" r Some t' by simp
      obtain r1 w1 where r1: "mkdir (parent p) w' = (r1, w1)" by (cases "mkdir (parent p) w'")
      have "tree w1" using ih r1 by simp
      then have "tree (snd (mkdir_exist_ok p w1))" by (rule tree_mkdir_exist_ok)
      then show ?thesis using r Some True r1 \<open>tree w1\<close>
        by (simp add: mkdir.simps [of p w] split: option.splits)
    next
      case False
      then show ?thesis using r Some t'
        by (auto simp: mkdir.simps [of p w])
    qed
  qed
qed

lemma accounted_nofile:
  assumes "accounted (makes S) w w'" and "nofile w q"
  shows "nofile w' q"
proof -
  have "list_all (makes S) (new_events w w')" using assms(1) by (rule accounted_new_events)
  then have "Write q \<notin> set (new_events w w')" by (auto simp: list_all_iff)
  then show ?thesis
    using accounted_new_events(3) [OF assms(1), of q] assms(2) by (auto simp: nofile_def)
qed

lemma accounted_makes_unchanged:
  assumes "accounted (makes S) w w'" and "q \<notin> S"
  shows "files w' q = files w q"
proof -
  have "list_all (makes S) (new_events w w')" using assms(1) by (rule accounted_new_events)
  then have "Write q \<notin> set (new_events w w')" "Mkdir q \<notin> set (new_events w w')"
    using assms(2) by (auto simp: list_all_iff)
  then show ?thesis
    using accounted_new_events(3) [OF assms(1), of q] by auto
qed

lemma mkdir_completes:
  assumes "tree w" and "\<And>q. prefix q p \<Longrightarrow> nofile w q"
  shows "fst (mkdir p w) = None"
  using assms
proof (induction p w rule: mkdir.induct)
  case (1 p w)
  obtain r w' where r: "os_mkdir p w = (r, w')" by (cases "os_mkdir p w")
  show ?case
  proof (cases r)
    case None
    then show ?thesis using r by (simp add: mkdir.simps [of p w])
  next
    case (Some e)
    then have w': "w' = w" using r os_mkdir_fail by blast
    have np: "nofile w p" using "1.prems"(2) by simp
    show ?thesis
    proof (cases "files w p = None")
      case False
      then have "is_dir w p" using np by (auto simp: nofile_def is_dir_def)
      then show ?thesis by (simp add: mkdir_existing)
    next
      case True
      have "nofile w (parent p)" using "1.prems"(2) prefix_parent by blast
      moreover have "files w (parent p) \<noteq> Some Dir"
        using r Some True by (auto simp: os_mkdir_def split: option.splits node.splits)
      ultimately have nopar: "files w (parent p) = None" by (simp add: nofile_def)
      then have e: "is_not_found e"
        using r Some True by (auto simp: os_mkdir_def)
      have "p \<noteq> []" using "1.prems"(1) True by (auto simp: tree_def)
      then have ne: "parent p \<noteq> p" by (simp add: parent_self)
      have pre: "\<And>q. prefix q (parent p) \<Longrightarrow> nofile w q"
        using "1.prems"(2) prefix_parent [of p] prefix_order.trans by blast
      have ih: "fst (mkdir (parent p) w) = None"
        using "1.IH" [OF r [unfolded w', symmetric] Some e ne] "1.prems"(1) pre by simp
      obtain w1 where m: "mkdir (parent p) w = (None, w1)"
        using ih by (cases "mkdir (parent p) w") simp
      have d1: "is_dir w1 (parent p)" using mkdir_is_dir [OF ih] m by simp
      have acc: "accounted (makes UNIV) w (snd (mkdir (parent p) w))"
        by (rule accounted_mkdir) simp
      have n1: "nofile w1 p" using accounted_nofile [OF acc np] m by simp
      have "fst (mkdir_exist_ok p w1) = None"
        using d1 n1
        by (auto simp: mkdir_exist_ok_def os_mkdir_def nofile_def is_dir_def)
      then show ?thesis
        using r Some w' e ne m by (simp add: mkdir.simps [of p w])
    qed
  qed
qed

lemma makes_events: "list_all (makes S) evs \<Longrightarrow> \<exists>mk. evs = map Mkdir mk \<and> set mk \<subseteq> S"
proof (induction evs)
  case Nil
  then show ?case by simp
next
  case (Cons e evs)
  then obtain mk where mk: "evs = map Mkdir mk" "set mk \<subseteq> S" by auto
  from Cons.prems obtain q where q: "e = Mkdir q" "q \<in> S" by (cases e) auto
  have "e # evs = map Mkdir (q # mk) \<and> set (q # mk) \<subseteq> S" using mk q by simp
  then show ?case by (rule exI)
qed

lemma accounted_mkdir_loop:
  "accounted (makes (scope self)) w
     (snd (for_each (\<lambda>dir_path. mkdir (join (workflow_dir self) dir_path)) dirs w))"
  by (rule accounted_for_each, rule accounted_mkdir) (auto simp: scope_def)

lemma for_each_mkdir_dirs:
  "fst (for_each (\<lambda>x. mkdir (f x)) xs w) = None \<Longrightarrow>
     \<forall>x \<in> set xs. is_dir (snd (for_each (\<lambda>x. mkdir (f x)) xs w)) (f x)"
proof (induction xs arbitrary: w)
  case Nil
  then show ?case by simp
next
  case (Cons x xs)
  let ?w1 = "snd (mkdir (f x) w)"
  have ok1: "fst (mkdir (f x) w) = None"
    using Cons.prems by (simp add: for_each_def steps_fst_Cons del: steps.simps split: if_splits)
  then have rest: "fst (for_each (\<lambda>x. mkdir (f x)) xs ?w1) = None"
    using Cons.prems by (simp add: for_each_def steps_fst_Cons del: steps.simps)
  have w': "snd (for_each (\<lambda>x. mkdir (f x)) (x # xs) w) = snd (for_each (\<lambda>x. mkdir (f x)) xs ?w1)"
    using ok1 by (simp add: for_each_def steps_snd_Cons del: steps.simps)
  have "is_dir ?w1 (f x)" using ok1 by (rule mkdir_is_dir)
  moreover have "accounted (makes UNIV) ?w1 (snd (for_each (\<lambda>x. mkdir (f x)) xs ?w1))"
    by (rule accounted_for_each, rule accounted_mkdir) simp
  ultimately have "is_dir (snd (for_each (\<lambda>x. mkdir (f x)) xs ?w1)) (f x)"
    using accounted_dir by blast
  then show ?case using Cons.IH [OF rest] w' by simp
qed

lemma for_each_mkdir_completes:
  assumes "tree w" and "\<forall>x \<in> set xs. \<forall>q. prefix q (f x) \<longrightarrow> nofile w q"
  shows "fst (for_each (\<lambda>x. mkdir (f x)) xs w) = None"
  using assms
proof (induction xs arbitrary: w)
  case Nil
  then show ?case by (simp add: for_each_def)
next
  case (Cons x xs)
  let ?w1 = "snd (mkdir (f x) w)"
  have ok1: "fst (mkdir (f x) w) = None"
    using Cons.prems by (intro mkdir_completes) auto
  have t1: "tree ?w1" using Cons.prems(1) by (rule tree_mkdir)
  have acc: "accounted (makes UNIV) w ?w1" by (rule accounted_mkdir) simp
  have "\<forall>y \<in> set xs. \<forall>q. prefix q (f y) \<longrightarrow> nofile ?w1 q"
    using Cons.prems(2) accounted_nofile [OF acc] by auto
  then have "fst (for_each (\<lambda>x. mkdir (f x)) xs ?w1) = None"
    using Cons.IH t1 by blast
  then show ?case using ok1
    by (simp add: for_each_def steps_fst_Cons del: steps.simps)
qed

lemma tree_for_each_mkdir: "tree w \<Longrightarrow> tree (snd (for_each (\<lambda>x. mkdir (f x)) xs w))"
proof (induction xs arbitrary: w)
  case Nil
  then show ?case by (simp add: for_each_def)
next
  case (Cons x xs)
  have "tree (snd (mkdir (f x) w))" using Cons.prems by (rule tree_mkdir)
  then show ?case using Cons.IH
    by (simp add: for_each_def steps_snd_Cons del: steps.simps)
qed

lemma create_directories_success:
  assumes "create_directories self w = (None, w')"
  shows "\<exists>mk. events w' = events w @
           Print (utf8 [0x1F4C1] @ '' Creating directory structure...'') # map Mkdir mk @
           [Print (utf8 [0x2705] @ '' Directory structure created'')]"
    and "\<forall>d \<in> set dirs. is_dir w' (join (workflow_dir self) d)"
    and "q \<notin> scope self \<Longrightarrow> files w' q = files w q"
    and "tree w \<Longrightarrow> tree w'"
    and "is_dir w q \<Longrightarrow> is_dir w' q"
    and "files w' q = Some Dir \<or> files w' q = files w q"
proof -
  let ?loop = "for_each (\<lambda>dir_path. mkdir (join (workflow_dir self) dir_path)) dirs"
  let ?w1 = "emit (Print (utf8 [0x1F4C1] @ '' Creating directory structure...'')) w"
  from assms obtain w2 where loop: "?loop ?w1 = (None, w2)"
    and w': "w' = emit (Print (utf8 [0x2705] @ '' Directory structure created'')) w2"
    unfolding create_directories_def
    by (auto simp: steps_success print_def simp del: steps.simps(2))
  have acc: "accounted (makes (scope self)) ?w1 w2"
    using accounted_mkdir_loop [of self ?w1] loop by simp
  obtain mk where mk: "new_events ?w1 w2 = map Mkdir mk"
    using makes_events [OF accounted_new_events(2) [OF acc]] by blast
  have "events w2 = events ?w1 @ map Mkdir mk"
    using accounted_new_events(1) [OF acc] mk by simp
  then have "events w' = events w @
           Print (utf8 [0x1F4C1] @ '' Creating directory structure...'') # map Mkdir mk @
           [Print (utf8 [0x2705] @ '' Directory structure created'')]"
    by (simp add: w')
  then show "\<exists>mk. events w' = events w @
           Print (utf8 [0x1F4C1] @ '' Creating directory structure...'') # map Mkdir mk @
           [Print (utf8 [0x2705] @ '' Directory structure created'')]" by blast
  show "\<forall>d \<in> set dirs. is_dir w' (join (workflow_dir self) d)"
    using for_each_mkdir_dirs [of "\<lambda>d. join (workflow_dir self) d" dirs ?w1] loop
    by (simp add: w' is_dir_def)
  show "files w' q = files w q" if "q \<notin> scope self"
    using accounted_makes_unchanged [OF acc that] by (simp add: w')
  show "tree w'" if "tree w"
    using tree_for_each_mkdir [of ?w1 "\<lambda>d. join (workflow_dir self) d" dirs] that loop
    by (simp add: w')
  show "is_dir w' q" if "is_dir w q"
    using accounted_dir [OF acc, of q] that by (simp add: w' is_dir_def)
  have "list_all (makes (scope self)) (new_events ?w1 w2)"
    using acc by (rule accounted_new_events)
  then have "Write q \<notin> set (new_events ?w1 w2)" by (auto simp: list_all_iff)
  then show "files w' q = Some Dir \<or> files w' q = files w q"
    using accounted_new_events(3) [OF acc, of q] by (auto simp: w')
qed

lemma create_directories_completes:
  assumes "tree w"
    and "\<forall>d \<in> set dirs. \<forall>q. \<not> prefix q (join (workflow_dir self) d) \<or> nofile w q"
  shows "fst (create_directories self w) = None"
proof -
  let ?w1 = "emit (Print (utf8 [0x1F4C1] @ '' Creating directory structure...'')) w"
  have "tree ?w1" using assms(1) by simp
  moreover have "\<forall>d \<in> set dirs. \<forall>q. prefix q (join (workflow_dir self) d) \<longrightarrow> nofile ?w1 q"
    using assms(2) by (auto simp: nofile_def)
  ultimately have "fst (for_each (\<lambda>d. mkdir (join (workflow_dir self) d)) dirs ?w1) = None"
    by (rule for_each_mkdir_completes)
  then show ?thesis
    by (simp add: create_directories_def steps_fst_Cons print_def del: steps.simps(2))
qed

lemma for_each_mkdir_existing:
  "\<forall>x \<in> set xs. is_dir w (f x) \<Longrightarrow> for_each (\<lambda>x. mkdir (f x)) xs w = (None, w)"
  by (induction xs) (simp_all add: for_each_def mkdir_existing)

lemma create_directories_existing:
  assumes "\<forall>d \<in> set dirs. is_dir w (join (workflow_dir self) d)"
  shows "create_directories self w =
     (None, emit (Print (utf8 [0x2705] @ '' Directory structure created''))
       (emit (Print (utf8 [0x1F4C1] @ '' Creating directory structure...'')) w))"
proof -
  let ?w1 = "emit (Print (utf8 [0x1F4C1] @ '' Creating directory structure...'')) w"
  have "\<forall>d \<in> set dirs. is_dir ?w1 (join (workflow_dir self) d)"
    using assms by (simp add: is_dir_def)
  then have "for_each (\<lambda>d. mkdir (join (workflow_dir self) d)) dirs ?w1 = (None, ?w1)"
    by (rule for_each_mkdir_existing)
  then show ?thesis
    by (simp add: create_directories_def print_def)
qed

subsection \<open>Writing the documents\<close>

lemma write_text_ok:
  "files w p \<noteq> Some Dir \<Longrightarrow> files w (parent p) = Some Dir \<Longrightarrow>
     write_text p c w = (None, emit (Write p) (w\<lparr>files := (files w)(p \<mapsto> File c)\<rparr>))"
  by (auto simp: write_text_def split: option.splits node.splits)

lemma parent_join [simp]:
  "parent (join p ''config.yml'') = p"
  "parent (join p ''current-phase.md'') = p"
  "parent (join p ''active-tasks.md'') = p"
  "parent (join p ''task-dependencies.md'') = p"
  "parent (join p ''dependency-backlog.md'') = p"
  "parent (join p ''feature-to-code-map.md'') = p"
  "parent (join p ''rt-matrix.md'') = p"
  "parent (join p ''README.md'') = p"
  by (simp_all add: parent_def join_def)

lemma config_step_success:
  assumes "create_initial_config self d w = (None, w')"
  shows "files w' = (files w)(join (workflow_dir self) ''config.yml'' \<mapsto> File (yaml_content d))"
    and "events w' = events w @
      [Print (utf8 [0x2699, 0xFE0F] @ ''  Creating configuration...''),
       Write (join (workflow_dir self) ''config.yml''),
       Print (utf8 [0x2705] @ '' Configuration created'')]"
proof -
  from assms obtain w1 where
    "write_text (join (workflow_dir self) ''config.yml'') (yaml_content d)
       (emit (Print (utf8 [0x2699, 0xFE0F] @ ''  Creating configuration...'')) w) = (None, w1)"
    "w' = emit (Print (utf8 [0x2705] @ '' Configuration created'')) w1"
    unfolding create_initial_config_def
    by (auto simp: steps_success print_def simp del: steps.simps(2))
  then have w': "w' = emit (Print (utf8 [0x2705] @ '' Configuration created''))
      (emit (Write (join (workflow_dir self) ''config.yml''))
        ((emit (Print (utf8 [0x2699, 0xFE0F] @ ''  Creating configuration...'')) w)
           \<lparr>files := (files w)(join (workflow_dir self) ''config.yml'' \<mapsto>
              File (yaml_content d))\<rparr>))"
    by (auto dest!: write_text_success)
  show "files w' = (files w)(join (workflow_dir self) ''config.yml'' \<mapsto> File (yaml_content d))"
    by (simp add: w')
  show "events w' = events w @
      [Print (utf8 [0x2699, 0xFE0F] @ ''  Creating configuration...''),
       Write (join (workflow_dir self) ''config.yml''),
       Print (utf8 [0x2705] @ '' Configuration created'')]"
    by (simp add: w')
qed

lemma config_step_completes:
  assumes "is_dir w (workflow_dir self)"
    and "files w (join (workflow_dir self) ''config.yml'') \<noteq> Some Dir"
  shows "fst (create_initial_config self d w) = None"
  using assms
  by (simp add: create_initial_config_def print_def write_text_ok is_dir_def)

lemma state_step_success:
  assumes "create_initial_state self w = (None, w')"
  shows "files w' = (files w)
      (join (workflow_dir self) ''current-phase.md'' \<mapsto> File (current_phase_text self),
       join (join (workflow_dir self) ''parallel-tasks'') ''active-tasks.md'' \<mapsto>
         File (active_tasks_text self),
       join (join (workflow_dir self) ''parallel-tasks'') ''task-dependencies.md'' \<mapsto>
         File task_deps_text,
       join (workflow_dir self) ''dependency-backlog.md'' \<mapsto> File dep_backlog_text,
       join (workflow_dir self) ''feature-to-code-map.md'' \<mapsto> File code_map_text,
       join (workflow_dir self) ''rt-matrix.md'' \<mapsto> File (rt_matrix_text self))"
    and "events w' = events w @
      [Print (utf8 [0x1F4CA] @ '' Creating initial state files...''),
       Write (join (workflow_dir self) ''current-phase.md''),
       Write (join (join (workflow_dir self) ''parallel-tasks'') ''active-tasks.md''),
       Write (join (join (workflow_dir self) ''parallel-tasks'') ''task-dependencies.md''),
       Write (join (workflow_dir self) ''dependency-backlog.md''),
       Write (join (workflow_dir self) ''feature-to-code-map.md''),
       Write (join (workflow_dir self) ''rt-matrix.md''),
       Print (utf8 [0x2705] @ '' Initial state files created'')]"
proof -
  let ?w0 = "emit (Print (utf8 [0x1F4CA] @ '' Creating initial state files...'')) w"
  from assms obtain w1 w2 w3 w4 w5 w6 where
    s1: "write_text (join (workflow_dir self) ''current-phase.md'') (current_phase_text self) ?w0
       = (None, w1)"
    and s2: "write_text (join (join (workflow_dir self) ''parallel-tasks'') ''active-tasks.md'')
         (active_tasks_text self) w1 = (None, w2)"
    and s3: "write_text (join (join (workflow_dir self) ''parallel-tasks'') ''task-dependencies.md'')
         task_deps_text w2 = (None, w3)"
    and s4: "write_text (join (workflow_dir self) ''dependency-backlog.md'') dep_backlog_text w3
       = (None, w4)"
    and s5: "write_text (join (workflow_dir self) ''feature-to-code-map.md'') code_map_text w4
       = (None, w5)"
    and s6: "write_text (join (workflow_dir self) ''rt-matrix.md'') (rt_matrix_text self) w5
       = (None, w6)"
    and w': "w' = emit (Print (utf8 [0x2705] @ '' Initial state files created'')) w6"
    unfolding create_initial_state_def
    by (auto simp: steps_success print_def simp del: steps.simps(2))
  note u = write_text_success [OF s1] write_text_success [OF s2] write_text_success [OF s3]
    write_text_success [OF s4] write_text_success [OF s5] write_text_success [OF s6]
  show "files w' = (files w)
      (join (workflow_dir self) ''current-phase.md'' \<mapsto> File (current_phase_text self),
       join (join (workflow_dir self) ''parallel-tasks'') ''active-tasks.md'' \<mapsto>
         File (active_tasks_text self),
       join (join (workflow_dir self) ''parallel-tasks'') ''task-dependencies.md'' \<mapsto>
         File task_deps_text,
       join (workflow_dir self) ''dependency-backlog.md'' \<mapsto> File dep_backlog_text,
       join (workflow_dir self) ''feature-to-code-map.md'' \<mapsto> File code_map_text,
       join (workflow_dir self) ''rt-matrix.md'' \<mapsto> File (rt_matrix_text self))"
    by (simp add: w' u)
  show "events w' = events w @
      [Print (utf8 [0x1F4CA] @ '' Creating initial state files...''),
       Write (join (workflow_dir self) ''current-phase.md''),
       Write (join (join (workflow_dir self) ''parallel-tasks'') ''active-tasks.md''),
       Write (join (join (workflow_dir self) ''parallel-tasks'') ''task-dependencies.md''),
       Write (join (workflow_dir self) ''dependency-backlog.md''),
       Write (join (workflow_dir self) ''feature-to-code-map.md''),
       Write (join (workflow_dir self) ''rt-matrix.md''),
       Print (utf8 [0x2705] @ '' Initial state files created'')]"
    by (simp add: w' u)
qed

lemma state_step_completes:
  assumes "is_dir w (workflow_dir self)"
    and "is_dir w (join (workflow_dir self) ''parallel-tasks'')"
    and "files w (join (workflow_dir self) ''current-phase.md'') \<noteq> Some Dir"
    and "files w (join (join (workflow_dir self) ''parallel-tasks'') ''active-tasks.md'')
           \<noteq> Some Dir"
    and "files w (join (join (workflow_dir self) ''parallel-tasks'') ''task-dependencies.md'')
           \<noteq> Some Dir"
    and "files w (join (workflow_dir self) ''dependency-backlog.md'') \<noteq> Some Dir"
    and "files w (join (workflow_dir self) ''feature-to-code-map.md'') \<noteq> Some Dir"
    and "files w (join (workflow_dir self) ''rt-matrix.md'') \<noteq> Some Dir"
  shows "fst (create_initial_state self w) = None"
proof -
  have d: "files w (workflow_dir self) = Some Dir"
    "files w (workflow_dir self @ [''parallel-tasks'']) = Some Dir"
    using assms(1,2) by (simp_all add: is_dir_def join_def)
  show ?thesis
    using assms(3-8) d
    by (simp add: create_initial_state_def print_def write_text_ok join_def parent_def
        butlast_append)
qed

lemma readme_step_success:
  assumes "create_readme self w = (None, w')"
  shows "files w' = (files w)(join (workflow_dir self) ''README.md'' \<mapsto> File readme_text)"
    and "events w' = events w @ [Write (join (workflow_dir self) ''README.md'')]"
  using write_text_success [OF assms [unfolded create_readme_def]]
  by simp_all

lemma readme_step_completes:
  assumes "is_dir w (workflow_dir self)"
    and "files w (join (workflow_dir self) ''README.md'') \<noteq> Some Dir"
  shows "fst (create_readme self w) = None"
  using assms by (simp add: create_readme_def write_text_ok is_dir_def)

subsection \<open>The whole run\<close>

lemma emit_emits: "emit e w = emits [e] w"
  by (simp add: emit_def emits_def)

lemma emits_emits: "emits b (emits a w) = emits (a @ b) w"
  by (simp add: emits_def)

lemma files_emits [simp]: "files (emits evs w) = files w"
  by (simp add: emits_def)

lemma events_emits [simp]: "events (emits evs w) = events w @ evs"
  by (simp add: emits_def)

lemma tree_emits [simp]: "tree (emits evs w) = tree w"
  by (simp add: tree_def)

lemma is_dir_emits [simp]: "is_dir (emits evs w) p = is_dir w p"
  by (simp add: is_dir_def)

lemma initialize_iff:
  "initialize resolve self cd ts w = (None, w') \<longleftrightarrow>
     (\<exists>w1 w2 w3 w4 w5.
        create_directories self (emits opening_events w) = (None, w1)
      \<and> template_step resolve self ts (emits [Print []] w1) = (None, w2)
      \<and> create_initial_config self (case cd of None \<Rightarrow> Map.empty | Some d \<Rightarrow> d) w2 = (None, w3)
      \<and> create_initial_state self (emits [Print []] w3) = (None, w4)
      \<and> create_readme self (emits [Print []] w4) = (None, w5)
      \<and> w' = emits closing_events w5)"
  unfolding initialize_def Let_def opening_events_def closing_events_def
  by (simp add: steps_success print_def emit_emits emits_emits del: steps.simps(2)) blast

lemma template_step_skip:
  "\<not> truthy ts \<Longrightarrow>
     template_step resolve self ts w = (None, emits [Print skip_notice, Print []] w)"
  by (simp add: template_step_def print_def emit_emits emits_emits skip_notice_def)

lemma template_step_success:
  assumes "truthy ts" and "template_step resolve self ts w = (None, w')"
  shows "\<exists>evs. events w' = events w @ Print copying_notice # evs
            \<and> list_all (copies (workflow_dir self)) evs"
proof -
  let ?loops = "steps [for_each (copy_template self (resolve (the ts))) templates,
        for_each (copy_state_template self (resolve (the ts))) state_templates,
        print (utf8 [0x2705] @ '' Template files copied'')]"
  let ?w0 = "emit (Print copying_notice) w"
  from assms obtain w1 where c: "copy_templates self (resolve (the ts)) w = (None, w1)"
    and w': "w' = emit (Print []) w1"
    by (auto simp: template_step_def steps_success print_def simp del: steps.simps(2))
  have "accounted (copies (workflow_dir self)) ?w0 (snd (?loops ?w0))"
    by (rule accounted_copy_loops) simp_all
  then have acc: "accounted (copies (workflow_dir self)) ?w0 w1"
    using c by (simp add: copy_templates_unfold del: steps.simps)
  let ?evs = "new_events ?w0 w1"
  have e: "events w1 = events ?w0 @ ?evs" "list_all (copies (workflow_dir self)) ?evs"
    using acc by (rule accounted_new_events)+
  have "events w' = events w @ Print copying_notice # (?evs @ [Print []])"
    using e(1) by (simp add: w')
  moreover have "list_all (copies (workflow_dir self)) (?evs @ [Print []])"
    using e(2) template_messages(5) by simp
  ultimately show ?thesis by blast
qed

lemma any_emits: "accounted (\<lambda>e. True) w (emits evs w)"
  by (simp add: accounted_def list_all_iff)

lemma any_template_step: "accounted (\<lambda>e. True) w (snd (template_step resolve self ts w))"
proof (cases "truthy ts")
  case True
  have "accounted (\<lambda>e. True) w
     (snd (steps [copy_templates self (resolve (the ts)), print []] w))"
    by (rule accounted_steps2) (rule accounted_copy_templates, simp_all add: accounted_print)
  then show ?thesis using True by (simp add: template_step_def del: steps.simps)
next
  case False
  then show ?thesis
    by (simp add: template_step_skip any_emits)
qed

lemma any_config_step:
  "accounted (\<lambda>e. True) w (snd (create_initial_config self d w))"
  unfolding create_initial_config_def
  by (rule accounted_steps) (auto intro!: accounted_print accounted_write_text)

lemma any_state_step:
  "accounted (\<lambda>e. True) w (snd (create_initial_state self w))"
  unfolding create_initial_state_def
  by (rule accounted_steps) (auto intro!: accounted_print accounted_write_text)

lemma any_readme_step:
  "accounted (\<lambda>e. True) w (snd (create_readme self w))"
  unfolding create_readme_def by (rule accounted_write_text) simp

text \<open>After a run that did not raise, the manifest directories exist.\<close>

lemma initialize_dirs:
  assumes "initialize resolve self cd ts w = (None, w')"
  shows "\<forall>d \<in> set dirs. is_dir w' (join (workflow_dir self) d)"
proof -
  from assms obtain w1 w2 w3 w4 w5 where
    s1: "create_directories self (emits opening_events w) = (None, w1)"
    and s2: "template_step resolve self ts (emits [Print []] w1) = (None, w2)"
    and s3: "create_initial_config self (case cd of None \<Rightarrow> Map.empty | Some d \<Rightarrow> d) w2
        = (None, w3)"
    and s4: "create_initial_state self (emits [Print []] w3) = (None, w4)"
    and s5: "create_readme self (emits [Print []] w4) = (None, w5)"
    and w': "w' = emits closing_events w5"
    unfolding initialize_iff by blast
  have a2: "accounted (\<lambda>e. True) (emits [Print []] w1) w2"
    using any_template_step [where w = "emits [Print []] w1" and resolve = resolve
        and self = self and ts = ts] s2 by simp
  have a3: "accounted (\<lambda>e. True) w2 w3"
    using any_config_step [where w = w2 and self = self
        and d = "case cd of None \<Rightarrow> Map.empty | Some d \<Rightarrow> d"] s3 by simp
  have a4: "accounted (\<lambda>e. True) (emits [Print []] w3) w4"
    using any_state_step [where w = "emits [Print []] w3" and self = self] s4 by simp
  have a5: "accounted (\<lambda>e. True) (emits [Print []] w4) w5"
    using any_readme_step [where w = "emits [Print []] w4" and self = self] s5 by simp
  show ?thesis
  proof
    fix d assume "d \<in> set dirs"
    then have "is_dir w1 (join (workflow_dir self) d)"
      using create_directories_success(2) [OF s1] by blast
    then have "is_dir w2 (join (workflow_dir self) d)"
      using accounted_dir [OF a2] by simp
    then have "is_dir w3 (join (workflow_dir self) d)"
      using accounted_dir [OF a3] by simp
    then have "is_dir w4 (join (workflow_dir self) d)"
      using accounted_dir [OF a4] by simp
    then have "is_dir w5 (join (workflow_dir self) d)"
      using accounted_dir [OF a5] by simp
    then show "is_dir w' (join (workflow_dir self) d)"
      by (simp add: w')
  qed
qed

text \<open>After a run that did not raise, the documents hold the texts of the script.\<close>

lemma initialize_files:
  assumes "initialize resolve self cd ts w = (None, w')"
  shows "files w' (join (workflow_dir self) ''config.yml'') =
           Some (File (yaml_content (case cd of None \<Rightarrow> Map.empty | Some d \<Rightarrow> d)))"
    and "files w' (join (workflow_dir self) ''current-phase.md'') =
           Some (File (current_phase_text self))"
    and "files w' (join (workflow_dir self) ''README.md'') = Some (File readme_text)"
proof -
  from assms obtain w2 w3 w4 w5 where
    s3: "create_initial_config self (case cd of None \<Rightarrow> Map.empty | Some d \<Rightarrow> d) w2
        = (None, w3)"
    and s4: "create_initial_state self (emits [Print []] w3) = (None, w4)"
    and s5: "create_readme self (emits [Print []] w4) = (None, w5)"
    and w': "w' = emits closing_events w5"
    unfolding initialize_iff by blast
  note f = config_step_success(1) [OF s3] state_step_success(1) [OF s4]
    readme_step_success(1) [OF s5]
  show "files w' (join (workflow_dir self) ''config.yml'') =
           Some (File (yaml_content (case cd of None \<Rightarrow> Map.empty | Some d \<Rightarrow> d)))"
    by (simp add: w' f join_def)
  show "files w' (join (workflow_dir self) ''current-phase.md'') =
           Some (File (current_phase_text self))"
    by (simp add: w' f join_def)
  show "files w' (join (workflow_dir self) ''README.md'') = Some (File readme_text)"
    by (simp add: w' f join_def)
qed

text \<open>The events of a run that did not raise.\<close>

lemma initialize_trace:
  assumes "initialize resolve self cd ts w = (None, w')"
  shows "\<exists>mk tpl. events w' = events w @ opening_events @ directory_events mk @ tpl
              @ document_events self @ closing_events
           \<and> (if truthy ts
               then \<exists>evs. tpl = Print copying_notice # evs
                      \<and> list_all (copies (workflow_dir self)) evs
               else tpl = [Print skip_notice, Print []])"
proof -
  from assms obtain w1 w2 w3 w4 w5 where
    s1: "create_directories self (emits opening_events w) = (None, w1)"
    and s2: "template_step resolve self ts (emits [Print []] w1) = (None, w2)"
    and s3: "create_initial_config self (case cd of None \<Rightarrow> Map.empty | Some d \<Rightarrow> d) w2
        = (None, w3)"
    and s4: "create_initial_state self (emits [Print []] w3) = (None, w4)"
    and s5: "create_readme self (emits [Print []] w4) = (None, w5)"
    and w': "w' = emits closing_events w5"
    unfolding initialize_iff by blast
  obtain mk where e1: "events w1 = events (emits opening_events w) @
           Print (utf8 [0x1F4C1] @ '' Creating directory structure...'') # map Mkdir mk @
           [Print (utf8 [0x2705] @ '' Directory structure created'')]"
    using create_directories_success(1) [OF s1] by blast
  have d: "events w1 @ [Print []] = events w @ opening_events @ directory_events mk"
    by (simp add: e1 directory_events_def)
  obtain tpl where e2: "events w2 = events (emits [Print []] w1) @ tpl"
    and t: "if truthy ts
               then \<exists>evs. tpl = Print copying_notice # evs
                      \<and> list_all (copies (workflow_dir self)) evs
               else tpl = [Print skip_notice, Print []]"
  proof (cases "truthy ts")
    case True
    from template_step_success [OF True s2] obtain evs where
      "events w2 = events (emits [Print []] w1) @ Print copying_notice # evs"
      "list_all (copies (workflow_dir self)) evs" by blast
    then show ?thesis using that [of "Print copying_notice # evs"] True by simp
  next
    case False
    then have "w2 = emits [Print skip_notice, Print []] (emits [Print []] w1)"
      using s2 by (simp add: template_step_skip)
    then show ?thesis using that [of "[Print skip_notice, Print []]"] False by simp
  qed
  have "events w' = events w2 @ document_events self @ closing_events"
    by (simp add: w' config_step_success(2) [OF s3] state_step_success(2) [OF s4]
        readme_step_success(2) [OF s5] document_events_def)
  then have "events w' = (events w1 @ [Print []]) @ tpl @ document_events self @ closing_events"
    using e2 by simp
  then have "events w' = events w @ opening_events @ directory_events mk @ tpl
              @ document_events self @ closing_events"
    unfolding d by simp
  then show ?thesis using t by blast
qed

subsection \<open>A run that goes through\<close>

lemma manifest_parts:
  "map parts dirs =
     [[''01-requirements'', ''raw-requirements''],
      [''01-requirements'', ''functional-requirements''],
      [''01-requirements'', ''user-stories''],
      [''02-planning''],
      [''03-design'', ''architecture'', ''adr''],
      [''03-design'', ''technical-solutions''],
      [''03-design'', ''api-design''],
      [''03-design'', ''database-design''],
      [''04-implementation'', ''implementation-plans''],
      [''04-implementation'', ''code-mapping''],
      [''04-implementation'', ''implementation-logs''],
      [''05-verification'', ''test-plans''],
      [''05-verification'', ''test-cases''],
      [''05-verification'', ''verification-reports''],
      [''06-documentation'', ''technical-docs''],
      [''06-documentation'', ''user-guides''],
      [''06-documentation'', ''api-docs''],
      [''07-platforms'', ''gateway'', ''requirements''],
      [''07-platforms'', ''gateway'', ''design''],
      [''07-platforms'', ''gateway'', ''implementation''],
      [''07-platforms'', ''hmi'', ''requirements''],
      [''07-platforms'', ''hmi'', ''design''],
      [''07-platforms'', ''hmi'', ''implementation''],
      [''07-platforms'', ''configuration'', ''requirements''],
      [''07-platforms'', ''configuration'', ''design''],
      [''07-platforms'', ''configuration'', ''implementation''],
      [''07-platforms'', ''cloud'', ''requirements''],
      [''07-platforms'', ''cloud'', ''design''],
      [''07-platforms'', ''cloud'', ''implementation''],
      [''07-platforms'', ''app'', ''requirements''],
      [''07-platforms'', ''app'', ''design''],
      [''07-platforms'', ''app'', ''implementation''],
      [''07-platforms'', ''edge-ai'', ''requirements''],
      [''07-platforms'', ''edge-ai'', ''design''],
      [''07-platforms'', ''edge-ai'', ''implementation''],
      [''07-platforms'', ''scada'', ''requirements''],
      [''07-platforms'', ''scada'', ''design''],
      [''07-platforms'', ''scada'', ''implementation''],
      [''07-platforms'', ''web-editor'', ''requirements''],
      [''07-platforms'', ''web-editor'', ''design''],
      [''07-platforms'', ''web-editor'', ''implementation''],
      [''parallel-tasks''],
      [''templates''],
      [''state-history'']]"
  by (simp add: dirs_def parts_def)

lemma outside_scope:
  assumes "list_all (\<lambda>q. \<not> prefix x q) (map parts dirs)"
  shows "workflow_dir self @ x \<notin> scope self"
  using assms by (auto simp: scope_def list_all_iff join_def)

lemma documents_outside_scope:
  "p \<in> set (documents self) \<Longrightarrow> p \<notin> scope self"
proof -
  have o: "workflow_dir self @ [''config.yml''] \<notin> scope self"
    "workflow_dir self @ [''current-phase.md''] \<notin> scope self"
    "workflow_dir self @ [''parallel-tasks'', ''active-tasks.md''] \<notin> scope self"
    "workflow_dir self @ [''parallel-tasks'', ''task-dependencies.md''] \<notin> scope self"
    "workflow_dir self @ [''dependency-backlog.md''] \<notin> scope self"
    "workflow_dir self @ [''feature-to-code-map.md''] \<notin> scope self"
    "workflow_dir self @ [''rt-matrix.md''] \<notin> scope self"
    "workflow_dir self @ [''README.md''] \<notin> scope self"
    by (rule outside_scope, simp add: manifest_parts)+
  assume "p \<in> set (documents self)"
  then show ?thesis using o by (auto simp: documents_def join_def)
qed

lemma initialize_completes:
  assumes "ready self w" and "\<not> truthy ts"
  shows "fst (initialize resolve self cd ts w) = None"
proof -
  let ?wd = "workflow_dir self"
  let ?w0 = "emits opening_events w"
  from assms(1) have tw: "tree w"
    and nf: "\<forall>d \<in> set dirs. \<forall>q. \<not> prefix q (join ?wd d) \<or> nofile w q"
    and nd: "\<forall>p \<in> set (documents self). files w p \<noteq> Some Dir"
    by (simp_all add: ready_def)
  have "fst (create_directories self ?w0) = None"
    using tw nf by (intro create_directories_completes) (simp_all add: nofile_def)
  then obtain w1 where s1: "create_directories self ?w0 = (None, w1)"
    by (cases "create_directories self ?w0") simp
  have t1: "tree w1" using create_directories_success(4) [OF s1] tw by simp
  have m: "''templates'' \<in> set dirs" "''parallel-tasks'' \<in> set dirs"
    by (simp_all add: dirs_def)
  have pt: "files w1 (?wd @ [''parallel-tasks'']) = Some Dir"
    using create_directories_success(2) [OF s1] m(2) by (auto simp: is_dir_def join_def)
  have "files w1 (?wd @ [''templates'']) = Some Dir"
    using create_directories_success(2) [OF s1] m(1) by (auto simp: is_dir_def join_def)
  then have "files w1 (parent (?wd @ [''templates''])) = Some Dir"
    using t1 unfolding tree_def by (metis option.distinct(1))
  then have wd: "files w1 ?wd = Some Dir" by (simp add: parent_def)
  have docs: "files w1 p \<noteq> Some Dir" if "p \<in> set (documents self)" for p
    using create_directories_success(3) [OF s1 documents_outside_scope [OF that]] nd that
    by simp
  have dc: "files w1 (?wd @ [''config.yml'']) \<noteq> Some Dir"
    "files w1 (?wd @ [''current-phase.md'']) \<noteq> Some Dir"
    "files w1 (?wd @ [''parallel-tasks'', ''active-tasks.md'']) \<noteq> Some Dir"
    "files w1 (?wd @ [''parallel-tasks'', ''task-dependencies.md'']) \<noteq> Some Dir"
    "files w1 (?wd @ [''dependency-backlog.md'']) \<noteq> Some Dir"
    "files w1 (?wd @ [''feature-to-code-map.md'']) \<noteq> Some Dir"
    "files w1 (?wd @ [''rt-matrix.md'']) \<noteq> Some Dir"
    "files w1 (?wd @ [''README.md'']) \<noteq> Some Dir"
    by (rule docs, simp add: documents_def join_def)+
  let ?w2 = "emits [Print skip_notice, Print []] (emits [Print []] w1)"
  have s2: "template_step resolve self ts (emits [Print []] w1) = (None, ?w2)"
    using assms(2) by (rule template_step_skip)
  let ?d = "case cd of None \<Rightarrow> Map.empty | Some d \<Rightarrow> d"
  have "fst (create_initial_config self ?d ?w2) = None"
    using wd dc(1) by (intro config_step_completes) (simp_all add: is_dir_def join_def)
  then obtain w3 where s3: "create_initial_config self ?d ?w2 = (None, w3)"
    by (cases "create_initial_config self ?d ?w2") simp
  have f3: "files w3 = (files w1)(join ?wd ''config.yml'' \<mapsto> File (yaml_content ?d))"
    using config_step_success(1) [OF s3] by simp
  have "fst (create_initial_state self (emits [Print []] w3)) = None"
    using wd pt dc
    by (intro state_step_completes) (simp_all add: is_dir_def join_def f3)
  then obtain w4 where s4: "create_initial_state self (emits [Print []] w3) = (None, w4)"
    by (cases "create_initial_state self (emits [Print []] w3)") simp
  have "fst (create_readme self (emits [Print []] w4)) = None"
    using wd dc(8)
    by (intro readme_step_completes)
      (simp_all add: is_dir_def join_def f3 state_step_success(1) [OF s4])
  then obtain w5 where s5: "create_readme self (emits [Print []] w4) = (None, w5)"
    by (cases "create_readme self (emits [Print []] w4)") simp
  have "initialize resolve self cd ts w = (None, emits closing_events w5)"
    unfolding initialize_iff using s1 s2 s3 s4 s5 by blast
  then show ?thesis by simp
qed

lemma tree_example_world: "tree example_world"
  by (auto simp: tree_def example_world_def parent_def)

lemma ready_example: "ready example_self example_world"
proof -
  have "nofile example_world q" for q
    by (simp add: nofile_def example_world_def)
  moreover have "\<forall>p \<in> set (documents example_self). files example_world p \<noteq> Some Dir"
    by (simp add: documents_def example_world_def join_def)
  ultimately show ?thesis
    using tree_example_world by (simp add: ready_def)
qed

lemma example_run: "fst (initialize example_resolve example_self cd None example_world) = None"
  using ready_example by (rule initialize_completes) simp

subsection \<open>The claims about a whole run\<close>

lemma initializer_simps [simp]:
  "workflow_dir (WorkflowInitializer resolve now p) = join (resolve p) ''.claude-workflow''"
  "project_path (WorkflowInitializer resolve now p) = resolve p"
  "date (WorkflowInitializer resolve now p) = strftime_ymd now"
  by (simp_all add: WorkflowInitializer_def)

text \<open>
  C1, the claim as stated fails: the manifest of \<open>create_directories\<close> has 44 entries, not
  40 (17 directories of the phases 01 to 06, 24 platform directories, and 3 more).
\<close>

theorem manifest_has_44_entries: "length dirs = 44 \<and> length dirs \<noteq> 40"
  by (simp add: dirs_def)

text \<open>
  C1 (as the code has it). For any project path, when \<open>initialize\<close> returns without an
  exception, every directory of the manifest exists under \<open><path>/.claude-workflow\<close>; the
  manifest has exactly 44 entries, all different.
\<close>

theorem initialize_creates_manifest:
  "(initialize resolve (WorkflowInitializer resolve now p) cd ts w = (None, w') \<longrightarrow>
      (\<forall>d \<in> set dirs. is_dir w' (join (join (resolve p) ''.claude-workflow'') d)))
   \<and> length dirs = 44 \<and> distinct dirs"
proof (intro conjI impI)
  assume "initialize resolve (WorkflowInitializer resolve now p) cd ts w = (None, w')"
  then show "\<forall>d \<in> set dirs. is_dir w' (join (join (resolve p) ''.claude-workflow'') d)"
    using initialize_dirs by fastforce
next
  show "length dirs = 44" by (simp add: dirs_def)
next
  show "distinct dirs" by (simp add: dirs_def)
qed

theorem initialize_creates_manifest_witness:
  "fst (initialize example_resolve
         (WorkflowInitializer example_resolve example_now ''proj'') None None example_world) = None
   \<and> list_all
        (\<lambda>d. is_dir (snd (initialize example_resolve
            (WorkflowInitializer example_resolve example_now ''proj'') None None example_world))
          (join (join (example_resolve ''proj'') ''.claude-workflow'') d)) dirs
   \<and> is_dir (snd (initialize example_resolve
            (WorkflowInitializer example_resolve example_now ''proj'') None None example_world))
          [''work'', ''proj'', ''.claude-workflow'', ''03-design'', ''architecture'', ''adr'']"
proof -
  let ?r = "initialize example_resolve
         (WorkflowInitializer example_resolve example_now ''proj'') None None example_world"
  have ok: "fst ?r = None" using example_run [of None] by (simp add: example_self_def)
  then have "?r = (None, snd ?r)" by (simp add: prod_eq_iff)
  then have all: "\<forall>d \<in> set dirs.
      is_dir (snd ?r) (join (join (example_resolve ''proj'') ''.claude-workflow'') d)"
    using initialize_creates_manifest [where resolve = example_resolve and now = example_now
        and p = "''proj''" and cd = None and ts = None and w = example_world and w' = "snd ?r"]
    by blast
  have "''03-design/architecture/adr'' \<in> set dirs" by (simp add: dirs_def)
  then have "is_dir (snd ?r)
      (join (join (example_resolve ''proj'') ''.claude-workflow'') ''03-design/architecture/adr'')"
    using all by blast
  moreover have
    "join (join (example_resolve ''proj'') ''.claude-workflow'') ''03-design/architecture/adr'' =
      [''work'', ''proj'', ''.claude-workflow'', ''03-design'', ''architecture'', ''adr'']"
    by (simp add: join_def example_resolve_def parts_def)
  ultimately show ?thesis using ok all by (simp add: list_all_iff)
qed

text \<open>
  C5. Making a directory that exists already succeeds and changes nothing. So after a
  run that returned without an exception, the directory step of another run on the same
  workflow directory raises nothing and leaves every file as it is, in any world with the
  files that the first run left.
\<close>

theorem second_run_directories:
  "(is_dir w p \<longrightarrow> mkdir p w = (None, w))
   \<and> (initialize resolve self cd ts w = (None, w') \<and> workflow_dir self' = workflow_dir self
        \<and> files w'' = files w' \<longrightarrow>
      fst (create_directories self' w'') = None
      \<and> files (snd (create_directories self' w'')) = files w'')"
proof (intro conjI impI)
  assume "is_dir w p"
  then show "mkdir p w = (None, w)" by (rule mkdir_existing)
next
  assume a: "initialize resolve self cd ts w = (None, w') \<and> workflow_dir self' = workflow_dir self
        \<and> files w'' = files w'"
  then have "\<forall>d \<in> set dirs. is_dir w'' (join (workflow_dir self') d)"
    using initialize_dirs [of resolve self cd ts w w'] by (simp add: is_dir_def)
  then have r: "create_directories self' w'' =
     (None, emit (Print (utf8 [0x2705] @ '' Directory structure created''))
       (emit (Print (utf8 [0x1F4C1] @ '' Creating directory structure...'')) w''))"
    by (rule create_directories_existing)
  show "fst (create_directories self' w'') = None" by (simp add: r)
  show "files (snd (create_directories self' w'')) = files w''" by (simp add: r)
qed

theorem second_run_directories_witness:
  "fst (initialize example_resolve example_self None None example_world) = None
   \<and> fst (create_directories example_self
        (emits opening_events
          (snd (initialize example_resolve example_self None None example_world)))) = None
   \<and> files (snd (create_directories example_self
        (emits opening_events
          (snd (initialize example_resolve example_self None None example_world))))) =
      files (snd (initialize example_resolve example_self None None example_world))"
proof -
  let ?r = "initialize example_resolve example_self None None example_world"
  have ok: "fst ?r = None" by (rule example_run)
  then have "?r = (None, snd ?r)" by (simp add: prod_eq_iff)
  then show ?thesis
    using ok second_run_directories [where resolve = example_resolve and self = example_self
        and cd = None and ts = None and w = example_world and w' = "snd ?r"
        and self' = example_self and w'' = "emits opening_events (snd ?r)"]
    by simp
qed

lemma digit_cases:
  "digit n \<in> set ''0123456789''"
proof -
  have "n mod 10 < 10" by simp
  then have "n mod 10 = 0 \<or> n mod 10 = 1 \<or> n mod 10 = 2 \<or> n mod 10 = 3 \<or> n mod 10 = 4
      \<or> n mod 10 = 5 \<or> n mod 10 = 6 \<or> n mod 10 = 7 \<or> n mod 10 = 8 \<or> n mod 10 = 9"
    by arith
  then show ?thesis
    by (elim disjE) (simp_all add: digit_def char_eval)
qed

lemma sublist_skip: "sublist xs ys \<Longrightarrow> sublist xs (zs @ ys)"
  by (simp add: sublist_append)

lemma sublist_here: "sublist xs (xs @ ss)"
  by (rule sublist_append_rightI)

lemma current_phase_has_name:
  "sublist (path_name (parent (workflow_dir self))) (current_phase_text self)"
  unfolding current_phase_text_def
  by (simp only: concat.simps append_assoc append_Nil2)
    (rule sublist_here | rule sublist_skip)+

lemma current_phase_has_date:
  "sublist (date self) (current_phase_text self)"
  unfolding current_phase_text_def
  by (simp only: concat.simps append_assoc append_Nil2)
    (rule sublist_here | rule sublist_skip)+

lemma digit_value_digit: "digit_value (digit n) = n mod 10"
proof -
  have "of_char (char_of (48 + n mod 10) :: char) = (48 + n mod 10) mod 256"
    by (simp add: of_char_of)
  moreover have "n mod 10 < 10" by simp
  ultimately show ?thesis by (simp add: digit_value_def digit_def)
qed

lemma four_digits:
  fixes y :: nat
  assumes "y < 10000"
  shows "10 * (10 * (10 * (y div 1000 mod 10) + y div 100 mod 10) + y div 10 mod 10)
      + y mod 10 = y"
proof -
  define a where "a = y div 10"
  define b where "b = a div 10"
  define c where "c = b div 10"
  define r1 where "r1 = y mod 10"
  define r2 where "r2 = a mod 10"
  define r3 where "r3 = b mod 10"
  have e1: "y = 10 * a + r1" unfolding a_def r1_def by simp
  have e2: "a = 10 * b + r2" unfolding b_def r2_def by simp
  have e3: "b = 10 * c + r3" unfolding c_def r3_def by simp
  have c10: "c < 10" using assms e1 e2 e3 by linarith
  have d100: "y div 100 = b" unfolding b_def a_def by (simp add: div_mult2_eq [symmetric])
  have d1000: "y div 1000 = c" unfolding c_def b_def a_def by (simp add: div_mult2_eq [symmetric])
  have "10 * (10 * (10 * c + r3) + r2) + r1 = 10 * (10 * b + r2) + r1"
    by (simp only: e3 [symmetric])
  also have "\<dots> = 10 * a + r1" by (simp only: e2 [symmetric])
  also have "\<dots> = y" by (simp only: e1 [symmetric])
  finally have f: "10 * (10 * (10 * c + r3) + r2) + r1 = y" .
  have m3: "y div 1000 mod 10 = c" using c10 by (simp only: d1000 mod_less)
  have m2: "y div 100 mod 10 = r3" by (simp only: d100 r3_def)
  have m1: "y div 10 mod 10 = r2" by (simp only: a_def r2_def)
  have m0: "y mod 10 = r1" by (simp only: r1_def)
  show ?thesis by (simp only: m3 m2 m1 m0 f)
qed

lemma two_digits:
  fixes m :: nat
  assumes "m < 100"
  shows "10 * (m div 10 mod 10) + m mod 10 = m"
proof -
  have "m div 10 < 10" using assms by simp
  then show ?thesis by simp
qed

lemma decimal_four:
  "decimal [a, b, c, d] =
     10 * (10 * (10 * digit_value a + digit_value b) + digit_value c) + digit_value d"
  by (simp only: decimal_def foldl.simps mult_0_right add_0_left)

lemma decimal_pair: "decimal [a, b] = 10 * digit_value a + digit_value b"
  by (simp only: decimal_def foldl.simps mult_0_right add_0_left)

lemma decimal_year:
  assumes "y < 10000"
  shows "decimal [digit (y div 1000), digit (y div 100), digit (y div 10), digit y] = y"
  by (simp only: decimal_four digit_value_digit four_digits [OF assms])

lemma decimal_two:
  assumes "m < 100"
  shows "decimal [digit (m div 10), digit m] = m"
  by (simp only: decimal_pair digit_value_digit two_digits [OF assms])

lemma sublist_concat_nth: "i < length xs \<Longrightarrow> xs ! i = x \<Longrightarrow> sublist x (concat xs)"
proof (induction xs arbitrary: i)
  case Nil
  then show ?case by simp
next
  case (Cons a xs)
  show ?case
  proof (cases i)
    case 0
    then show ?thesis using Cons.prems by simp
  next
    case (Suc k)
    then have "sublist x (concat xs)" using Cons by simp
    then show ?thesis by (simp add: sublist_skip)
  qed
qed

lemma current_phase_name_line:
  "sublist
     (''- **'' @ utf8 [0x9879, 0x76EE, 0x540D, 0x79F0] @ ''**: '' @
        path_name (parent (workflow_dir self)) @ ''\<newline>'')
     (current_phase_text self)"
  unfolding current_phase_text_def by (rule sublist_concat_nth [where i = 3]) simp_all

lemma current_phase_date_line:
  "sublist
     (''- **'' @ utf8 [0x5F00, 0x59CB, 0x65E5, 0x671F] @ ''**: '' @ date self @ ''\<newline>'')
     (current_phase_text self)"
  unfolding current_phase_text_def by (rule sublist_concat_nth [where i = 5]) simp_all

lemma strftime_ymd_fields:
  "take 4 (strftime_ymd d) =
     [digit (year d div 1000), digit (year d div 100), digit (year d div 10), digit (year d)]"
  "take 2 (drop 5 (strftime_ymd d)) = [digit (month d div 10), digit (month d)]"
  "drop 8 (strftime_ymd d) = [digit (day d div 10), digit (day d)]"
  by (simp_all add: strftime_ymd_def)

text \<open>
  C6. When a run returns without an exception, \<open>current-phase.md\<close> under the workflow
  directory holds the text of the script. This text has the line of the project name,
  which ends with the last component of the resolved project path (nothing when the path
  is the root), and the line of the start date, which ends with the date of the run: the
  date of the clock when the initializer was made, formatted by \<open>strftime("%Y-%m-%d")\<close>.
  The date text has ten characters: four digits, a dash, two digits, a dash, two digits;
  read as decimal numbers, the three fields are the year, the month and the day of the
  clock (for a year of at most four digits and a month and a day of at most two).
\<close>

theorem current_phase_content:
  "(initialize resolve (WorkflowInitializer resolve now p) cd ts w = (None, w') \<longrightarrow>
      files w' (join (join (resolve p) ''.claude-workflow'') ''current-phase.md'') =
        Some (File (current_phase_text (WorkflowInitializer resolve now p))))
   \<and> sublist (strftime_ymd now) (current_phase_text (WorkflowInitializer resolve now p))
   \<and> sublist (path_name (resolve p)) (current_phase_text (WorkflowInitializer resolve now p))
   \<and> length (strftime_ymd now) = 10
   \<and> strftime_ymd now ! 4 = CHR ''-'' \<and> strftime_ymd now ! 7 = CHR ''-''
   \<and> list_all (\<lambda>c. c \<in> set ''0123456789'')
        (take 4 (strftime_ymd now) @ take 2 (drop 5 (strftime_ymd now))
           @ drop 8 (strftime_ymd now))
   \<and> path_name (resolve p) = (if resolve p = [] then [] else last (resolve p))
   \<and> sublist
        (''- **'' @ utf8 [0x9879, 0x76EE, 0x540D, 0x79F0] @ ''**: '' @
           (if resolve p = [] then [] else last (resolve p)) @ ''\<newline>'')
        (current_phase_text (WorkflowInitializer resolve now p))
   \<and> sublist
        (''- **'' @ utf8 [0x5F00, 0x59CB, 0x65E5, 0x671F] @ ''**: '' @ strftime_ymd now
           @ ''\<newline>'')
        (current_phase_text (WorkflowInitializer resolve now p))
   \<and> (year now < 10000 \<longrightarrow> decimal (take 4 (strftime_ymd now)) = year now)
   \<and> (month now < 100 \<longrightarrow> decimal (take 2 (drop 5 (strftime_ymd now))) = month now)
   \<and> (day now < 100 \<longrightarrow> decimal (drop 8 (strftime_ymd now)) = day now)"
proof (intro conjI impI)
  let ?self = "WorkflowInitializer resolve now p"
  assume "initialize resolve ?self cd ts w = (None, w')"
  then show "files w' (join (join (resolve p) ''.claude-workflow'') ''current-phase.md'') =
        Some (File (current_phase_text ?self))"
    using initialize_files(2) by fastforce
next
  show "sublist (strftime_ymd now) (current_phase_text (WorkflowInitializer resolve now p))"
    using current_phase_has_date [of "WorkflowInitializer resolve now p"] by simp
next
  have "parent (join (resolve p) ''.claude-workflow'') = resolve p"
    by (simp add: parent_def join_def)
  then show "sublist (path_name (resolve p))
      (current_phase_text (WorkflowInitializer resolve now p))"
    using current_phase_has_name [of "WorkflowInitializer resolve now p"] by simp
next
  show "length (strftime_ymd now) = 10" by (simp add: strftime_ymd_def)
next
  show "strftime_ymd now ! 4 = CHR ''-''" by (simp add: strftime_ymd_def)
next
  show "strftime_ymd now ! 7 = CHR ''-''" by (simp add: strftime_ymd_def)
next
  show "list_all (\<lambda>c. c \<in> set ''0123456789'')
        (take 4 (strftime_ymd now) @ take 2 (drop 5 (strftime_ymd now))
           @ drop 8 (strftime_ymd now))"
    using digit_cases by (simp add: strftime_ymd_def)
next
  show "path_name (resolve p) = (if resolve p = [] then [] else last (resolve p))"
    by (rule path_name_def)
next
  have a: "parent (workflow_dir (WorkflowInitializer resolve now p)) = resolve p"
    by (simp add: parent_def join_def)
  show "sublist
        (''- **'' @ utf8 [0x9879, 0x76EE, 0x540D, 0x79F0] @ ''**: '' @
           (if resolve p = [] then [] else last (resolve p)) @ ''\<newline>'')
        (current_phase_text (WorkflowInitializer resolve now p))"
    using current_phase_name_line [of "WorkflowInitializer resolve now p"]
    by (simp only: a path_name_def)
next
  have a: "date (WorkflowInitializer resolve now p) = strftime_ymd now" by simp
  show "sublist
        (''- **'' @ utf8 [0x5F00, 0x59CB, 0x65E5, 0x671F] @ ''**: '' @ strftime_ymd now
           @ ''\<newline>'')
        (current_phase_text (WorkflowInitializer resolve now p))"
    using current_phase_date_line [of "WorkflowInitializer resolve now p"]
    by (simp only: a)
next
  assume "year now < 10000"
  then show "decimal (take 4 (strftime_ymd now)) = year now"
    by (simp only: strftime_ymd_fields decimal_year)
next
  assume "month now < 100"
  then show "decimal (take 2 (drop 5 (strftime_ymd now))) = month now"
    by (simp only: strftime_ymd_fields decimal_two)
next
  assume "day now < 100"
  then show "decimal (drop 8 (strftime_ymd now)) = day now"
    by (simp only: strftime_ymd_fields decimal_two)
qed

theorem current_phase_content_witness:
  "fst (initialize example_resolve
         (WorkflowInitializer example_resolve example_now ''proj'') None None example_world) = None
   \<and> files (snd (initialize example_resolve
         (WorkflowInitializer example_resolve example_now ''proj'') None None example_world))
        [''work'', ''proj'', ''.claude-workflow'', ''current-phase.md''] =
        Some (File (current_phase_text
          (WorkflowInitializer example_resolve example_now ''proj'')))
   \<and> sublist ''2026-11-03''
        (current_phase_text (WorkflowInitializer example_resolve example_now ''proj''))
   \<and> sublist ''proj''
        (current_phase_text (WorkflowInitializer example_resolve example_now ''proj''))
   \<and> sublist (''- **'' @ utf8 [0x9879, 0x76EE, 0x540D, 0x79F0] @ ''**: proj\<newline>'')
        (current_phase_text (WorkflowInitializer example_resolve example_now ''proj''))
   \<and> sublist (''- **'' @ utf8 [0x5F00, 0x59CB, 0x65E5, 0x671F] @ ''**: 2026-11-03\<newline>'')
        (current_phase_text (WorkflowInitializer example_resolve example_now ''proj''))
   \<and> year example_now < 10000 \<and> month example_now < 100 \<and> day example_now < 100
   \<and> decimal ''2026'' = 2026 \<and> decimal ''11'' = 11 \<and> decimal ''03'' = 3"
proof -
  let ?self = "WorkflowInitializer example_resolve example_now ''proj''"
  let ?r = "initialize example_resolve ?self None None example_world"
  have ok: "fst ?r = None" using example_run [of None] by (simp add: example_self_def)
  then have r: "?r = (None, snd ?r)" by (simp add: prod_eq_iff)
  have d: "strftime_ymd example_now = ''2026-11-03''"
    by (simp add: strftime_ymd_def example_now_def digit_def char_eval)
  have n: "path_name (example_resolve ''proj'') = ''proj''"
    by (simp add: path_name_def example_resolve_def)
  have l: "(if example_resolve ''proj'' = [] then [] else last (example_resolve ''proj'')) =
      ''proj''"
    by (simp add: example_resolve_def)
  have p: "join (join (example_resolve ''proj'') ''.claude-workflow'') ''current-phase.md'' =
      [''work'', ''proj'', ''.claude-workflow'', ''current-phase.md'']"
    by (simp add: join_def example_resolve_def)
  have y: "year example_now < 10000" "month example_now < 100" "day example_now < 100"
    "year example_now = 2026" "month example_now = 11" "day example_now = 3"
    by (simp_all add: example_now_def)
  have t: "take 4 ''2026-11-03'' = ''2026''" "take 2 (drop 5 ''2026-11-03'') = ''11''"
    "drop 8 ''2026-11-03'' = ''03''"
    by simp_all
  have c: "sublist ''2026-11-03'' (current_phase_text ?self)
      \<and> sublist ''proj'' (current_phase_text ?self)
      \<and> sublist (''- **'' @ utf8 [0x9879, 0x76EE, 0x540D, 0x79F0] @ ''**: '' @ ''proj''
            @ ''\<newline>'') (current_phase_text ?self)
      \<and> sublist (''- **'' @ utf8 [0x5F00, 0x59CB, 0x65E5, 0x671F] @ ''**: '' @ ''2026-11-03''
            @ ''\<newline>'') (current_phase_text ?self)
      \<and> decimal ''2026'' = 2026 \<and> decimal ''11'' = 11 \<and> decimal ''03'' = 3
      \<and> files (snd ?r) [''work'', ''proj'', ''.claude-workflow'', ''current-phase.md''] =
          Some (File (current_phase_text ?self))"
    using r y(1-3) current_phase_content [where resolve = example_resolve
        and now = example_now and p = "''proj''" and cd = None and ts = None
        and w = example_world and w' = "snd ?r"]
    unfolding d n l p t y(4-6) by blast
  then show ?thesis using ok y(1-3) by simp
qed

subsection \<open>The order of the steps\<close>

lemma effects_fixed:
  "filter (\<lambda>e. \<not> is_print e) opening_events = []"
  "filter (\<lambda>e. \<not> is_print e) closing_events = []"
  "filter (\<lambda>e. \<not> is_print e) (document_events self) = map Write (documents self)"
  by (simp_all add: opening_events_def closing_events_def document_events_def documents_def)

lemma effects_mkdirs: "filter (\<lambda>e. \<not> is_print e) (map Mkdir mk) = map Mkdir mk"
  by (induction mk) simp_all

lemma effects_directory: "filter (\<lambda>e. \<not> is_print e) (directory_events mk) = map Mkdir mk"
  by (simp add: directory_events_def effects_mkdirs)

lemma effects_copies:
  "list_all (copies d) evs \<Longrightarrow> \<exists>cp. filter (\<lambda>e. \<not> is_print e) evs = map Write cp"
proof (induction evs)
  case Nil
  then show ?case by simp
next
  case (Cons e evs)
  then obtain cp where cp: "filter (\<lambda>e. \<not> is_print e) evs = map Write cp" by auto
  show ?case
  proof (cases e)
    case (Print s)
    then show ?thesis using cp by auto
  next
    case (Mkdir q)
    then show ?thesis using Cons.prems by simp
  next
    case (Write q)
    then have "filter (\<lambda>e. \<not> is_print e) (e # evs) = map Write (q # cp)" using cp by simp
    then show ?thesis by (rule exI)
  qed
qed

lemma rule_line_text:
  "rule_line = ''============================================================''"
  by (simp add: rule_line_def eval_nat_numeral)

lemma notices_differ: "copying_notice \<noteq> skip_notice"
  by (simp add: copying_notice_def skip_notice_def utf8_def utf8_char_def char_eval)

lemma copying_notice_elsewhere:
  "Print copying_notice \<notin> set opening_events"
  "Print copying_notice \<notin> set (directory_events mk)"
  "Print copying_notice \<notin> set (document_events self)"
  "Print copying_notice \<notin> set closing_events"
  "copying_notice \<noteq> []"
  by (auto simp: opening_events_def directory_events_def document_events_def closing_events_def
      rule_line_text copying_notice_def utf8_def utf8_char_def char_eval)

lemma skip_notice_elsewhere:
  "Print skip_notice \<notin> set opening_events"
  "Print skip_notice \<notin> set (directory_events mk)"
  "Print skip_notice \<notin> set (document_events self)"
  "Print skip_notice \<notin> set closing_events"
  by (auto simp: opening_events_def directory_events_def document_events_def closing_events_def
      rule_line_text skip_notice_def utf8_def utf8_char_def char_eval)

lemma copies_no_skip: "list_all (copies d) evs \<Longrightarrow> Print skip_notice \<notin> set evs"
  by (auto simp: list_all_iff)

lemma initialize_effects:
  assumes "initialize resolve self cd ts w = (None, w')"
  shows "events w' = events w @ new_events w w'"
    and "\<exists>mk cp. filter (\<lambda>e. \<not> is_print e) (new_events w w') =
            map Mkdir mk @ map Write cp @ map Write (documents self)
          \<and> (truthy ts \<or> cp = [])"
    and "(Print copying_notice \<in> set (new_events w w')) = truthy ts"
    and "(Print skip_notice \<in> set (new_events w w')) = (\<not> truthy ts)"
proof -
  from initialize_trace [OF assms] obtain mk tpl where
    e: "events w' = events w @ opening_events @ directory_events mk @ tpl
              @ document_events self @ closing_events"
    and t: "if truthy ts
               then \<exists>evs. tpl = Print copying_notice # evs
                      \<and> list_all (copies (workflow_dir self)) evs
               else tpl = [Print skip_notice, Print []]"
    by blast
  have n: "new_events w w' = opening_events @ directory_events mk @ tpl
              @ document_events self @ closing_events"
    by (simp add: new_events_def e)
  show "events w' = events w @ new_events w w'" by (simp add: n e)
  have f: "filter (\<lambda>e. \<not> is_print e) (new_events w w') =
      map Mkdir mk @ filter (\<lambda>e. \<not> is_print e) tpl @ map Write (documents self)"
    by (simp add: n effects_fixed effects_directory)
  note elsewhere = copying_notice_elsewhere(1-4) skip_notice_elsewhere
  show "\<exists>mk cp. filter (\<lambda>e. \<not> is_print e) (new_events w w') =
            map Mkdir mk @ map Write cp @ map Write (documents self)
          \<and> (truthy ts \<or> cp = [])"
  proof (cases "truthy ts")
    case True
    then obtain evs where "tpl = Print copying_notice # evs"
      "list_all (copies (workflow_dir self)) evs" using t by auto
    then obtain cp where "filter (\<lambda>e. \<not> is_print e) tpl = map Write cp"
      using effects_copies [of "workflow_dir self" evs] by auto
    then have "filter (\<lambda>e. \<not> is_print e) (new_events w w') =
            map Mkdir mk @ map Write cp @ map Write (documents self)
          \<and> (truthy ts \<or> cp = [])"
      using f True by simp
    then show ?thesis by blast
  next
    case False
    then have "filter (\<lambda>e. \<not> is_print e) tpl = map Write []" using t by simp
    then have "filter (\<lambda>e. \<not> is_print e) (new_events w w') =
            map Mkdir mk @ map Write [] @ map Write (documents self)
          \<and> (truthy ts \<or> [] = ([] :: path list))"
      using f by simp
    then show ?thesis by blast
  qed
  show "(Print copying_notice \<in> set (new_events w w')) = truthy ts"
  proof (cases "truthy ts")
    case True
    then show ?thesis using t by (auto simp: n)
  next
    case False
    then have "tpl = [Print skip_notice, Print []]" using t by simp
    then show ?thesis
      using False elsewhere notices_differ copying_notice_elsewhere(5) by (simp add: n)
  qed
  show "(Print skip_notice \<in> set (new_events w w')) = (\<not> truthy ts)"
  proof (cases "truthy ts")
    case True
    then obtain evs where "tpl = Print copying_notice # evs"
      "list_all (copies (workflow_dir self)) evs" using t by auto
    then show ?thesis
      using True elsewhere notices_differ copies_no_skip [of "workflow_dir self" evs]
      by (auto simp: n)
  next
    case False
    then show ?thesis using t by (simp add: n)
  qed
qed

text \<open>
  C9, the claim as stated fails: a template source that is supplied as the empty string
  counts as none. On the example, \<open>initialize\<close> with the template source \<open>""\<close> returns
  without an exception, prints the notice of the skipped step and does not start the
  template copy.
\<close>

theorem empty_template_source_is_skipped:
  "fst (initialize example_resolve example_self None (Some []) example_world) = None
   \<and> Print skip_notice \<in>
       set (events (snd (initialize example_resolve example_self None (Some []) example_world)))
   \<and> Print copying_notice \<notin>
       set (events (snd (initialize example_resolve example_self None (Some []) example_world)))"
proof -
  let ?r = "initialize example_resolve example_self None (Some []) example_world"
  have ok: "fst ?r = None" using ready_example by (rule initialize_completes) simp
  then have r: "?r = (None, snd ?r)" by (simp add: prod_eq_iff)
  have "events example_world = []" by (simp add: example_world_def)
  then show ?thesis
    using ok initialize_effects(1,3,4) [OF r] by simp
qed

text \<open>
  C9 (as the code has it). In a run of \<open>initialize\<close> that returns without an exception,
  the effects on the file system come in the order of the steps: first the directories
  that are made, then the files that the template copy writes, then \<open>config.yml\<close>, the six
  state documents and the README, in this order. The template copy is started exactly
  when the template source is given and is not the empty string; otherwise it writes
  nothing and the notice of the skipped step is printed, and the other steps run all
  the same.
\<close>

theorem initialize_order:
  "(initialize resolve self cd ts w = (None, w') \<longrightarrow>
      events w' = events w @ new_events w w'
      \<and> (\<exists>mk cp. filter (\<lambda>e. \<not> is_print e) (new_events w w') =
            map Mkdir mk @ map Write cp @ map Write (documents self)
          \<and> (truthy ts \<or> cp = []))
      \<and> (Print copying_notice \<in> set (new_events w w')) = truthy ts
      \<and> (Print skip_notice \<in> set (new_events w w')) = (\<not> truthy ts))
   \<and> truthy ts = (\<exists>s. ts = Some s \<and> s \<noteq> [])"
proof (intro conjI impI)
  assume a: "initialize resolve self cd ts w = (None, w')"
  show "events w' = events w @ new_events w w'"
    using a by (rule initialize_effects)
  show "\<exists>mk cp. filter (\<lambda>e. \<not> is_print e) (new_events w w') =
            map Mkdir mk @ map Write cp @ map Write (documents self)
          \<and> (truthy ts \<or> cp = [])"
    using a by (rule initialize_effects)
  show "(Print copying_notice \<in> set (new_events w w')) = truthy ts"
    using a by (rule initialize_effects)
  show "(Print skip_notice \<in> set (new_events w w')) = (\<not> truthy ts)"
    using a by (rule initialize_effects)
next
  show "truthy ts = (\<exists>s. ts = Some s \<and> s \<noteq> [])"
    by (cases ts) simp_all
qed

theorem initialize_order_witness:
  "fst (initialize example_resolve example_self None None example_world) = None
   \<and> Print skip_notice \<in> set (new_events example_world
        (snd (initialize example_resolve example_self None None example_world)))
   \<and> Print copying_notice \<notin> set (new_events example_world
        (snd (initialize example_resolve example_self None None example_world)))
   \<and> (\<exists>mk. filter (\<lambda>e. \<not> is_print e) (new_events example_world
        (snd (initialize example_resolve example_self None None example_world))) =
        map Mkdir mk @ map Write (documents example_self))"
proof -
  let ?r = "initialize example_resolve example_self None None example_world"
  have ok: "fst ?r = None" by (rule example_run)
  then have r: "?r = (None, snd ?r)" by (simp add: prod_eq_iff)
  show ?thesis
    using ok r initialize_order [where resolve = example_resolve and self = example_self
        and cd = None and ts = None and w = example_world and w' = "snd ?r"]
    by auto
qed

subsection \<open>The configuration file of a run from the command line\<close>

lemma main_writes_config:
  assumes "main resolve now opts w = (None, w')"
  shows "files w'
      (join (join (resolve (arg_project_path (parse_args opts))) ''.claude-workflow'')
        ''config.yml'') =
      Some (File (yaml_content (main_config_data (parse_args opts))))"
  using initialize_files(1) [OF assms [unfolded main_def Let_def]] by simp

lemma example_main_run:
  assumes "opt_project_path opts = Some ''proj''" and "opt_template_source opts = None"
  shows "fst (main example_resolve example_now opts example_world) = None"
    and "join (join (example_resolve (arg_project_path (parse_args opts))) ''.claude-workflow'')
        ''config.yml'' = [''work'', ''proj'', ''.claude-workflow'', ''config.yml'']"
proof -
  have a: "arg_project_path (parse_args opts) = ''proj''"
    "arg_template_source (parse_args opts) = None"
    using assms by (simp_all add: parse_args_def)
  show "fst (main example_resolve example_now opts example_world) = None"
    using example_run [of "Some (main_config_data (parse_args opts))"]
    by (simp add: main_def Let_def a example_self_def)
  show "join (join (example_resolve (arg_project_path (parse_args opts))) ''.claude-workflow'')
        ''config.yml'' = [''work'', ''proj'', ''.claude-workflow'', ''config.yml'']"
    by (simp add: a join_def example_resolve_def)
qed

lemma gateway_hmi_table:
  "map (\<lambda>p. (platform_id p, platform_enabled p))
     (platforms (default_config (main_config_data
        (parse_args (opts\<lparr>opt_platforms := Some ''gateway,hmi''\<rparr>))))) =
     [(''gateway'', PyBool True), (''hmi'', PyBool True), (''configuration'', PyBool False),
      (''cloud'', PyBool False), (''app'', PyBool False), (''edge-ai'', PyBool False),
      (''scada'', PyBool False), (''web-editor'', PyBool False)]
   \<and> concat (map yaml_platform (platforms (default_config (main_config_data
        (parse_args (opts\<lparr>opt_platforms := Some ''gateway,hmi''\<rparr>)))))) =
     concat [
       ''  - id: gateway\<newline>'',
       ''    name: '' @ utf8 [0x7F51, 0x5173, 0x7AEF] @ ''\<newline>'',
       ''    enabled: true\<newline>'',
       ''  - id: hmi\<newline>'',
       ''    name: HMI'' @ utf8 [0x8FD0, 0x884C, 0x7AEF] @ ''\<newline>'',
       ''    enabled: true\<newline>'',
       ''  - id: configuration\<newline>'',
       ''    name: '' @ utf8 [0x7EC4, 0x6001, 0x7AEF] @ ''\<newline>'',
       ''    enabled: false\<newline>'',
       ''  - id: cloud\<newline>'',
       ''    name: '' @ utf8 [0x4E91, 0x5E73, 0x53F0, 0x7AEF] @ ''\<newline>'',
       ''    enabled: false\<newline>'',
       ''  - id: app\<newline>'',
       ''    name: APP'' @ utf8 [0x7AEF] @ ''\<newline>'',
       ''    enabled: false\<newline>'',
       ''  - id: edge-ai\<newline>'',
       ''    name: '' @ utf8 [0x8FB9, 0x7F18, 0x667A, 0x80FD, 0x670D, 0x52A1,
           0x5668] @ ''\<newline>'',
       ''    enabled: false\<newline>'',
       ''  - id: scada\<newline>'',
       ''    name: Scada'' @ utf8 [0x8F6F, 0x4EF6] @ ''\<newline>'',
       ''    enabled: false\<newline>'',
       ''  - id: web-editor\<newline>'',
       ''    name: Web'' @ utf8 [0x53EF, 0x89C6, 0x5316, 0x7F16, 0x8F91, 0x5668] @ ''\<newline>'',
       ''    enabled: false\<newline>'']"
proof -
  have tokens: "split CHR '','' (lower ''gateway,hmi'') = [''gateway'', ''hmi'']"
    by (simp add: lower_def lower_char_def char_eval)
  have flag: "\<And>p. p \<in> set known_platforms \<Longrightarrow>
      get (main_config_data (parse_args (opts\<lparr>opt_platforms := Some ''gateway,hmi''\<rparr>))) p
        (PyBool False) = PyBool (p = ''gateway'' \<or> p = ''hmi'')"
    by (simp add: main_config_data_flag parse_args_def tokens)
  have flags:
    "platforms (default_config (main_config_data
        (parse_args (opts\<lparr>opt_platforms := Some ''gateway,hmi''\<rparr>)))) =
     [\<lparr>platform_id = ''gateway'', platform_name = utf8 [0x7F51, 0x5173, 0x7AEF],
        platform_enabled = PyBool True\<rparr>,
      \<lparr>platform_id = ''hmi'', platform_name = ''HMI'' @ utf8 [0x8FD0, 0x884C, 0x7AEF],
        platform_enabled = PyBool True\<rparr>,
      \<lparr>platform_id = ''configuration'', platform_name = utf8 [0x7EC4, 0x6001, 0x7AEF],
        platform_enabled = PyBool False\<rparr>,
      \<lparr>platform_id = ''cloud'', platform_name = utf8 [0x4E91, 0x5E73, 0x53F0, 0x7AEF],
        platform_enabled = PyBool False\<rparr>,
      \<lparr>platform_id = ''app'', platform_name = ''APP'' @ utf8 [0x7AEF],
        platform_enabled = PyBool False\<rparr>,
      \<lparr>platform_id = ''edge-ai'',
        platform_name = utf8 [0x8FB9, 0x7F18, 0x667A, 0x80FD, 0x670D, 0x52A1, 0x5668],
        platform_enabled = PyBool False\<rparr>,
      \<lparr>platform_id = ''scada'', platform_name = ''Scada'' @ utf8 [0x8F6F, 0x4EF6],
        platform_enabled = PyBool False\<rparr>,
      \<lparr>platform_id = ''web-editor'',
        platform_name = ''Web'' @ utf8 [0x53EF, 0x89C6, 0x5316, 0x7F16, 0x8F91, 0x5668],
        platform_enabled = PyBool False\<rparr>]"
    by (simp add: default_config_def platform_def flag known_platforms_def)
  show ?thesis
    unfolding flags by (simp add: yaml_platform_def lower_def lower_char_def char_eval)
qed

text \<open>
  C3. With \<open>--platforms gateway,hmi\<close> the platform table of the configuration has the flag
  \<open>True\<close> for gateway and hmi and \<open>False\<close> for the six other platforms; the platform
  blocks of the configuration text read \<open>enabled: true\<close> for these two and
  \<open>enabled: false\<close> for the others; and when the run returns without an exception,
  \<open>config.yml\<close> holds the head of the text, these blocks and the fixed tail.
\<close>

theorem platforms_gateway_hmi:

  "map (\<lambda>p. (platform_id p, platform_enabled p))
     (platforms (default_config (main_config_data
        (parse_args (opts\<lparr>opt_platforms := Some ''gateway,hmi''\<rparr>))))) =
     [(''gateway'', PyBool True), (''hmi'', PyBool True), (''configuration'', PyBool False),
      (''cloud'', PyBool False), (''app'', PyBool False), (''edge-ai'', PyBool False),
      (''scada'', PyBool False), (''web-editor'', PyBool False)]
   \<and> concat (map yaml_platform (platforms (default_config (main_config_data
        (parse_args (opts\<lparr>opt_platforms := Some ''gateway,hmi''\<rparr>)))))) =
     concat [
       ''  - id: gateway\<newline>'',
       ''    name: '' @ utf8 [0x7F51, 0x5173, 0x7AEF] @ ''\<newline>'',
       ''    enabled: true\<newline>'',
       ''  - id: hmi\<newline>'',
       ''    name: HMI'' @ utf8 [0x8FD0, 0x884C, 0x7AEF] @ ''\<newline>'',
       ''    enabled: true\<newline>'',
       ''  - id: configuration\<newline>'',
       ''    name: '' @ utf8 [0x7EC4, 0x6001, 0x7AEF] @ ''\<newline>'',
       ''    enabled: false\<newline>'',
       ''  - id: cloud\<newline>'',
       ''    name: '' @ utf8 [0x4E91, 0x5E73, 0x53F0, 0x7AEF] @ ''\<newline>'',
       ''    enabled: false\<newline>'',
       ''  - id: app\<newline>'',
       ''    name: APP'' @ utf8 [0x7AEF] @ ''\<newline>'',
       ''    enabled: false\<newline>'',
       ''  - id: edge-ai\<newline>'',
       ''    name: '' @ utf8 [0x8FB9, 0x7F18, 0x667A, 0x80FD, 0x670D, 0x52A1,
           0x5668] @ ''\<newline>'',
       ''    enabled: false\<newline>'',
       ''  - id: scada\<newline>'',
       ''    name: Scada'' @ utf8 [0x8F6F, 0x4EF6] @ ''\<newline>'',
       ''    enabled: false\<newline>'',
       ''  - id: web-editor\<newline>'',
       ''    name: Web'' @ utf8 [0x53EF, 0x89C6, 0x5316, 0x7F16, 0x8F91, 0x5668] @ ''\<newline>'',
       ''    enabled: false\<newline>'']
   \<and> (main resolve now (opts\<lparr>opt_platforms := Some ''gateway,hmi''\<rparr>) w = (None, w') \<longrightarrow>
      files w'
        (join (join (resolve (arg_project_path
            (parse_args (opts\<lparr>opt_platforms := Some ''gateway,hmi''\<rparr>)))) ''.claude-workflow'')
          ''config.yml'') =
        Some (File
          (yaml_head (default_config (main_config_data
              (parse_args (opts\<lparr>opt_platforms := Some ''gateway,hmi''\<rparr>))))
           @ concat (map yaml_platform (platforms (default_config (main_config_data
              (parse_args (opts\<lparr>opt_platforms := Some ''gateway,hmi''\<rparr>))))))
           @ yaml_tail)))"
  using gateway_hmi_table [of opts]
    main_writes_config [of resolve now "opts\<lparr>opt_platforms := Some ''gateway,hmi''\<rparr>" w w']
  unfolding yaml_content_parts by blast

theorem platforms_gateway_hmi_witness:
  "fst (main example_resolve example_now (no_options\<lparr>opt_platforms := Some ''gateway,hmi''\<rparr>)
      example_world) = None
   \<and> files (snd (main example_resolve example_now
        (no_options\<lparr>opt_platforms := Some ''gateway,hmi''\<rparr>) example_world))
      [''work'', ''proj'', ''.claude-workflow'', ''config.yml''] =
      Some (File
        (yaml_head (default_config (main_config_data
            (parse_args (no_options\<lparr>opt_platforms := Some ''gateway,hmi''\<rparr>))))
         @ concat (map yaml_platform (platforms (default_config (main_config_data
            (parse_args (no_options\<lparr>opt_platforms := Some ''gateway,hmi''\<rparr>))))))
         @ yaml_tail))"
proof -
  let ?o = "no_options\<lparr>opt_platforms := Some ''gateway,hmi''\<rparr>"
  let ?r = "main example_resolve example_now ?o example_world"
  have o: "opt_project_path ?o = Some ''proj''" "opt_template_source ?o = None"
    by (simp_all add: no_options_def)
  have ok: "fst ?r = None" using o by (rule example_main_run)
  then have r: "?r = (None, snd ?r)" by (simp add: prod_eq_iff)
  show ?thesis
    using ok r platforms_gateway_hmi [where resolve = example_resolve and now = example_now
        and opts = no_options and w = example_world and w' = "snd ?r"]
    unfolding example_main_run(2) [OF o] by blast
qed

lemma no_project_name_text:
  "project_name (project (default_config (main_config_data
      (parse_args (opts\<lparr>opt_project_name := None\<rparr>))))) = PyNone
   \<and> prefix
       (concat [
          ''# Claude Code '' @ utf8 [0x5DE5, 0x4F5C, 0x6D41, 0x914D, 0x7F6E] @ ''\<newline>'',
          ''\<newline>'',
          ''project:\<newline>'',
          ''  name: '' @ [CHR 0x22] @ ''None'' @ [CHR 0x22] @ ''\<newline>''])
       (yaml_content (main_config_data (parse_args (opts\<lparr>opt_project_name := None\<rparr>))))
   \<and> project_name (project (default_config Map.empty)) = PyStr ''My Project''"
proof -
  let ?d = "main_config_data (parse_args (opts\<lparr>opt_project_name := None\<rparr>))"
  have "''project_name'' \<notin> set known_platforms" by (simp add: known_platforms_def)
  then have key: "?d ''project_name'' = Some PyNone"
    by (simp add: main_config_data_def Let_def parse_args_def of_optional_def
        fold_enable_platform)
  then have name: "project_name (project (default_config ?d)) = PyNone"
    by (simp add: default_config_def get_def)
  have "prefix
       (concat [
          ''# Claude Code '' @ utf8 [0x5DE5, 0x4F5C, 0x6D41, 0x914D, 0x7F6E] @ ''\<newline>'',
          ''\<newline>'',
          ''project:\<newline>'',
          ''  name: '' @ [CHR 0x22] @ ''None'' @ [CHR 0x22] @ ''\<newline>''])
       (yaml_head (default_config ?d))"
    unfolding yaml_head_def name by simp
  then have "prefix
       (concat [
          ''# Claude Code '' @ utf8 [0x5DE5, 0x4F5C, 0x6D41, 0x914D, 0x7F6E] @ ''\<newline>'',
          ''\<newline>'',
          ''project:\<newline>'',
          ''  name: '' @ [CHR 0x22] @ ''None'' @ [CHR 0x22] @ ''\<newline>''])
       (yaml_content ?d)"
    unfolding yaml_content_parts by (rule prefix_prefix)
  moreover have "project_name (project (default_config Map.empty)) = PyStr ''My Project''"
    by (simp add: default_config_def get_def)
  ultimately show ?thesis using name by blast
qed

text \<open>
  C2, what the code does. Run without \<open>--project-name\<close>, \<open>main\<close> stores \<open>None\<close> under
  the key \<open>project_name\<close>; the key is present, so the default of
  \<open>create_initial_config\<close> is not used, and the configuration text starts with a project
  section whose name is \<open>"None"\<close>, not \<open>"My Project"\<close>. The default is used when the
  key is absent, as in a call of \<open>initialize\<close> with no configuration data. On the example,
  a run with no option but the project path returns without an exception and leaves a
  \<open>config.yml\<close> that starts with this project section.
\<close>

theorem main_without_project_name:

  "project_name (project (default_config (main_config_data
      (parse_args (opts\<lparr>opt_project_name := None\<rparr>))))) = PyNone
   \<and> prefix
       (concat [
          ''# Claude Code '' @ utf8 [0x5DE5, 0x4F5C, 0x6D41, 0x914D, 0x7F6E] @ ''\<newline>'',
          ''\<newline>'',
          ''project:\<newline>'',
          ''  name: '' @ [CHR 0x22] @ ''None'' @ [CHR 0x22] @ ''\<newline>''])
       (yaml_content (main_config_data (parse_args (opts\<lparr>opt_project_name := None\<rparr>))))
   \<and> project_name (project (default_config Map.empty)) = PyStr ''My Project''
   \<and> fst (main example_resolve example_now no_options example_world) = None
   \<and> (\<exists>rest. files (snd (main example_resolve example_now no_options example_world))
        [''work'', ''proj'', ''.claude-workflow'', ''config.yml''] =
        Some (File (concat [
          ''# Claude Code '' @ utf8 [0x5DE5, 0x4F5C, 0x6D41, 0x914D, 0x7F6E] @ ''\<newline>'',
          ''\<newline>'',
          ''project:\<newline>'',
          ''  name: '' @ [CHR 0x22] @ ''None'' @ [CHR 0x22] @ ''\<newline>''] @ rest)))"
proof -
  let ?r = "main example_resolve example_now no_options example_world"
  have o: "opt_project_path no_options = Some ''proj''" "opt_template_source no_options = None"
    "no_options\<lparr>opt_project_name := None\<rparr> = no_options"
    by (simp_all add: no_options_def)
  have ok: "fst ?r = None" using o(1,2) by (rule example_main_run)
  then have r: "?r = (None, snd ?r)" by (simp add: prod_eq_iff)
  have f: "files (snd ?r) [''work'', ''proj'', ''.claude-workflow'', ''config.yml''] =
      Some (File (yaml_content (main_config_data (parse_args no_options))))"
    using main_writes_config [OF r] unfolding example_main_run(2) [OF o(1,2)] .
  have "\<exists>rest. yaml_content (main_config_data (parse_args no_options)) =
      concat [
          ''# Claude Code '' @ utf8 [0x5DE5, 0x4F5C, 0x6D41, 0x914D, 0x7F6E] @ ''\<newline>'',
          ''\<newline>'',
          ''project:\<newline>'',
          ''  name: '' @ [CHR 0x22] @ ''None'' @ [CHR 0x22] @ ''\<newline>''] @ rest"
    using no_project_name_text [of no_options] unfolding o(3) prefix_def by blast
  then have "\<exists>rest. files (snd ?r) [''work'', ''proj'', ''.claude-workflow'', ''config.yml''] =
        Some (File (concat [
          ''# Claude Code '' @ utf8 [0x5DE5, 0x4F5C, 0x6D41, 0x914D, 0x7F6E] @ ''\<newline>'',
          ''\<newline>'',
          ''project:\<newline>'',
          ''  name: '' @ [CHR 0x22] @ ''None'' @ [CHR 0x22] @ ''\<newline>''] @ rest))"
    unfolding f by blast
  then show ?thesis
    using no_project_name_text [of opts] ok by blast
qed

end
